theory Spec2Isabelle
  imports Complex_Main
begin

section \<open>Errors, the trace of tensor operations, and computations\<close>

text \<open>
  The module under verification is
  \<^verbatim>\<open>hela/approximation/approximators/multihead/customizable_multihead.py\<close>:
  a multi-head attention layer whose query-key product, masking, kernel and attention
  functions can be replaced, the engine \<^verbatim>\<open>_multi_head_attention_forward\<close> that runs
  it, and the approximator that builds such a layer from an existing
  \<^verbatim>\<open>nn.MultiheadAttention\<close>.

  Python exceptions are values. The message of an exception is kept without the
  numbers an f-string formats into it.
\<close>

datatype error =
    AssertionError string
  | RuntimeError string
  | ValueError string
  | TypeError string
  | IndexError string
  | AttributeError string
  | ZeroDivisionError

text \<open>
  A call into the tensor library is an effect the claims speak about ("before any tensor
  operation executes"), so a computation returns the list of the library calls it made,
  in order, together with its result or the exception that ended it. \<open>Warn\<close> is a
  \<^verbatim>\<open>warnings.warn\<close>.
\<close>

datatype event = Op string | Warn string

type_synonym 'x comp = "event list \<times> (error + 'x)"

definition ret :: "'x \<Rightarrow> 'x comp" where
  "ret x = ([], Inr x)"

definition raise :: "error \<Rightarrow> 'x comp" where
  "raise e = ([], Inl e)"

definition bind :: "'x comp \<Rightarrow> ('x \<Rightarrow> 'y comp) \<Rightarrow> 'y comp" where
  "bind m f =
     (case m of
        (l, Inl e) \<Rightarrow> (l, Inl e)
      | (l, Inr x) \<Rightarrow> (case f x of (l', r) \<Rightarrow> (l @ l', r)))"

definition op :: "string \<Rightarrow> (error + 'x) \<Rightarrow> 'x comp" where
  \<comment> \<open>one call of the tensor library: it is logged, then it returns or raises\<close>
  "op name r = ([Op name], r)"

definition warn :: "string \<Rightarrow> unit comp" where
  "warn msg = ([Warn msg], Inr ())"

definition lift :: "(error + 'x) \<Rightarrow> 'x comp" where
  \<comment> \<open>a step of plain Python, which calls no tensor operation\<close>
  "lift r = ([], r)"

definition py_assert :: "bool \<Rightarrow> string \<Rightarrow> unit comp" where
  "py_assert c msg = (if c then ret () else raise (AssertionError msg))"

definition trace :: "'x comp \<Rightarrow> event list" where
  "trace m = fst m"

definition outcome :: "'x comp \<Rightarrow> error + 'x" where
  "outcome m = snd m"

fun tensor_ops :: "event list \<Rightarrow> string list" where
  \<comment> \<open>the names of the tensor operations of a trace, in order\<close>
  "tensor_ops [] = []"
| "tensor_ops (Op name # evs) = name # tensor_ops evs"
| "tensor_ops (Warn msg # evs) = tensor_ops evs"

section \<open>Tensors\<close>

text \<open>
  A tensor is its shape, its dtype and its elements in row-major order. The element type
  \<open>'a\<close> of floating tensors is a parameter: nothing below assumes that floating
  addition is associative or exact. Tensors are contiguous: strides are not modelled, so
  \<^verbatim>\<open>contiguous()\<close> is the identity and \<^verbatim>\<open>view\<close> fails only on a size mismatch.
\<close>

datatype dtype = Float | Bool | UInt8 | Int64

datatype 'a elem = EFloat 'a | EBool bool | EByte nat | EInt int

record 'a tensor =
  shape :: "nat list"
  dtype :: dtype
  elems :: "'a elem list"

definition dim :: "'a tensor \<Rightarrow> nat" where
  "dim t = length (shape t)"

definition numel :: "nat list \<Rightarrow> nat" where
  "numel sh = prod_list sh"

fun chunks :: "nat \<Rightarrow> nat \<Rightarrow> 'b list \<Rightarrow> 'b list list" where
  \<comment> \<open>the first \<open>k\<close> consecutive pieces of length \<open>n\<close>\<close>
  "chunks 0 n xs = []"
| "chunks (Suc k) n xs = take n xs # chunks k n (drop n xs)"

definition unsqueeze :: "'a tensor \<Rightarrow> nat \<Rightarrow> error + 'a tensor" where
  "unsqueeze t d =
     (if d \<le> dim t
      then Inr (t\<lparr>shape := take d (shape t) @ [1] @ drop d (shape t)\<rparr>)
      else Inl (IndexError ''Dimension out of range''))"

definition squeeze :: "'a tensor \<Rightarrow> nat \<Rightarrow> error + 'a tensor" where
  \<comment> \<open>\<^verbatim>\<open>squeeze(d)\<close> removes dimension \<open>d\<close> when its size is 1 and else changes nothing\<close>
  "squeeze t d =
     (if d < dim t
      then (if shape t ! d = 1
            then Inr (t\<lparr>shape := take d (shape t) @ drop (Suc d) (shape t)\<rparr>)
            else Inr t)
      else Inl (IndexError ''Dimension out of range''))"

definition view :: "'a tensor \<Rightarrow> int list \<Rightarrow> error + 'a tensor" where
  \<comment> \<open>The sizes are Python ints. At the call sites of this module a negative size is
      never the single inferable \<open>-1\<close> of a consistent shape, so it raises.\<close>
  "view t sizes =
     (if list_ex (\<lambda>s. s < 0) sizes
      then Inl (RuntimeError ''invalid shape dimension'')
      else if numel (map nat sizes) = numel (shape t)
      then Inr (t\<lparr>shape := map nat sizes\<rparr>)
      else Inl (RuntimeError ''shape is invalid for input size''))"

definition transpose01 :: "'a tensor \<Rightarrow> error + 'a tensor" where
  \<comment> \<open>\<^verbatim>\<open>transpose(0, 1)\<close>, the same as \<^verbatim>\<open>transpose(1, 0)\<close>\<close>
  "transpose01 t =
     (case shape t of
        a # b # rest \<Rightarrow>
          (let n = numel rest in
           Inr (t\<lparr>shape := b # a # rest,
                  elems := concat (map (\<lambda>j. concat (map (\<lambda>i.
                             take n (drop ((i * b + j) * n) (elems t))) [0..<a])) [0..<b])\<rparr>))
      | _ \<Rightarrow> Inl (IndexError ''Dimension out of range''))"

definition transpose_last2 :: "'a tensor \<Rightarrow> error + 'a tensor" where
  \<comment> \<open>\<^verbatim>\<open>transpose(-2, -1)\<close>\<close>
  "transpose_last2 t =
     (case rev (shape t) of
        c # r # pre \<Rightarrow>
          Inr (t\<lparr>shape := rev pre @ [c, r],
                 elems := concat (map (\<lambda>m. concat (map (\<lambda>j. map (\<lambda>i.
                            elems t ! ((m * r + i) * c + j)) [0..<r]) [0..<c]))
                            [0..<numel pre])\<rparr>)
      | _ \<Rightarrow> Inl (IndexError ''Dimension out of range''))"

subsection \<open>Type promotion and casts\<close>

fun category :: "dtype \<Rightarrow> nat" where
  "category Bool = 0"
| "category UInt8 = 1"
| "category Int64 = 1"
| "category Float = 2"

fun promote :: "dtype \<Rightarrow> dtype \<Rightarrow> dtype" where
  "promote Float _ = Float"
| "promote _ Float = Float"
| "promote Int64 _ = Int64"
| "promote _ Int64 = Int64"
| "promote UInt8 _ = UInt8"
| "promote _ UInt8 = UInt8"
| "promote Bool Bool = Bool"

fun elem_int :: "'a elem \<Rightarrow> int" where
  \<comment> \<open>the integer value of an element that is not floating\<close>
  "elem_int (EBool b) = (if b then 1 else 0)"
| "elem_int (EByte n) = int n"
| "elem_int (EInt i) = i"
| "elem_int (EFloat _) = 0"

fun elem_float :: "(int \<Rightarrow> 'a) \<Rightarrow> 'a elem \<Rightarrow> 'a" where
  "elem_float oi (EFloat x) = x"
| "elem_float oi e = oi (elem_int e)"

fun elem_truth :: "('a \<Rightarrow> bool) \<Rightarrow> 'a elem \<Rightarrow> bool" where
  \<comment> \<open>an element read as a boolean: it is not zero\<close>
  "elem_truth nz (EFloat x) = nz x"
| "elem_truth nz (EBool b) = b"
| "elem_truth nz (EByte n) = (n \<noteq> 0)"
| "elem_truth nz (EInt i) = (i \<noteq> 0)"

fun cast_elem :: "(int \<Rightarrow> 'a) \<Rightarrow> ('a \<Rightarrow> bool) \<Rightarrow> dtype \<Rightarrow> 'a elem \<Rightarrow> 'a elem" where
  \<comment> \<open>Casts as this module needs them: up the promotion order, and to \<open>Bool\<close>.\<close>
  "cast_elem oi nz Float e = EFloat (elem_float oi e)"
| "cast_elem oi nz Int64 e = EInt (elem_int e)"
| "cast_elem oi nz UInt8 e = EByte (nat (elem_int e) mod 256)"
| "cast_elem oi nz Bool e = EBool (elem_truth nz e)"

definition zero_elem :: "(int \<Rightarrow> 'a) \<Rightarrow> dtype \<Rightarrow> 'a elem" where
  "zero_elem oi dt = (case dt of Float \<Rightarrow> EFloat (oi 0) | Bool \<Rightarrow> EBool False
                      | UInt8 \<Rightarrow> EByte 0 | Int64 \<Rightarrow> EInt 0)"

definition zeros :: "(int \<Rightarrow> 'a) \<Rightarrow> nat list \<Rightarrow> dtype \<Rightarrow> 'a tensor" where
  "zeros oi sh dt = \<lparr>shape = sh, dtype = dt, elems = replicate (numel sh) (zero_elem oi dt)\<rparr>"

definition to_dtype :: "(int \<Rightarrow> 'a) \<Rightarrow> ('a \<Rightarrow> bool) \<Rightarrow> 'a tensor \<Rightarrow> dtype \<Rightarrow> 'a tensor" where
  "to_dtype oi nz t dt = t\<lparr>dtype := dt, elems := map (cast_elem oi nz dt) (elems t)\<rparr>"

subsection \<open>Broadcasting\<close>

fun expand_elems :: "nat list \<Rightarrow> nat list \<Rightarrow> 'b list \<Rightarrow> 'b list" where
  \<comment> \<open>the elements of a tensor of shape \<open>src\<close> read at shape \<open>tgt\<close>, where every size of
      \<open>src\<close> is the size of \<open>tgt\<close> or 1\<close>
  "expand_elems (s # ss) (t # ts) xs =
     (if s = t
      then concat (map (expand_elems ss ts) (chunks s (numel ss) xs))
      else concat (replicate t (expand_elems ss ts xs)))"
| "expand_elems _ _ xs = xs"

definition expandable :: "nat list \<Rightarrow> nat list \<Rightarrow> bool" where
  "expandable src tgt =
     (length src \<le> length tgt \<and>
      list_all2 (\<lambda>s t. s = t \<or> s = 1)
        (replicate (length tgt - length src) 1 @ src) tgt)"

definition expand :: "'a tensor \<Rightarrow> nat list \<Rightarrow> error + 'a tensor" where
  "expand t tgt =
     (if expandable (shape t) tgt
      then Inr (t\<lparr>shape := tgt,
                  elems := expand_elems
                             (replicate (length tgt - dim t) 1 @ shape t) tgt (elems t)\<rparr>)
      else Inl (RuntimeError ''The expanded size of the tensor must match the existing size''))"

fun broadcast_shapes_rev :: "nat list \<Rightarrow> nat list \<Rightarrow> nat list option" where
  \<comment> \<open>on reversed shapes, so that the last dimensions are aligned\<close>
  "broadcast_shapes_rev [] ys = Some ys"
| "broadcast_shapes_rev xs [] = Some xs"
| "broadcast_shapes_rev (x # xs) (y # ys) =
     (if x = y \<or> y = 1 then map_option ((#) x) (broadcast_shapes_rev xs ys)
      else if x = 1 then map_option ((#) y) (broadcast_shapes_rev xs ys)
      else None)"

definition broadcast_shapes :: "nat list \<Rightarrow> nat list \<Rightarrow> nat list option" where
  "broadcast_shapes a b = map_option rev (broadcast_shapes_rev (rev a) (rev b))"

definition expand_sizes :: "'a tensor \<Rightarrow> int list \<Rightarrow> error + 'a tensor" where
  \<comment> \<open>\<^verbatim>\<open>expand(*sizes)\<close> with as many sizes as the tensor has dimensions: \<open>-1\<close> keeps a
      size, another negative size raises\<close>
  "expand_sizes t sizes =
     (if length sizes \<noteq> dim t \<or> list_ex (\<lambda>s. s < - 1) sizes
      then Inl (RuntimeError ''The expanded size of the tensor is invalid'')
      else expand t (map2 (\<lambda>s d. if s = - 1 then d else nat s) sizes (shape t)))"

section \<open>The tensor library the module calls\<close>

text \<open>
  The numeric kernels of the library (matrix products, projections, softmax, dropout,
  the arithmetic of floating elements) are not code of this repository. They are the
  fields of a record that every definition below takes as \<open>T\<close>, so every theorem holds
  for whatever these functions compute. \<open>'r\<close> is the state of the random number
  generator that dropout reads.
\<close>

record ('a, 'r) torch =
  float_of_int :: "int \<Rightarrow> 'a"
  float_nonzero :: "'a \<Rightarrow> bool"
  float_add :: "'a \<Rightarrow> 'a \<Rightarrow> 'a"
  float_sum :: "'a list \<Rightarrow> 'a"
  float_div :: "'a \<Rightarrow> 'a \<Rightarrow> 'a"
  float_sqrt :: "nat \<Rightarrow> 'a"
  torch_bmm :: "'a tensor \<Rightarrow> 'a tensor \<Rightarrow> error + 'a tensor"
  nn_Softmax :: "'a tensor \<Rightarrow> error + 'a tensor"
  F_dropout :: "'r \<Rightarrow> 'a tensor \<Rightarrow> real \<Rightarrow> error + 'a tensor"
  F_linear :: "'a tensor \<Rightarrow> 'a tensor \<Rightarrow> 'a tensor option \<Rightarrow> error + 'a tensor"
  F_in_projection_packed ::
    "'a tensor \<Rightarrow> 'a tensor \<Rightarrow> 'a tensor \<Rightarrow> 'a tensor option \<Rightarrow> 'a tensor option
       \<Rightarrow> error + ('a tensor \<times> 'a tensor \<times> 'a tensor)"
  F_in_projection ::
    "'a tensor \<Rightarrow> 'a tensor \<Rightarrow> 'a tensor \<Rightarrow> 'a tensor \<Rightarrow> 'a tensor \<Rightarrow> 'a tensor
       \<Rightarrow> 'a tensor option \<Rightarrow> 'a tensor option \<Rightarrow> 'a tensor option
       \<Rightarrow> error + ('a tensor \<times> 'a tensor \<times> 'a tensor)"
  F_mha_shape_check ::
    "'a tensor \<Rightarrow> 'a tensor \<Rightarrow> 'a tensor \<Rightarrow> 'a tensor option \<Rightarrow> 'a tensor option
       \<Rightarrow> int \<Rightarrow> error + bool"
  init_parameter :: "string \<Rightarrow> nat list \<Rightarrow> 'a tensor"

definition to_bool :: "('a, 'r) torch \<Rightarrow> 'a tensor \<Rightarrow> 'a tensor" where
  \<comment> \<open>\<^verbatim>\<open>t.to(torch.bool)\<close>\<close>
  "to_bool T t = to_dtype (float_of_int T) (float_nonzero T) t Bool"

definition cast_to :: "('a, 'r) torch \<Rightarrow> dtype \<Rightarrow> 'a tensor \<Rightarrow> 'a tensor" where
  "cast_to T dt t = to_dtype (float_of_int T) (float_nonzero T) t dt"

definition zeros_sizes :: "('a, 'r) torch \<Rightarrow> int list \<Rightarrow> dtype \<Rightarrow> error + 'a tensor" where
  \<comment> \<open>\<^verbatim>\<open>torch.zeros(sizes, dtype=dt)\<close> with Python ints as sizes\<close>
  "zeros_sizes T sizes dt =
     (if list_ex (\<lambda>s. s < 0) sizes
      then Inl (RuntimeError ''Trying to create tensor with negative dimension'')
      else Inr (zeros (float_of_int T) (map nat sizes) dt))"

definition pad_last :: "('a, 'r) torch \<Rightarrow> 'a tensor \<Rightarrow> error + 'a tensor" where
  \<comment> \<open>\<^verbatim>\<open>torch.nn.functional.pad(t, (0, 1))\<close>: one zero after every row of the last
      dimension\<close>
  "pad_last T t =
     (if shape t = [] then Inl (RuntimeError ''Padding length too large'')
      else Inr (t\<lparr>shape := butlast (shape t) @ [Suc (last (shape t))],
                  elems := concat (map (\<lambda>row. row @ [zero_elem (float_of_int T) (dtype t)])
                             (chunks (numel (butlast (shape t))) (last (shape t)) (elems t)))\<rparr>))"

definition cat0 :: "('a, 'r) torch \<Rightarrow> 'a tensor \<Rightarrow> 'a tensor \<Rightarrow> error + 'a tensor" where
  \<comment> \<open>\<^verbatim>\<open>torch.cat([a, b])\<close>, along dimension 0\<close>
  "cat0 T a b =
     (case (shape a, shape b) of
        (x # xs, y # ys) \<Rightarrow>
          (if xs = ys
           then (let dt = promote (dtype a) (dtype b) in
                 Inr \<lparr>shape = (x + y) # xs, dtype = dt,
                      elems = elems (cast_to T dt a) @ elems (cast_to T dt b)\<rparr>)
           else Inl (RuntimeError ''Sizes of tensors must match except in dimension 0''))
      | _ \<Rightarrow> Inl (RuntimeError ''zero-dimensional tensor cannot be concatenated''))"

definition cat1 :: "('a, 'r) torch \<Rightarrow> 'a tensor \<Rightarrow> 'a tensor \<Rightarrow> error + 'a tensor" where
  \<comment> \<open>\<^verbatim>\<open>torch.cat([a, b], dim=1)\<close>\<close>
  "cat1 T a b =
     (case (shape a, shape b) of
        (a0 # a1 # as, b0 # b1 # bs) \<Rightarrow>
          (if a0 = b0 \<and> as = bs
           then (let dt = promote (dtype a) (dtype b); n = numel as in
                 Inr \<lparr>shape = a0 # (a1 + b1) # as, dtype = dt,
                      elems = concat (map2 (@)
                                (chunks a0 (a1 * n) (elems (cast_to T dt a)))
                                (chunks b0 (b1 * n) (elems (cast_to T dt b))))\<rparr>)
           else Inl (RuntimeError ''Sizes of tensors must match except in dimension 1''))
      | _ \<Rightarrow> Inl (IndexError ''Dimension out of range''))"

definition repeat_1n1 :: "'a tensor \<Rightarrow> nat \<Rightarrow> error + 'a tensor" where
  \<comment> \<open>\<^verbatim>\<open>t.repeat(1, n, 1)\<close>: a tensor of fewer than three dimensions is read with
      leading dimensions of size 1\<close>
  "repeat_1n1 t n =
     (case replicate (3 - dim t) 1 @ shape t of
        [a, b, c] \<Rightarrow>
          Inr (t\<lparr>shape := [a, b * n, c],
                 elems := concat (map (\<lambda>blk. concat (replicate n blk))
                            (chunks a (b * c) (elems t)))\<rparr>)
      | _ \<Rightarrow> Inl (RuntimeError
             ''Number of dimensions of repeat dims can not be smaller than number of dimensions of tensor''))"

definition chunk3 :: "'a tensor \<Rightarrow> error + ('a tensor \<times> 'a tensor \<times> 'a tensor)" where
  \<comment> \<open>\<^verbatim>\<open>b_q, b_k, b_v = t.chunk(3)\<close>: \<^verbatim>\<open>chunk\<close> cuts dimension 0 into pieces of
      \<open>\<lceil>n / 3\<rceil>\<close> rows and may return fewer than three, on which the unpacking raises\<close>
  "chunk3 t =
     (case shape t of
        [] \<Rightarrow> Inl (RuntimeError ''chunk expects at least a 1-dimensional tensor'')
      | n # rest \<Rightarrow>
          (let c = (n + 2) div 3; m = numel rest;
               piece = (\<lambda>i len. t\<lparr>shape := len # rest,
                                   elems := take (len * m) (drop (i * c * m) (elems t))\<rparr>)
           in if n = 0 \<or> 2 * c < n
              then Inr (piece 0 c, piece 1 c, piece 2 (n - 2 * c))
              else Inl (ValueError ''not enough values to unpack (expected 3)'')))"

subsection \<open>Element-wise operations with broadcasting\<close>

definition add_elem :: "('a, 'r) torch \<Rightarrow> dtype \<Rightarrow> 'a elem \<Rightarrow> 'a elem \<Rightarrow> 'a elem" where
  \<comment> \<open>the sum of two elements, in dtype \<open>dt\<close> (64-bit wrap-around is left out)\<close>
  "add_elem T dt x y =
     (case dt of
        Float \<Rightarrow> EFloat (float_add T (elem_float (float_of_int T) x)
                                     (elem_float (float_of_int T) y))
      | Int64 \<Rightarrow> EInt (elem_int x + elem_int y)
      | UInt8 \<Rightarrow> EByte (nat ((elem_int x + elem_int y) mod 256))
      | Bool \<Rightarrow> EBool (elem_truth (float_nonzero T) x \<or> elem_truth (float_nonzero T) y))"

definition iadd :: "('a, 'r) torch \<Rightarrow> 'a tensor \<Rightarrow> 'a tensor \<Rightarrow> error + 'a tensor" where
  \<comment> \<open>the value of \<open>a\<close> after \<^verbatim>\<open>a += m\<close>: \<open>m\<close> is broadcast to the shape of \<open>a\<close>, and
      the sum must fit the dtype of \<open>a\<close>\<close>
  "iadd T a m =
     (if category (dtype a) < category (dtype m)
      then Inl (RuntimeError ''result type can't be cast to the desired output type'')
      else case expand m (shape a) of
             Inl e \<Rightarrow> Inl (RuntimeError ''output with shape doesn't match the broadcast shape'')
           | Inr m' \<Rightarrow> Inr (a\<lparr>elems := map2 (add_elem T (dtype a)) (elems a) (elems m')\<rparr>))"

definition logical_or :: "('a, 'r) torch \<Rightarrow> 'a tensor \<Rightarrow> 'a tensor \<Rightarrow> error + 'a tensor" where
  "logical_or T a b =
     (case broadcast_shapes (shape a) (shape b) of
        None \<Rightarrow> Inl (RuntimeError ''The size of tensor a must match the size of tensor b'')
      | Some sh \<Rightarrow>
          (case (expand a sh, expand b sh) of
             (Inr a', Inr b') \<Rightarrow>
               Inr \<lparr>shape = sh, dtype = Bool,
                    elems = map2 (\<lambda>x y. EBool (elem_truth (float_nonzero T) x
                                              \<or> elem_truth (float_nonzero T) y))
                              (elems a') (elems b')\<rparr>
           | _ \<Rightarrow> Inl (RuntimeError ''The size of tensor a must match the size of tensor b'')))"

definition fill_where :: "'a \<Rightarrow> 'a elem list \<Rightarrow> 'a elem list \<Rightarrow> 'a elem list" where
  "fill_where v xs ms = map2 (\<lambda>x m. if m = EBool True then EFloat v else x) xs ms"

definition masked_fill :: "'a tensor \<Rightarrow> 'a tensor \<Rightarrow> 'a \<Rightarrow> error + 'a tensor" where
  \<comment> \<open>\<^verbatim>\<open>a.masked_fill(mask, v)\<close>, out of place: both tensors are broadcast. The mask
      must be boolean. The value is a floating value, which only a floating tensor takes.\<close>
  "masked_fill a msk v =
     (if dtype msk \<noteq> Bool
      then Inl (RuntimeError ''masked_fill only supports boolean masks'')
      else if dtype a \<noteq> Float
      then Inl (RuntimeError ''value cannot be converted to the dtype of the tensor'')
      else case broadcast_shapes (shape a) (shape msk) of
             None \<Rightarrow> Inl (RuntimeError ''The size of tensor a must match the size of tensor b'')
           | Some sh \<Rightarrow>
               (case (expand a sh, expand msk sh) of
                  (Inr a', Inr m') \<Rightarrow>
                    Inr \<lparr>shape = sh, dtype = Float,
                         elems = fill_where v (elems a') (elems m')\<rparr>
                | _ \<Rightarrow> Inl (RuntimeError
                         ''The size of tensor a must match the size of tensor b'')))"

definition masked_fill_inplace :: "'a tensor \<Rightarrow> 'a tensor \<Rightarrow> 'a \<Rightarrow> error + 'a tensor" where
  \<comment> \<open>the value of \<open>a\<close> after \<^verbatim>\<open>a.masked_fill_(mask, v)\<close>: only the mask is broadcast\<close>
  "masked_fill_inplace a msk v =
     (if dtype msk \<noteq> Bool
      then Inl (RuntimeError ''masked_fill only supports boolean masks'')
      else if dtype a \<noteq> Float
      then Inl (RuntimeError ''value cannot be converted to the dtype of the tensor'')
      else case expand msk (shape a) of
             Inl e \<Rightarrow> Inl e
           | Inr m' \<Rightarrow> Inr (a\<lparr>elems := fill_where v (elems a) (elems m')\<rparr>))"

definition sum_elems :: "('a, 'r) torch \<Rightarrow> dtype \<Rightarrow> 'a elem list \<Rightarrow> 'a elem" where
  \<comment> \<open>a floating sum is the library's reduction of the list; other dtypes sum as integers\<close>
  "sum_elems T dt xs =
     (case dt of
        Float \<Rightarrow> EFloat (float_sum T (map (elem_float (float_of_int T)) xs))
      | _ \<Rightarrow> EInt (sum_list (map elem_int xs)))"

definition sum_dim1 :: "('a, 'r) torch \<Rightarrow> 'a tensor \<Rightarrow> error + 'a tensor" where
  \<comment> \<open>\<^verbatim>\<open>t.sum(dim=1)\<close>\<close>
  "sum_dim1 T t =
     (case shape t of
        a # h # rest \<Rightarrow>
          (let n = numel rest in
           Inr \<lparr>shape = a # rest,
                dtype = (if dtype t = Float then Float else Int64),
                elems = concat (map (\<lambda>i. map (\<lambda>j.
                          sum_elems T (dtype t)
                            (map (\<lambda>k. elems t ! ((i * h + k) * n + j)) [0..<h]))
                          [0..<n]) [0..<a])\<rparr>)
      | _ \<Rightarrow> Inl (IndexError ''Dimension out of range''))"

definition div_scalar :: "('a, 'r) torch \<Rightarrow> 'a tensor \<Rightarrow> 'a \<Rightarrow> 'a tensor" where
  \<comment> \<open>\<^verbatim>\<open>t / s\<close> for a Python number \<open>s\<close>: true division, the result is floating\<close>
  "div_scalar T t s =
     t\<lparr>dtype := Float,
       elems := map (\<lambda>e. EFloat (float_div T (elem_float (float_of_int T) e) s)) (elems t)\<rparr>"

section \<open>Kernel primitives\<close>

text \<open>
  The four functions a layer can replace. Each is a callable that may call tensor
  operations and may raise; the attention function also receives the generator state.
\<close>

type_synonym 'a kernel_fn = "'a tensor \<Rightarrow> 'a tensor comp"

type_synonym 'a product_fn = "'a tensor \<Rightarrow> 'a tensor \<Rightarrow> 'a tensor comp"

type_synonym 'a masking_fn = "'a tensor \<Rightarrow> 'a tensor option \<Rightarrow> 'a \<Rightarrow> 'a tensor comp"

type_synonym ('a, 'r) attention_fn =
  "'r \<Rightarrow> 'a tensor \<Rightarrow> 'a tensor \<Rightarrow> 'a tensor \<Rightarrow> 'a tensor option \<Rightarrow> real
     \<Rightarrow> 'a kernel_fn \<Rightarrow> 'a \<Rightarrow> 'a masking_fn \<Rightarrow> 'a product_fn
     \<Rightarrow> ('a tensor \<times> 'a tensor) comp"

definition scaled_dot_product :: "('a, 'r) torch \<Rightarrow> 'a product_fn" where
  \<comment> \<open>\<^verbatim>\<open>_scaled_dot_product\<close>, lines 130-144\<close>
  "scaled_dot_product T query key =
     (case shape query of
        [B, Nt, E] \<Rightarrow>
          bind (op ''div'' (Inr (div_scalar T query (float_sqrt T E)))) (\<lambda>query.
          bind (op ''transpose'' (transpose_last2 key)) (\<lambda>key_t.
          op ''bmm'' (torch_bmm T query key_t)))
      | _ \<Rightarrow> raise (ValueError ''wrong number of values to unpack (expected 3)''))"

definition attn_masking :: "('a, 'r) torch \<Rightarrow> 'a masking_fn" where
  \<comment> \<open>\<^verbatim>\<open>_attn_masking\<close>, lines 147-161, as a function of values: what \<^verbatim>\<open>attn\<close>
      holds when the function returns. The in-place update is modelled on a store in
      \<open>attn_masking_store\<close> below.\<close>
  "attn_masking T attn attn_mask attn_mask_value =
     (case attn_mask of
        None \<Rightarrow> ret attn
      | Some m \<Rightarrow> op ''add_'' (iadd T attn m))"

definition kernel_softmax :: "('a, 'r) torch \<Rightarrow> 'a kernel_fn" where
  \<comment> \<open>the default kernel, \<^verbatim>\<open>nn.Softmax(dim=-1)\<close>\<close>
  "kernel_softmax T attn = op ''Softmax'' (nn_Softmax T attn)"

definition scaled_dot_product_attention :: "('a, 'r) torch \<Rightarrow> ('a, 'r) attention_fn" where
  \<comment> \<open>\<^verbatim>\<open>_scaled_dot_product_attention\<close>, lines 164-186\<close>
  "scaled_dot_product_attention T rng q k v attn_mask dropout_p kernel_function
       attn_mask_value attn_masking_function query_key_product =
     bind (query_key_product q k) (\<lambda>attn.
     bind (attn_masking_function attn attn_mask attn_mask_value) (\<lambda>attn.
     bind (kernel_function attn) (\<lambda>attn.
     bind (if dropout_p > 0 then op ''dropout'' (F_dropout T rng attn dropout_p)
           else ret attn) (\<lambda>attn.
     bind (op ''bmm'' (torch_bmm T attn v)) (\<lambda>output.
     ret (output, attn))))))"

section \<open>The masking function on a store\<close>

text \<open>
  \<^verbatim>\<open>attn += attn_mask\<close> updates the tensor object \<^verbatim>\<open>attn\<close> in place. To say which
  object the function returns, tensors are kept in a store and named by references.
\<close>

type_synonym ref = nat

type_synonym 'a store = "ref \<Rightarrow> 'a tensor"

definition attn_masking_store ::
  "('a, 'r) torch \<Rightarrow> 'a store \<Rightarrow> ref \<Rightarrow> ref option \<Rightarrow> 'a \<Rightarrow> error + ('a store \<times> ref)" where
  \<comment> \<open>\<^verbatim>\<open>_attn_masking\<close>, lines 147-161: the store after the call and the reference
      returned\<close>
  "attn_masking_store T st attn attn_mask attn_mask_value =
     (case attn_mask of
        None \<Rightarrow> Inr (st, attn)
      | Some m \<Rightarrow>
          (case iadd T (st attn) (st m) of
             Inl e \<Rightarrow> Inl e
           | Inr a \<Rightarrow> Inr (st(attn := a), attn)))"

section \<open>The attention execution engine\<close>

text \<open>
  \<^verbatim>\<open>_multi_head_attention_forward\<close>, lines 325-627, section by section. The tensors
  are plain tensors, for which \<^verbatim>\<open>has_torch_function\<close> is false, and shapes are
  Python ints (no tracing). \<open>tgt_len\<close>, \<open>bsz\<close>, \<open>embed_dim\<close> and \<open>src_len\<close> are read
  from shapes and so are naturals; \<open>num_heads\<close> and \<open>head_dim\<close> are Python ints.
\<close>

definition unsqueeze_opt :: "'a tensor option \<Rightarrow> nat \<Rightarrow> 'a tensor option comp" where
  "unsqueeze_opt t d =
     (case t of
        None \<Rightarrow> ret None
      | Some m \<Rightarrow> bind (op ''unsqueeze'' (unsqueeze m d)) (\<lambda>m. ret (Some m)))"

definition unsqueeze_unbatched ::
  "bool \<Rightarrow> 'a tensor \<Rightarrow> 'a tensor \<Rightarrow> 'a tensor \<Rightarrow> 'a tensor option
     \<Rightarrow> ('a tensor \<times> 'a tensor \<times> 'a tensor \<times> 'a tensor option) comp" where
  \<comment> \<open>lines 409-415\<close>
  "unsqueeze_unbatched is_batched query key val key_padding_mask =
     (if \<not> is_batched
      then bind (op ''unsqueeze'' (unsqueeze query 1)) (\<lambda>query.
           bind (op ''unsqueeze'' (unsqueeze key 1)) (\<lambda>key.
           bind (op ''unsqueeze'' (unsqueeze val 1)) (\<lambda>val.
           bind (unsqueeze_opt key_padding_mask 0) (\<lambda>key_padding_mask.
           ret (query, key, val, key_padding_mask)))))
      else ret (query, key, val, key_padding_mask))"

definition floordiv :: "int \<Rightarrow> int \<Rightarrow> int comp" where
  \<comment> \<open>Python's \<^verbatim>\<open>//\<close> on ints rounds to minus infinity, as \<open>div\<close> does\<close>
  "floordiv a b = (if b = 0 then raise ZeroDivisionError else ret (a div b))"

definition shape_vars ::
  "'a tensor \<Rightarrow> 'a tensor \<Rightarrow> 'a tensor \<Rightarrow> int \<Rightarrow> int \<Rightarrow> bool
     \<Rightarrow> (nat \<times> nat \<times> nat \<times> nat \<times> int) comp" where
  \<comment> \<open>lines 417-439: the shape variables and the assertions on them\<close>
  "shape_vars query key val embed_dim_to_check n_heads use_separate_proj_weight =
     (case shape query of
        [tgt_len, bsz, embed_dim] \<Rightarrow>
          (case shape key of
             [src_len, _, _] \<Rightarrow>
               bind (py_assert (int embed_dim = embed_dim_to_check)
                       ''was expecting a different embedding dimension'') (\<lambda>_.
               bind (floordiv (int embed_dim) n_heads) (\<lambda>head_dim.
               bind (py_assert (head_dim * n_heads = int embed_dim)
                       ''embed_dim not divisible by num_heads'') (\<lambda>_.
               bind (if use_separate_proj_weight
                     then py_assert (take 2 (shape key) = take 2 (shape val))
                            ''key sequence and batch dims do not match those of value''
                     else py_assert (shape key = shape val)
                            ''key shape does not match value shape'') (\<lambda>_.
               ret (tgt_len, bsz, embed_dim, src_len, head_dim)))))
           | _ \<Rightarrow> raise (ValueError ''wrong number of values to unpack (expected 3)''))
      | _ \<Rightarrow> raise (ValueError ''wrong number of values to unpack (expected 3)''))"

definition chunk_bias ::
  "'a tensor option \<Rightarrow> ('a tensor option \<times> 'a tensor option \<times> 'a tensor option) comp" where
  \<comment> \<open>lines 456-459\<close>
  "chunk_bias in_proj_b =
     (case in_proj_b of
        None \<Rightarrow> ret (None, None, None)
      | Some b \<Rightarrow> bind (op ''chunk'' (chunk3 b)) (\<lambda>(b_q, b_k, b_v).
                  ret (Some b_q, Some b_k, Some b_v)))"

definition compute_in_projection ::
  "('a, 'r) torch \<Rightarrow> 'a tensor \<Rightarrow> 'a tensor \<Rightarrow> 'a tensor \<Rightarrow> bool
     \<Rightarrow> 'a tensor option \<Rightarrow> 'a tensor option
     \<Rightarrow> 'a tensor option \<Rightarrow> 'a tensor option \<Rightarrow> 'a tensor option
     \<Rightarrow> ('a tensor \<times> 'a tensor \<times> 'a tensor) comp" where
  \<comment> \<open>lines 441-470\<close>
  "compute_in_projection T query key val use_separate_proj_weight in_proj_w in_proj_b
       q_proj_w k_proj_w v_proj_w =
     (if \<not> use_separate_proj_weight
      then op ''_in_projection_packed''
             (F_in_projection_packed T query key val in_proj_w in_proj_b)
      else case q_proj_w of
             None \<Rightarrow> raise (AssertionError
                      ''use_separate_proj_weight is True but q_proj_weight is None'')
           | Some qw \<Rightarrow>
          (case k_proj_w of
             None \<Rightarrow> raise (AssertionError
                      ''use_separate_proj_weight is True but k_proj_weight is None'')
           | Some kw \<Rightarrow>
          (case v_proj_w of
             None \<Rightarrow> raise (AssertionError
                      ''use_separate_proj_weight is True but v_proj_weight is None'')
           | Some vw \<Rightarrow>
               bind (chunk_bias in_proj_b) (\<lambda>(b_q, b_k, b_v).
               op ''_in_projection''
                 (F_in_projection T query key val qw kw vw b_q b_k b_v)))))"

definition prep_attn_mask ::
  "('a, 'r) torch \<Rightarrow> 'a tensor option \<Rightarrow> nat \<Rightarrow> nat \<Rightarrow> nat \<Rightarrow> int
     \<Rightarrow> 'a tensor option comp" where
  \<comment> \<open>lines 472-500\<close>
  "prep_attn_mask T attn_mask tgt_len src_len bsz n_heads =
     (case attn_mask of
        None \<Rightarrow> ret None
      | Some m \<Rightarrow>
          bind (if dtype m = UInt8
                then bind (warn ''Byte tensor for attn_mask in nn.MultiheadAttention is deprecated. Use bool tensor instead.'') (\<lambda>_.
                     op ''to'' (Inr (to_bool T m)))
                else bind (py_assert (dtype m = Float \<or> dtype m = Bool)
                             ''Only float, byte, and bool types are supported for attn_mask'') (\<lambda>_.
                     ret m)) (\<lambda>m.
          if dim m = 2
          then (if shape m \<noteq> [tgt_len, src_len]
                then raise (RuntimeError ''The shape of the 2D attn_mask is wrong'')
                else bind (op ''unsqueeze'' (unsqueeze m 0)) (\<lambda>m. ret (Some m)))
          else if dim m = 3
          then (if map int (shape m) \<noteq> [int bsz * n_heads, int tgt_len, int src_len]
                then raise (RuntimeError ''The shape of the 3D attn_mask is wrong'')
                else ret (Some m))
          else raise (RuntimeError ''the dimension of attn_mask is not supported'')))"

definition prep_key_padding_mask ::
  "('a, 'r) torch \<Rightarrow> 'a tensor option \<Rightarrow> 'a tensor option comp" where
  \<comment> \<open>lines 502-507\<close>
  "prep_key_padding_mask T key_padding_mask =
     (case key_padding_mask of
        None \<Rightarrow> ret None
      | Some m \<Rightarrow>
          (if dtype m = UInt8
           then bind (warn ''Byte tensor for key_padding_mask in nn.MultiheadAttention is deprecated. Use bool tensor instead.'') (\<lambda>_.
                bind (op ''to'' (Inr (to_bool T m))) (\<lambda>m. ret (Some m)))
           else ret (Some m)))"

definition pad_opt :: "('a, 'r) torch \<Rightarrow> 'a tensor option \<Rightarrow> 'a tensor option comp" where
  "pad_opt T t =
     (case t of
        None \<Rightarrow> ret None
      | Some m \<Rightarrow> bind (op ''pad'' (pad_last T m)) (\<lambda>m. ret (Some m)))"

definition add_bias_kv ::
  "('a, 'r) torch \<Rightarrow> 'a tensor \<Rightarrow> 'a tensor \<Rightarrow> 'a tensor option \<Rightarrow> 'a tensor option
     \<Rightarrow> 'a tensor option \<Rightarrow> 'a tensor option \<Rightarrow> nat
     \<Rightarrow> 'a tensor option \<Rightarrow> 'a tensor option
     \<Rightarrow> ('a tensor \<times> 'a tensor \<times> 'a tensor option \<times> 'a tensor option) comp" where
  \<comment> \<open>lines 509-521\<close>
  "add_bias_kv T k v b_k b_v static_k static_v bsz attn_mask key_padding_mask =
     (case (b_k, b_v) of
        (Some bk, Some bv) \<Rightarrow>
          bind (py_assert (static_k = None) ''bias cannot be added to static key.'') (\<lambda>_.
          bind (py_assert (static_v = None) ''bias cannot be added to static value.'') (\<lambda>_.
          bind (op ''repeat'' (repeat_1n1 bk bsz)) (\<lambda>rk.
          bind (op ''cat'' (cat0 T k rk)) (\<lambda>k.
          bind (op ''repeat'' (repeat_1n1 bv bsz)) (\<lambda>rv.
          bind (op ''cat'' (cat0 T v rv)) (\<lambda>v.
          bind (pad_opt T attn_mask) (\<lambda>attn_mask.
          bind (pad_opt T key_padding_mask) (\<lambda>key_padding_mask.
          ret (k, v, attn_mask, key_padding_mask)))))))))
      | _ \<Rightarrow>
          bind (py_assert (b_k = None) '''') (\<lambda>_.
          bind (py_assert (b_v = None) '''') (\<lambda>_.
          ret (k, v, attn_mask, key_padding_mask))))"

definition size_at :: "'a tensor \<Rightarrow> nat \<Rightarrow> nat comp" where
  \<comment> \<open>\<^verbatim>\<open>t.size(d)\<close> and \<^verbatim>\<open>t.shape[d]\<close>\<close>
  "size_at t d =
     (if d < dim t then ret (shape t ! d) else raise (IndexError ''Dimension out of range''))"

definition reshape_heads :: "'a tensor \<Rightarrow> int \<Rightarrow> int \<Rightarrow> int \<Rightarrow> 'a tensor comp" where
  \<comment> \<open>\<^verbatim>\<open>t.contiguous().view(len, bsz * num_heads, head_dim).transpose(0, 1)\<close>\<close>
  "reshape_heads t len batch_heads head_dim =
     bind (op ''contiguous'' (Inr t)) (\<lambda>t.
     bind (op ''view'' (view t [len, batch_heads, head_dim])) (\<lambda>t.
     op ''transpose'' (transpose01 t)))"

definition use_static :: "'a tensor \<Rightarrow> nat \<Rightarrow> int \<Rightarrow> int \<Rightarrow> 'a tensor comp" where
  \<comment> \<open>lines 531-537 and 542-548: a static key or value is checked and taken as it is\<close>
  "use_static st bsz n_heads head_dim =
     bind (size_at st 0) (\<lambda>s0.
     bind (py_assert (int s0 = int bsz * n_heads) ''unexpected static size(0)'') (\<lambda>_.
     bind (size_at st 2) (\<lambda>s2.
     bind (py_assert (int s2 = head_dim) ''unexpected static size(2)'') (\<lambda>_.
     ret st))))"

definition reshape_qkv ::
  "'a tensor \<Rightarrow> 'a tensor \<Rightarrow> 'a tensor \<Rightarrow> 'a tensor option \<Rightarrow> 'a tensor option
     \<Rightarrow> nat \<Rightarrow> nat \<Rightarrow> int \<Rightarrow> int \<Rightarrow> ('a tensor \<times> 'a tensor \<times> 'a tensor) comp" where
  \<comment> \<open>lines 523-548\<close>
  "reshape_qkv q k v static_k static_v tgt_len bsz n_heads head_dim =
     bind (reshape_heads q (int tgt_len) (int bsz * n_heads) head_dim) (\<lambda>q.
     bind (case static_k of
             None \<Rightarrow> bind (size_at k 0) (\<lambda>k0.
                     reshape_heads k (int k0) (int bsz * n_heads) head_dim)
           | Some st \<Rightarrow> use_static st bsz n_heads head_dim) (\<lambda>k.
     bind (case static_v of
             None \<Rightarrow> bind (size_at v 0) (\<lambda>v0.
                     reshape_heads v (int v0) (int bsz * n_heads) head_dim)
           | Some st \<Rightarrow> use_static st bsz n_heads head_dim) (\<lambda>v.
     ret (q, k, v))))"

definition add_zero_attention ::
  "('a, 'r) torch \<Rightarrow> bool \<Rightarrow> 'a tensor \<Rightarrow> 'a tensor \<Rightarrow> 'a tensor option
     \<Rightarrow> 'a tensor option \<Rightarrow> nat \<Rightarrow> int \<Rightarrow> int
     \<Rightarrow> ('a tensor \<times> 'a tensor \<times> 'a tensor option \<times> 'a tensor option) comp" where
  \<comment> \<open>lines 550-562\<close>
  "add_zero_attention T add_zero k v attn_mask key_padding_mask bsz n_heads head_dim =
     (if add_zero
      then bind (op ''zeros'' (zeros_sizes T [int bsz * n_heads, 1, head_dim] (dtype k))) (\<lambda>zk.
           bind (op ''cat'' (cat1 T k zk)) (\<lambda>k.
           bind (op ''zeros'' (zeros_sizes T [int bsz * n_heads, 1, head_dim] (dtype v))) (\<lambda>zv.
           bind (op ''cat'' (cat1 T v zv)) (\<lambda>v.
           bind (pad_opt T attn_mask) (\<lambda>attn_mask.
           bind (pad_opt T key_padding_mask) (\<lambda>key_padding_mask.
           ret (k, v, attn_mask, key_padding_mask)))))))
      else ret (k, v, attn_mask, key_padding_mask))"

definition expand_key_padding_mask ::
  "'a tensor \<Rightarrow> nat \<Rightarrow> nat \<Rightarrow> int \<Rightarrow> 'a tensor comp" where
  \<comment> \<open>lines 573-577\<close>
  "expand_key_padding_mask m bsz src_len n_heads =
     bind (op ''view'' (view m [int bsz, 1, 1, int src_len])) (\<lambda>m.
     bind (op ''expand'' (expand_sizes m [- 1, n_heads, - 1, - 1])) (\<lambda>m.
     op ''reshape'' (view m [int bsz * n_heads, 1, int src_len])))"

definition merge_masks ::
  "('a, 'r) torch \<Rightarrow> 'a tensor option \<Rightarrow> 'a tensor option \<Rightarrow> nat \<Rightarrow> nat \<Rightarrow> int \<Rightarrow> 'a
     \<Rightarrow> 'a tensor option comp" where
  \<comment> \<open>lines 567-583\<close>
  "merge_masks T key_padding_mask attn_mask bsz src_len n_heads attn_mask_value =
     (case key_padding_mask of
        None \<Rightarrow> ret attn_mask
      | Some m \<Rightarrow>
          bind (py_assert (shape m = [bsz, src_len])
                  ''unexpected key_padding_mask shape'') (\<lambda>_.
          bind (expand_key_padding_mask m bsz src_len n_heads) (\<lambda>m.
          case attn_mask of
            None \<Rightarrow> ret (Some m)
          | Some am \<Rightarrow>
              (if dtype am = Bool
               then bind (op ''logical_or'' (logical_or T am m)) (\<lambda>r. ret (Some r))
               else bind (op ''masked_fill'' (masked_fill am m attn_mask_value)) (\<lambda>r.
                    ret (Some r))))))"

definition mask_to_float ::
  "('a, 'r) torch \<Rightarrow> 'a tensor option \<Rightarrow> 'a tensor \<Rightarrow> 'a \<Rightarrow> 'a tensor option comp" where
  \<comment> \<open>lines 585-589\<close>
  "mask_to_float T attn_mask q attn_mask_value =
     (case attn_mask of
        None \<Rightarrow> ret None
      | Some m \<Rightarrow>
          (if dtype m = Bool
           then bind (op ''zeros_like'' (Inr (zeros (float_of_int T) (shape m) (dtype q)))) (\<lambda>new_attn_mask.
                bind (op ''masked_fill_'' (masked_fill_inplace new_attn_mask m attn_mask_value)) (\<lambda>new_attn_mask.
                ret (Some new_attn_mask)))
           else ret (Some m)))"

definition out_projection ::
  "('a, 'r) torch \<Rightarrow> 'a tensor \<Rightarrow> nat \<Rightarrow> nat \<Rightarrow> nat \<Rightarrow> 'a tensor \<Rightarrow> 'a tensor option
     \<Rightarrow> 'a tensor comp" where
  \<comment> \<open>lines 609-610\<close>
  "out_projection T attn_output tgt_len bsz embed_dim out_proj_w out_proj_b =
     bind (op ''transpose'' (transpose01 attn_output)) (\<lambda>attn_output.
     bind (op ''contiguous'' (Inr attn_output)) (\<lambda>attn_output.
     bind (op ''view'' (view attn_output [int tgt_len, int bsz, int embed_dim])) (\<lambda>attn_output.
     op ''linear'' (F_linear T attn_output out_proj_w out_proj_b))))"

definition average_heads :: "('a, 'r) torch \<Rightarrow> 'a tensor \<Rightarrow> int \<Rightarrow> 'a tensor comp" where
  \<comment> \<open>line 616: \<^verbatim>\<open>attn_output_weights.sum(dim=1) / num_heads\<close>\<close>
  "average_heads T w n_heads =
     bind (op ''sum'' (sum_dim1 T w)) (\<lambda>s.
     op ''div'' (Inr (div_scalar T s (float_of_int T n_heads))))"

definition reduce_weights ::
  "('a, 'r) torch \<Rightarrow> bool \<Rightarrow> bool \<Rightarrow> bool \<Rightarrow> 'a tensor \<Rightarrow> 'a tensor
     \<Rightarrow> nat \<Rightarrow> int \<Rightarrow> nat \<Rightarrow> nat \<Rightarrow> ('a tensor \<times> 'a tensor option) comp" where
  \<comment> \<open>lines 612-627\<close>
  "reduce_weights T need_weights average_attn_weights is_batched attn_output
       attn_output_weights bsz n_heads tgt_len src_len =
     (if need_weights
      then bind (op ''view'' (view attn_output_weights
                   [int bsz, n_heads, int tgt_len, int src_len])) (\<lambda>w.
           bind (if average_attn_weights then average_heads T w n_heads else ret w) (\<lambda>w.
           if \<not> is_batched
           then bind (op ''squeeze'' (squeeze attn_output 1)) (\<lambda>attn_output.
                bind (op ''squeeze'' (squeeze w 0)) (\<lambda>w.
                ret (attn_output, Some w)))
           else ret (attn_output, Some w)))
      else if \<not> is_batched
      then bind (op ''squeeze'' (squeeze attn_output 1)) (\<lambda>attn_output.
           ret (attn_output, None))
      else ret (attn_output, None))"

definition multi_head_attention_forward ::
  "('a, 'r) torch \<Rightarrow> 'r \<Rightarrow> 'a tensor \<Rightarrow> 'a tensor \<Rightarrow> 'a tensor \<Rightarrow> int \<Rightarrow> int
     \<Rightarrow> 'a tensor option \<Rightarrow> 'a tensor option \<Rightarrow> 'a tensor option \<Rightarrow> 'a tensor option
     \<Rightarrow> bool \<Rightarrow> real \<Rightarrow> 'a tensor \<Rightarrow> 'a tensor option
     \<Rightarrow> bool \<Rightarrow> 'a tensor option \<Rightarrow> bool \<Rightarrow> 'a tensor option
     \<Rightarrow> bool \<Rightarrow> 'a tensor option \<Rightarrow> 'a tensor option \<Rightarrow> 'a tensor option
     \<Rightarrow> 'a tensor option \<Rightarrow> 'a tensor option \<Rightarrow> bool
     \<Rightarrow> 'a kernel_fn \<Rightarrow> 'a \<Rightarrow> ('a, 'r) attention_fn \<Rightarrow> 'a masking_fn \<Rightarrow> 'a product_fn
     \<Rightarrow> ('a tensor \<times> 'a tensor option) comp" where
  "multi_head_attention_forward T rng query key val embed_dim_to_check n_heads
       in_proj_w in_proj_b b_k b_v add_zero dropout_p out_proj_w out_proj_b
       is_training key_padding_mask need_weights attn_mask use_separate_proj_weight
       q_proj_w k_proj_w v_proj_w static_k static_v average_attn_weights
       kernel_function attn_mask_value attention_function attn_masking_function
       query_key_product =
     bind (lift (F_mha_shape_check T query key val key_padding_mask attn_mask n_heads))
       (\<lambda>is_batched.
     bind (unsqueeze_unbatched is_batched query key val key_padding_mask)
       (\<lambda>(query, key, val, key_padding_mask).
     bind (shape_vars query key val embed_dim_to_check n_heads use_separate_proj_weight)
       (\<lambda>(tgt_len, bsz, embed_dim, src_len, head_dim).
     bind (compute_in_projection T query key val use_separate_proj_weight
             in_proj_w in_proj_b q_proj_w k_proj_w v_proj_w)
       (\<lambda>(q, k, v).
     bind (prep_attn_mask T attn_mask tgt_len src_len bsz n_heads)
       (\<lambda>attn_mask.
     bind (prep_key_padding_mask T key_padding_mask)
       (\<lambda>key_padding_mask.
     bind (add_bias_kv T k v b_k b_v static_k static_v bsz attn_mask key_padding_mask)
       (\<lambda>(k, v, attn_mask, key_padding_mask).
     bind (reshape_qkv q k v static_k static_v tgt_len bsz n_heads head_dim)
       (\<lambda>(q, k, v).
     bind (add_zero_attention T add_zero k v attn_mask key_padding_mask bsz n_heads head_dim)
       (\<lambda>(k, v, attn_mask, key_padding_mask).
     bind (size_at k 1)
       (\<lambda>src_len.
     bind (merge_masks T key_padding_mask attn_mask bsz src_len n_heads attn_mask_value)
       (\<lambda>attn_mask.
     bind (mask_to_float T attn_mask q attn_mask_value)
       (\<lambda>attn_mask.
     bind (attention_function rng q k v attn_mask (if \<not> is_training then 0 else dropout_p)
             kernel_function attn_mask_value attn_masking_function query_key_product)
       (\<lambda>(attn_output, attn_output_weights).
     bind (out_projection T attn_output tgt_len bsz embed_dim out_proj_w out_proj_b)
       (\<lambda>attn_output.
     reduce_weights T need_weights average_attn_weights is_batched attn_output
       attn_output_weights bsz n_heads tgt_len src_len))))))))))))))"

section \<open>The module adapter\<close>

text \<open>
  \<^verbatim>\<open>CustomizableMultiHead\<close> is a subclass of \<^verbatim>\<open>nn.MultiheadAttention\<close>: the record of
  the layer's attributes, extended by the five attributes the subclass adds.
  \<open>out_proj_weight\<close> and \<open>out_proj_bias\<close> are \<^verbatim>\<open>out_proj.weight\<close> and
  \<^verbatim>\<open>out_proj.bias\<close>; \<open>qkv_same_embed_dim\<close> is \<^verbatim>\<open>_qkv_same_embed_dim\<close>.
\<close>

record 'a multihead_attention =
  embed_dim :: int
  kdim :: int
  vdim :: int
  qkv_same_embed_dim :: bool
  num_heads :: int
  dropout :: real
  batch_first :: bool
  head_dim :: int
  in_proj_weight :: "'a tensor option"
  q_proj_weight :: "'a tensor option"
  k_proj_weight :: "'a tensor option"
  v_proj_weight :: "'a tensor option"
  in_proj_bias :: "'a tensor option"
  out_proj_weight :: "'a tensor"
  out_proj_bias :: "'a tensor option"
  bias_k :: "'a tensor option"
  bias_v :: "'a tensor option"
  add_zero_attn :: bool
  training :: bool

record ('a, 'r) customizable_multihead = "'a multihead_attention" +
  kernel_function :: "'a kernel_fn"
  attn_mask_value :: 'a
  attention_function :: "('a, 'r) attention_fn"
  attn_masking_function :: "'a masking_fn"
  query_key_product :: "'a product_fn"

definition transpose_inputs ::
  "'a tensor \<Rightarrow> 'a tensor \<Rightarrow> 'a tensor \<Rightarrow> ('a tensor \<times> 'a tensor \<times> 'a tensor) comp" where
  \<comment> \<open>line 261\<close>
  "transpose_inputs query key val =
     bind (op ''transpose'' (transpose01 query)) (\<lambda>query.
     bind (op ''transpose'' (transpose01 key)) (\<lambda>key.
     bind (op ''transpose'' (transpose01 val)) (\<lambda>val.
     ret (query, key, val))))"

definition forward ::
  "('a, 'r) torch \<Rightarrow> 'r \<Rightarrow> ('a, 'r) customizable_multihead
     \<Rightarrow> 'a tensor \<Rightarrow> 'a tensor \<Rightarrow> 'a tensor \<Rightarrow> 'a tensor option \<Rightarrow> bool
     \<Rightarrow> 'a tensor option \<Rightarrow> bool \<Rightarrow> ('a tensor \<times> 'a tensor option) comp" where
  \<comment> \<open>\<^verbatim>\<open>CustomizableMultiHead.forward\<close>, lines 247-322\<close>
  "forward T rng self query key val key_padding_mask need_weights attn_mask
       average_attn_weights =
     (let is_batched = (dim query = 3) in
      bind (if batch_first self \<and> is_batched
            then transpose_inputs query key val
            else ret (query, key, val)) (\<lambda>(query, key, val).
      bind (if \<not> qkv_same_embed_dim self
            then multi_head_attention_forward T rng query key val
                   (embed_dim self) (num_heads self)
                   (in_proj_weight self) (in_proj_bias self) (bias_k self) (bias_v self)
                   (add_zero_attn self) (dropout self)
                   (out_proj_weight self) (out_proj_bias self)
                   (training self) key_padding_mask need_weights attn_mask
                   True (q_proj_weight self) (k_proj_weight self) (v_proj_weight self)
                   None None average_attn_weights
                   (kernel_function self) (attn_mask_value self) (attention_function self)
                   (attn_masking_function self) (query_key_product self)
            else multi_head_attention_forward T rng query key val
                   (embed_dim self) (num_heads self)
                   (in_proj_weight self) (in_proj_bias self) (bias_k self) (bias_v self)
                   (add_zero_attn self) (dropout self)
                   (out_proj_weight self) (out_proj_bias self)
                   (training self) key_padding_mask need_weights attn_mask
                   False None None None
                   None None average_attn_weights
                   (kernel_function self) (attn_mask_value self) (attention_function self)
                   (attn_masking_function self) (query_key_product self))
        (\<lambda>(attn_output, attn_output_weights).
      if batch_first self \<and> is_batched
      then bind (op ''transpose'' (transpose01 attn_output)) (\<lambda>attn_output.
           ret (attn_output, attn_output_weights))
      else ret (attn_output, attn_output_weights))))"

subsection \<open>Construction\<close>

text \<open>
  The values a keyword argument can hold. \<open>PNumber\<close> is a Python float that becomes a
  tensor element (the mask fill value); the last four are the replaceable functions.
\<close>

datatype ('a, 'r) pyval =
    PNone
  | PBool bool
  | PInt int
  | PFloat real
  | PStr string
  | PNumber 'a
  | PKernel "'a kernel_fn"
  | PAttention "('a, 'r) attention_fn"
  | PMasking "'a masking_fn"
  | PProduct "'a product_fn"

type_synonym ('a, 'r) kwargs = "string \<rightharpoonup> ('a, 'r) pyval"

definition ebind :: "error + 'x \<Rightarrow> ('x \<Rightarrow> error + 'y) \<Rightarrow> error + 'y" where
  "ebind m f = (case m of Inl e \<Rightarrow> Inl e | Inr x \<Rightarrow> f x)"

text \<open>
  Python binds keyword arguments by name and checks no types. An argument whose value is
  of a kind the parameter is never given in this repository is modelled as a
  \<open>TypeError\<close>.
\<close>

definition kw_int :: "('a, 'r) kwargs \<Rightarrow> string \<Rightarrow> error + int" where
  "kw_int kw k =
     (case kw k of
        Some (PInt i) \<Rightarrow> Inr i
      | Some _ \<Rightarrow> Inl (TypeError k)
      | None \<Rightarrow> Inl (TypeError ''missing a required argument''))"

definition kw_int_opt :: "('a, 'r) kwargs \<Rightarrow> string \<Rightarrow> error + int option" where
  "kw_int_opt kw k =
     (case kw k of
        None \<Rightarrow> Inr None
      | Some PNone \<Rightarrow> Inr None
      | Some (PInt i) \<Rightarrow> Inr (Some i)
      | Some _ \<Rightarrow> Inl (TypeError k))"

definition kw_bool :: "('a, 'r) kwargs \<Rightarrow> string \<Rightarrow> bool \<Rightarrow> error + bool" where
  "kw_bool kw k d =
     (case kw k of
        None \<Rightarrow> Inr d
      | Some (PBool b) \<Rightarrow> Inr b
      | Some _ \<Rightarrow> Inl (TypeError k))"

definition kw_real :: "('a, 'r) kwargs \<Rightarrow> string \<Rightarrow> real \<Rightarrow> error + real" where
  "kw_real kw k d =
     (case kw k of
        None \<Rightarrow> Inr d
      | Some (PFloat x) \<Rightarrow> Inr x
      | Some (PInt i) \<Rightarrow> Inr (of_int i)
      | Some _ \<Rightarrow> Inl (TypeError k))"

definition kw_number :: "('a, 'r) kwargs \<Rightarrow> string \<Rightarrow> 'a \<Rightarrow> error + 'a" where
  "kw_number kw k d =
     (case kw k of
        None \<Rightarrow> Inr d
      | Some (PNumber x) \<Rightarrow> Inr x
      | Some _ \<Rightarrow> Inl (TypeError k))"

definition kw_kernel :: "('a, 'r) kwargs \<Rightarrow> string \<Rightarrow> 'a kernel_fn \<Rightarrow> error + 'a kernel_fn" where
  "kw_kernel kw k d =
     (case kw k of
        None \<Rightarrow> Inr d
      | Some (PKernel f) \<Rightarrow> Inr f
      | Some _ \<Rightarrow> Inl (TypeError k))"

definition kw_attention ::
  "('a, 'r) kwargs \<Rightarrow> string \<Rightarrow> ('a, 'r) attention_fn \<Rightarrow> error + ('a, 'r) attention_fn" where
  "kw_attention kw k d =
     (case kw k of
        None \<Rightarrow> Inr d
      | Some (PAttention f) \<Rightarrow> Inr f
      | Some _ \<Rightarrow> Inl (TypeError k))"

definition kw_masking :: "('a, 'r) kwargs \<Rightarrow> string \<Rightarrow> 'a masking_fn \<Rightarrow> error + 'a masking_fn" where
  "kw_masking kw k d =
     (case kw k of
        None \<Rightarrow> Inr d
      | Some (PMasking f) \<Rightarrow> Inr f
      | Some _ \<Rightarrow> Inl (TypeError k))"

definition kw_product :: "('a, 'r) kwargs \<Rightarrow> string \<Rightarrow> 'a product_fn \<Rightarrow> error + 'a product_fn" where
  "kw_product kw k d =
     (case kw k of
        None \<Rightarrow> Inr d
      | Some (PProduct f) \<Rightarrow> Inr f
      | Some _ \<Rightarrow> Inl (TypeError k))"

definition multihead_attention_init ::
  "('a, 'r) torch \<Rightarrow> int \<Rightarrow> int \<Rightarrow> real \<Rightarrow> bool \<Rightarrow> bool \<Rightarrow> bool \<Rightarrow> int option \<Rightarrow> int option
     \<Rightarrow> bool \<Rightarrow> error + 'a multihead_attention" where
  \<comment> \<open>\<^verbatim>\<open>nn.MultiheadAttention.__init__\<close>, which line 227 calls. It is the library's: it
      stores the configuration, asserts that \<^verbatim>\<open>embed_dim\<close> is divisible by
      \<^verbatim>\<open>num_heads\<close>, and creates the parameters (the packed projection when
      \<^verbatim>\<open>kdim\<close> and \<^verbatim>\<open>vdim\<close> equal \<^verbatim>\<open>embed_dim\<close>, three projections otherwise).
      A new module is in training mode.\<close>
  "multihead_attention_init T e_dim n_heads drop_p bias add_bias add_zero k_dim v_dim b_first =
     (let kd = (case k_dim of None \<Rightarrow> e_dim | Some d \<Rightarrow> d);
          vd = (case v_dim of None \<Rightarrow> e_dim | Some d \<Rightarrow> d);
          same = (kd = e_dim \<and> vd = e_dim)
      in if n_heads = 0 then Inl ZeroDivisionError
         else if (e_dim div n_heads) * n_heads \<noteq> e_dim
         then Inl (AssertionError ''embed_dim must be divisible by num_heads'')
         else if e_dim < 0 \<or> (\<not> same \<and> (kd < 0 \<or> vd < 0))
         then Inl (RuntimeError ''Trying to create tensor with negative dimension'')
         else Inr \<lparr>embed_dim = e_dim, kdim = kd, vdim = vd, qkv_same_embed_dim = same,
                   num_heads = n_heads, dropout = drop_p, batch_first = b_first,
                   head_dim = e_dim div n_heads,
                   in_proj_weight =
                     (if same then Some (init_parameter T ''in_proj_weight''
                                           [3 * nat e_dim, nat e_dim]) else None),
                   q_proj_weight =
                     (if same then None
                      else Some (init_parameter T ''q_proj_weight'' [nat e_dim, nat e_dim])),
                   k_proj_weight =
                     (if same then None
                      else Some (init_parameter T ''k_proj_weight'' [nat e_dim, nat kd])),
                   v_proj_weight =
                     (if same then None
                      else Some (init_parameter T ''v_proj_weight'' [nat e_dim, nat vd])),
                   in_proj_bias =
                     (if bias then Some (zeros (float_of_int T) [3 * nat e_dim] Float)
                      else None),
                   out_proj_weight = init_parameter T ''out_proj.weight'' [nat e_dim, nat e_dim],
                   out_proj_bias =
                     (if bias then Some (zeros (float_of_int T) [nat e_dim] Float) else None),
                   bias_k =
                     (if add_bias then Some (init_parameter T ''bias_k'' [1, 1, nat e_dim])
                      else None),
                   bias_v =
                     (if add_bias then Some (init_parameter T ''bias_v'' [1, 1, nat e_dim])
                      else None),
                   add_zero_attn = add_zero, training = True\<rparr>)"

definition init_keywords :: "string list" where
  \<comment> \<open>the parameters of \<^verbatim>\<open>CustomizableMultiHead.__init__\<close>, lines 198-216\<close>
  "init_keywords =
     [''embed_dim'', ''num_heads'', ''dropout'', ''bias'', ''add_bias_kv'', ''add_zero_attn'',
      ''kdim'', ''vdim'', ''batch_first'', ''device'', ''dtype'', ''kernel_function'',
      ''attn_mask_value'', ''attention_function'', ''attn_masking_function'',
      ''query_key_product'']"

definition customizable_multihead_init ::
  "('a, 'r) torch \<Rightarrow> 'a \<Rightarrow> ('a, 'r) kwargs \<Rightarrow> error + ('a, 'r) customizable_multihead" where
  \<comment> \<open>\<^verbatim>\<open>CustomizableMultiHead(**kw)\<close>, lines 198-245. \<open>minus_inf\<close> is
      \<^verbatim>\<open>float("-inf")\<close>, the default mask fill value.\<close>
  "customizable_multihead_init T minus_inf kw =
     (if \<not> dom kw \<subseteq> set init_keywords
      then Inl (TypeError ''got an unexpected keyword argument'')
      else
      ebind (kw_int kw ''embed_dim'') (\<lambda>e_dim.
      ebind (kw_int kw ''num_heads'') (\<lambda>n_heads.
      ebind (kw_real kw ''dropout'' 0) (\<lambda>drop_p.
      ebind (kw_bool kw ''bias'' True) (\<lambda>bias.
      ebind (kw_bool kw ''add_bias_kv'' False) (\<lambda>add_bias.
      ebind (kw_bool kw ''add_zero_attn'' False) (\<lambda>add_zero.
      ebind (kw_int_opt kw ''kdim'') (\<lambda>k_dim.
      ebind (kw_int_opt kw ''vdim'') (\<lambda>v_dim.
      ebind (kw_bool kw ''batch_first'' False) (\<lambda>b_first.
      ebind (kw_kernel kw ''kernel_function'' (kernel_softmax T)) (\<lambda>kernel.
      ebind (kw_number kw ''attn_mask_value'' minus_inf) (\<lambda>mask_value.
      ebind (kw_attention kw ''attention_function'' (scaled_dot_product_attention T))
        (\<lambda>attention.
      ebind (kw_masking kw ''attn_masking_function'' (attn_masking T)) (\<lambda>masking.
      ebind (kw_product kw ''query_key_product'' (scaled_dot_product T)) (\<lambda>product.
      ebind (multihead_attention_init T e_dim n_heads drop_p bias add_bias add_zero
               k_dim v_dim b_first) (\<lambda>base.
      Inr (multihead_attention.extend base
             \<lparr>kernel_function = kernel, attn_mask_value = mask_value,
              attention_function = attention, attn_masking_function = masking,
              query_key_product = product\<rparr>)))))))))))))))))"

section \<open>The approximator\<close>

text \<open>
  \<^verbatim>\<open>CustomizableMultiHeadApproximator\<close>, lines 18-127. Its state is the dictionary
  \<^verbatim>\<open>self.parameters\<close> and the list \<^verbatim>\<open>self.approximations\<close>; a method returns the
  new state with its result.
\<close>

record ('a, 'r) approximator =
  parameters :: "('a, 'r) kwargs"
  approximations :: "('a, 'r) customizable_multihead list"

datatype ('a, 'r) module =
    CustomizableMultiHead "('a, 'r) customizable_multihead"
  | MultiheadAttention "'a multihead_attention"
  | OtherModule string

definition store_default ::
  "('a, 'r) kwargs \<Rightarrow> string \<Rightarrow> ('a, 'r) pyval \<Rightarrow> ('a, 'r) kwargs" where
  \<comment> \<open>\<^verbatim>\<open>parameters[k] = parameters.get(k, v)\<close>\<close>
  "store_default params k v = params(k \<mapsto> (case params k of None \<Rightarrow> v | Some x \<Rightarrow> x))"

definition store_configuration ::
  "('a, 'r) kwargs \<Rightarrow> ('a, 'm) multihead_attention_scheme \<Rightarrow> ('a, 'r) kwargs" where
  \<comment> \<open>lines 73-95\<close>
  "store_configuration params original_multihead =
     (let p = store_default params ''embed_dim'' (PInt (embed_dim original_multihead));
          p = store_default p ''num_heads'' (PInt (num_heads original_multihead));
          p = store_default p ''batch_first'' (PBool (batch_first original_multihead));
          p = store_default p ''dropout'' (PFloat (dropout original_multihead));
          p = store_default p ''bias'' (PBool (in_proj_bias original_multihead \<noteq> None));
          p = store_default p ''add_bias_kv'' (PBool (bias_k original_multihead \<noteq> None));
          p = store_default p ''add_zero_attn'' (PBool (add_zero_attn original_multihead));
          p = store_default p ''kdim'' (PInt (kdim original_multihead));
          p = store_default p ''vdim'' (PInt (vdim original_multihead))
      in p)"

definition opt_param :: "string \<Rightarrow> 'a tensor option \<Rightarrow> (string \<times> 'a tensor) list" where
  "opt_param name p = (case p of None \<Rightarrow> [] | Some t \<Rightarrow> [(name, t)])"

definition named_parameters ::
  "('a, 'm) multihead_attention_scheme \<Rightarrow> (string \<times> 'a tensor) list" where
  \<comment> \<open>\<^verbatim>\<open>named_parameters()\<close> of the library: the parameters that are not \<^verbatim>\<open>None\<close>,
      the module's own first, then those of its submodule \<^verbatim>\<open>out_proj\<close>\<close>
  "named_parameters m =
     opt_param ''in_proj_weight'' (in_proj_weight m) @
     opt_param ''q_proj_weight'' (q_proj_weight m) @
     opt_param ''k_proj_weight'' (k_proj_weight m) @
     opt_param ''v_proj_weight'' (v_proj_weight m) @
     opt_param ''in_proj_bias'' (in_proj_bias m) @
     opt_param ''bias_k'' (bias_k m) @
     opt_param ''bias_v'' (bias_v m) @
     [(''out_proj.weight'', out_proj_weight m)] @
     opt_param ''out_proj.bias'' (out_proj_bias m)"

fun split_on :: "char \<Rightarrow> string \<Rightarrow> string list" where
  \<comment> \<open>\<^verbatim>\<open>s.split(c)\<close>\<close>
  "split_on c [] = [[]]"
| "split_on c (x # xs) =
     (if x = c then [] # split_on c xs
      else (case split_on c xs of p # ps \<Rightarrow> (x # p) # ps | [] \<Rightarrow> [[x]]))"

definition setattr_module ::
  "('a, 'r) customizable_multihead \<Rightarrow> string \<Rightarrow> 'a tensor \<Rightarrow> ('a, 'r) customizable_multihead" where
  \<comment> \<open>\<^verbatim>\<open>setattr(new_approximation, name, params)\<close>: the module then holds the very
      tensor \<^verbatim>\<open>params\<close>. A name that is none of the layer's parameters would add an
      attribute that nothing here reads.\<close>
  "setattr_module m name p =
     (if name = ''in_proj_weight'' then m\<lparr>in_proj_weight := Some p\<rparr>
      else if name = ''q_proj_weight'' then m\<lparr>q_proj_weight := Some p\<rparr>
      else if name = ''k_proj_weight'' then m\<lparr>k_proj_weight := Some p\<rparr>
      else if name = ''v_proj_weight'' then m\<lparr>v_proj_weight := Some p\<rparr>
      else if name = ''in_proj_bias'' then m\<lparr>in_proj_bias := Some p\<rparr>
      else if name = ''bias_k'' then m\<lparr>bias_k := Some p\<rparr>
      else if name = ''bias_v'' then m\<lparr>bias_v := Some p\<rparr>
      else m)"

definition setattr_out_proj ::
  "('a, 'r) customizable_multihead \<Rightarrow> string \<Rightarrow> 'a tensor \<Rightarrow> ('a, 'r) customizable_multihead" where
  \<comment> \<open>\<^verbatim>\<open>setattr(new_approximation.out_proj, name, params)\<close>\<close>
  "setattr_out_proj m name p =
     (if name = ''weight'' then m\<lparr>out_proj_weight := p\<rparr>
      else if name = ''bias'' then m\<lparr>out_proj_bias := Some p\<rparr>
      else m)"

definition load_parameter ::
  "('a, 'r) customizable_multihead \<Rightarrow> string \<times> 'a tensor
     \<Rightarrow> error + ('a, 'r) customizable_multihead" where
  \<comment> \<open>the body of the loop, lines 101-106; the only submodule of the layer is
      \<^verbatim>\<open>out_proj\<close>\<close>
  "load_parameter new_approximation np =
     (case np of (name, params) \<Rightarrow>
        (let param_path = split_on CHR ''.'' name in
         if length param_path = 2
         then (if param_path ! 0 = ''out_proj''
               then Inr (setattr_out_proj new_approximation (param_path ! 1) params)
               else Inl (AttributeError (param_path ! 0)))
         else if length param_path = 1
         then Inr (setattr_module new_approximation name params)
         else Inr new_approximation))"

fun load_parameters ::
  "('a, 'r) customizable_multihead \<Rightarrow> (string \<times> 'a tensor) list
     \<Rightarrow> error + ('a, 'r) customizable_multihead" where
  \<comment> \<open>the loop, lines 100-106\<close>
  "load_parameters new_approximation [] = Inr new_approximation"
| "load_parameters new_approximation (np # nps) =
     (case load_parameter new_approximation np of
        Inl e \<Rightarrow> Inl e
      | Inr m \<Rightarrow> load_parameters m nps)"

definition get_trainable_approximation ::
  "('a, 'r) torch \<Rightarrow> 'a \<Rightarrow> ('a, 'r) approximator \<Rightarrow> ('a, 'm) multihead_attention_scheme
     \<Rightarrow> ('a, 'r) approximator \<times> (error + ('a, 'r) customizable_multihead)" where
  \<comment> \<open>lines 63-109. The dictionary is written before the layer is constructed, so it
      keeps the writes when the construction raises.\<close>
  "get_trainable_approximation T minus_inf self original_multihead =
     (let self = self\<lparr>parameters := store_configuration (parameters self) original_multihead\<rparr>
      in case customizable_multihead_init T minus_inf (parameters self) of
           Inl e \<Rightarrow> (self, Inl e)
         | Inr new_approximation \<Rightarrow>
             (case load_parameters new_approximation (named_parameters original_multihead) of
                Inl e \<Rightarrow> (self, Inl e)
              | Inr new_approximation \<Rightarrow>
                  (self\<lparr>approximations := approximations self @ [new_approximation]\<rparr>,
                   Inr new_approximation)))"

definition get_pretrained_approximation ::
  "('a, 'r) module \<Rightarrow> error + ('a, 'r) module" where
  \<comment> \<open>lines 111-127\<close>
  "get_pretrained_approximation m =
     (case m of
        CustomizableMultiHead _ \<Rightarrow> Inr m
      | _ \<Rightarrow> Inl (ValueError ''is not a CustomizableMultiHead''))"

definition approximate_module ::
  "('a, 'r) torch \<Rightarrow> 'a \<Rightarrow> ('a, 'r) approximator \<Rightarrow> (string \<rightharpoonup> ('a, 'r) module)
     \<Rightarrow> string \<Rightarrow> bool \<Rightarrow> ('a, 'r) approximator \<times> (error + ('a, 'r) module)" where
  \<comment> \<open>lines 42-61; \<^verbatim>\<open>model\<close> is read as the map from attribute names to submodules\<close>
  "approximate_module T minus_inf self model ident pretrained =
     (case model ident of
        None \<Rightarrow> (self, Inl (AttributeError ident))
      | Some m \<Rightarrow>
          (if pretrained then (self, get_pretrained_approximation m)
           else case m of
                  MultiheadAttention l \<Rightarrow>
                    (case get_trainable_approximation T minus_inf self l of
                       (s, r) \<Rightarrow> (s, map_sum id CustomizableMultiHead r))
                | CustomizableMultiHead a \<Rightarrow>
                    (case get_trainable_approximation T minus_inf self a of
                       (s, r) \<Rightarrow> (s, map_sum id CustomizableMultiHead r))
                | OtherModule _ \<Rightarrow> (self, Inl (AttributeError ''embed_dim''))))"

section \<open>A concrete tensor library for the examples\<close>

text \<open>
  The theorems below hold for every tensor library \<open>T\<close>. The examples and witnesses run
  on this one: exact arithmetic on the reals for the floating elements, the rank checks
  of the library's \<^verbatim>\<open>_mha_shape_check\<close>, and a dropout that reads the generator state.
\<close>

definition fl :: "real elem \<Rightarrow> real" where
  "fl e = elem_float real_of_int e"

definition linear_real ::
  "real tensor \<Rightarrow> real tensor \<Rightarrow> real tensor option \<Rightarrow> error + real tensor" where
  \<comment> \<open>\<open>x W\<^sup>T + b\<close> on the last dimension of \<open>x\<close>\<close>
  "linear_real x w b =
     (case (rev (shape x), shape w) of
        (n # pre, [m, n']) \<Rightarrow>
          (if n = n' \<and> (case b of None \<Rightarrow> True | Some bt \<Rightarrow> shape bt = [m])
           then Inr \<lparr>shape = rev pre @ [m], dtype = Float,
                     elems = concat (map (\<lambda>row. map (\<lambda>j.
                       EFloat (sum_list (map2 (\<lambda>a c. fl a * fl c) row
                                 (take n (drop (j * n) (elems w))))
                               + (case b of None \<Rightarrow> 0 | Some bt \<Rightarrow> fl (elems bt ! j))))
                       [0..<m]) (chunks (numel pre) n (elems x)))\<rparr>
           else Inl (RuntimeError ''mat1 and mat2 shapes cannot be multiplied''))
      | _ \<Rightarrow> Inl (RuntimeError ''mat1 and mat2 shapes cannot be multiplied''))"

definition bmm_real :: "real tensor \<Rightarrow> real tensor \<Rightarrow> error + real tensor" where
  "bmm_real a b =
     (case (shape a, shape b) of
        ([ba, n, m], [bb, m', p]) \<Rightarrow>
          (if ba = bb \<and> m = m'
           then Inr \<lparr>shape = [ba, n, p], dtype = Float,
                     elems = concat (map (\<lambda>i. concat (map (\<lambda>r. map (\<lambda>c.
                       EFloat (sum_list (map (\<lambda>k. fl (elems a ! ((i * n + r) * m + k))
                                                 * fl (elems b ! ((i * m + k) * p + c)))
                                 [0..<m])))
                       [0..<p]) [0..<n])) [0..<ba])\<rparr>
           else Inl (RuntimeError ''batch1 and batch2 shapes cannot be multiplied''))
      | _ \<Rightarrow> Inl (RuntimeError ''batch1 and batch2 must be 3D tensors''))"

definition softmax_real :: "real tensor \<Rightarrow> error + real tensor" where
  \<comment> \<open>softmax over the last dimension\<close>
  "softmax_real t =
     (if shape t = [] then Inl (IndexError ''Dimension out of range'')
      else Inr (t\<lparr>dtype := Float,
                  elems := concat (map (\<lambda>row. map (\<lambda>x.
                             EFloat (exp (fl x) / sum_list (map (\<lambda>y. exp (fl y)) row))) row)
                             (chunks (numel (butlast (shape t))) (last (shape t)) (elems t)))\<rparr>))"

definition dropout_real :: "nat \<Rightarrow> real tensor \<Rightarrow> real \<Rightarrow> error + real tensor" where
  \<comment> \<open>a dropout whose mask is a function of the generator state: the elements at the
      positions \<open>i\<close> with \<open>rng + i\<close> odd are zeroed, the others are scaled\<close>
  "dropout_real rng t p =
     (if p < 0 \<or> p > 1
      then Inl (ValueError ''dropout probability has to be between 0 and 1'')
      else Inr (t\<lparr>elems := map2 (\<lambda>i x. if even (rng + i) then EFloat (fl x / (1 - p))
                                           else EFloat 0)
                               [0..<length (elems t)] (elems t)\<rparr>))"

definition in_projection_real ::
  "real tensor \<Rightarrow> real tensor \<Rightarrow> real tensor \<Rightarrow> real tensor \<Rightarrow> real tensor \<Rightarrow> real tensor
     \<Rightarrow> real tensor option \<Rightarrow> real tensor option \<Rightarrow> real tensor option
     \<Rightarrow> error + (real tensor \<times> real tensor \<times> real tensor)" where
  "in_projection_real q k v w_q w_k w_v b_q b_k b_v =
     ebind (linear_real q w_q b_q) (\<lambda>q'.
     ebind (linear_real k w_k b_k) (\<lambda>k'.
     ebind (linear_real v w_v b_v) (\<lambda>v'.
     Inr (q', k', v'))))"

definition in_projection_packed_real ::
  "real tensor \<Rightarrow> real tensor \<Rightarrow> real tensor \<Rightarrow> real tensor option \<Rightarrow> real tensor option
     \<Rightarrow> error + (real tensor \<times> real tensor \<times> real tensor)" where
  \<comment> \<open>the packed weight and bias are cut in three and each input is projected\<close>
  "in_projection_packed_real q k v w b =
     (case w of
        None \<Rightarrow> Inl (TypeError ''the packed weight is None'')
      | Some wt \<Rightarrow>
          ebind (chunk3 wt) (\<lambda>(w_q, w_k, w_v).
          ebind (case b of None \<Rightarrow> Inr (None, None, None)
                 | Some bt \<Rightarrow> ebind (chunk3 bt) (\<lambda>(b_q, b_k, b_v).
                               Inr (Some b_q, Some b_k, Some b_v))) (\<lambda>(b_q, b_k, b_v).
          in_projection_real q k v w_q w_k w_v b_q b_k b_v)))"

definition mha_shape_check ::
  "'a tensor \<Rightarrow> 'a tensor \<Rightarrow> 'a tensor \<Rightarrow> 'a tensor option \<Rightarrow> 'a tensor option \<Rightarrow> int
     \<Rightarrow> error + bool" where
  \<comment> \<open>the library's \<^verbatim>\<open>_mha_shape_check\<close>: it checks ranks, and the shape of a 3-D mask
      of an unbatched input, and returns whether the input is batched\<close>
  "mha_shape_check query key val key_padding_mask attn_mask n_heads =
     (if dim query = 3
      then (if \<not> (dim key = 3 \<and> dim val = 3)
            then Inl (AssertionError ''For batched (3-D) query, expected key and value to be 3-D'')
            else if (case key_padding_mask of None \<Rightarrow> False | Some m \<Rightarrow> dim m \<noteq> 2)
            then Inl (AssertionError ''For batched (3-D) query, expected key_padding_mask to be None or 2-D'')
            else if (case attn_mask of None \<Rightarrow> False | Some m \<Rightarrow> dim m \<noteq> 2 \<and> dim m \<noteq> 3)
            then Inl (AssertionError ''For batched (3-D) query, expected attn_mask to be None, 2-D or 3-D'')
            else Inr True)
      else if dim query = 2
      then (if \<not> (dim key = 2 \<and> dim val = 2)
            then Inl (AssertionError ''For unbatched (2-D) query, expected key and value to be 2-D'')
            else if (case key_padding_mask of None \<Rightarrow> False | Some m \<Rightarrow> dim m \<noteq> 1)
            then Inl (AssertionError ''For unbatched (2-D) query, expected key_padding_mask to be None or 1-D'')
            else if (case attn_mask of None \<Rightarrow> False | Some m \<Rightarrow> dim m \<noteq> 2 \<and> dim m \<noteq> 3)
            then Inl (AssertionError ''For unbatched (2-D) query, expected attn_mask to be None, 2-D or 3-D'')
            else if (case attn_mask of None \<Rightarrow> False
                     | Some m \<Rightarrow> dim m = 3 \<and> map int (shape m)
                                    \<noteq> [n_heads, int (shape query ! 0), int (shape key ! 0)])
            then Inl (AssertionError ''Expected attn_mask shape of (num_heads, L, S)'')
            else Inr False)
      else Inl (AssertionError ''query should be unbatched 2D or batched 3D tensor''))"

definition T0 :: "(real, nat) torch" where
  "T0 = \<lparr>float_of_int = real_of_int,
         float_nonzero = (\<lambda>x. x \<noteq> 0),
         float_add = (+),
         float_sum = sum_list,
         float_div = (/),
         float_sqrt = (\<lambda>n. sqrt (real n)),
         torch_bmm = bmm_real,
         nn_Softmax = softmax_real,
         F_dropout = dropout_real,
         F_linear = linear_real,
         F_in_projection_packed = in_projection_packed_real,
         F_in_projection = in_projection_real,
         F_mha_shape_check = mha_shape_check,
         init_parameter = (\<lambda>name sh. zeros real_of_int sh Float)\<rparr>"

definition floats :: "nat list \<Rightarrow> real list \<Rightarrow> real tensor" where
  "floats sh xs = \<lparr>shape = sh, dtype = Float, elems = map EFloat xs\<rparr>"

definition bools :: "nat list \<Rightarrow> bool list \<Rightarrow> real tensor" where
  "bools sh xs = \<lparr>shape = sh, dtype = Bool, elems = map EBool xs\<rparr>"

definition layer2 :: "real multihead_attention" where
  \<comment> \<open>a layer with \<^verbatim>\<open>embed_dim=2, num_heads=2\<close>, in evaluation mode\<close>
  "layer2 =
     \<lparr>embed_dim = 2, kdim = 2, vdim = 2, qkv_same_embed_dim = True, num_heads = 2,
      dropout = 1 / 2, batch_first = False, head_dim = 1,
      in_proj_weight = Some (floats [6, 2] [1, 0, 0, 1, 1, 0, 0, 1, 1, 0, 0, 1]),
      q_proj_weight = None, k_proj_weight = None, v_proj_weight = None,
      in_proj_bias = Some (floats [6] [0, 0, 0, 0, 0, 0]),
      out_proj_weight = floats [2, 2] [1, 0, 0, 1],
      out_proj_bias = Some (floats [2] [0, 0]),
      bias_k = None, bias_v = None, add_zero_attn = False, training = False\<rparr>"

definition default_functions ::
  "('a, 'r) torch \<Rightarrow> 'a \<Rightarrow> ('a, 'r, unit) customizable_multihead_ext" where
  \<comment> \<open>the defaults of \<^verbatim>\<open>CustomizableMultiHead.__init__\<close>, lines 211-215\<close>
  "default_functions T minus_inf =
     \<lparr>kernel_function = kernel_softmax T, attn_mask_value = minus_inf,
      attention_function = scaled_dot_product_attention T,
      attn_masking_function = attn_masking T,
      query_key_product = scaled_dot_product T\<rparr>"

section \<open>Example inputs\<close>

definition adapter2 :: "(real, nat) customizable_multihead" where
  \<comment> \<open>\<open>layer2\<close> as a customizable layer with the default functions; the mask fill value
      is a large negative number, the reals having no infinity\<close>
  "adapter2 = multihead_attention.extend layer2 (default_functions T0 (- 1000000))"

definition adapter3 :: "(real, nat) customizable_multihead" where
  \<comment> \<open>a layer whose \<^verbatim>\<open>embed_dim\<close> 3 is not divisible by its \<^verbatim>\<open>num_heads\<close> 2\<close>
  "adapter3 = adapter2\<lparr>embed_dim := 3\<rparr>"

definition q31 :: "real tensor" where
  \<comment> \<open>a batched input: \<^verbatim>\<open>tgt_len = 3, bsz = 1, embed_dim = 2\<close>\<close>
  "q31 = floats [3, 1, 2] [1, 0, 0, 1, 1, 1]"

definition q313 :: "real tensor" where
  "q313 = floats [3, 1, 3] [1, 0, 0, 0, 1, 0, 1, 1, 1]"

definition mask43 :: "real tensor" where
  \<comment> \<open>a 2-D mask of shape \<open>[4, 3]\<close> where \<open>[3, 3]\<close> is expected\<close>
  "mask43 = floats [4, 3] [0, 0, 0, 0, 0, 0, 0, 0, 0, 0, 0, 0]"

definition q11 :: "real tensor" where
  \<comment> \<open>a batched input with \<^verbatim>\<open>tgt_len = 1, bsz = 1, embed_dim = 2\<close>\<close>
  "q11 = floats [1, 1, 2] [1, 1]"

definition store0 :: "real store" where
  \<comment> \<open>a store with the scores at reference 0 and a mask at every other reference\<close>
  "store0 = (\<lambda>r. if r = 0 then floats [1, 2] [1, 2] else floats [1, 2] [10, 20])"

section \<open>Notions for stating the claims about the approximator\<close>

definition layer_configuration ::
  "('a, 'm) multihead_attention_scheme \<Rightarrow> ('a, 'r) kwargs" where
  \<comment> \<open>the configuration of a layer as lines 73-95 read it: the nine keys and the values
      they get when the dictionary holds none of them\<close>
  "layer_configuration l =
     [''vdim'' \<mapsto> PInt (vdim l),
      ''kdim'' \<mapsto> PInt (kdim l),
      ''add_zero_attn'' \<mapsto> PBool (add_zero_attn l),
      ''add_bias_kv'' \<mapsto> PBool (bias_k l \<noteq> None),
      ''bias'' \<mapsto> PBool (in_proj_bias l \<noteq> None),
      ''dropout'' \<mapsto> PFloat (dropout l),
      ''batch_first'' \<mapsto> PBool (batch_first l),
      ''num_heads'' \<mapsto> PInt (num_heads l),
      ''embed_dim'' \<mapsto> PInt (embed_dim l)]"

definition layer_invariant :: "'a multihead_attention \<Rightarrow> bool" where
  \<comment> \<open>what the library's constructor establishes between the attributes of a layer: which
      parameters exist follows from the configuration\<close>
  "layer_invariant l =
     (qkv_same_embed_dim l = (kdim l = embed_dim l \<and> vdim l = embed_dim l)
      \<and> num_heads l \<noteq> 0
      \<and> embed_dim l div num_heads l * num_heads l = embed_dim l
      \<and> head_dim l = embed_dim l div num_heads l
      \<and> 0 \<le> embed_dim l
      \<and> (qkv_same_embed_dim l \<or> (0 \<le> kdim l \<and> 0 \<le> vdim l))
      \<and> (in_proj_weight l \<noteq> None) = qkv_same_embed_dim l
      \<and> (q_proj_weight l = None) = qkv_same_embed_dim l
      \<and> (k_proj_weight l = None) = qkv_same_embed_dim l
      \<and> (v_proj_weight l = None) = qkv_same_embed_dim l
      \<and> (in_proj_bias l = None) = (out_proj_bias l = None)
      \<and> (bias_k l = None) = (bias_v l = None))"

definition approximator0 :: "(real, nat) approximator" where
  \<comment> \<open>an approximator whose \<^verbatim>\<open>parameters\<close> dictionary is empty and that has built
      no layer yet\<close>
  "approximator0 = \<lparr>parameters = Map.empty, approximations = []\<rparr>"

definition layer4 :: "real multihead_attention" where
  \<comment> \<open>a layer with \<^verbatim>\<open>embed_dim=4, num_heads=1\<close> and no biases, in training mode\<close>
  "layer4 =
     \<lparr>embed_dim = 4, kdim = 4, vdim = 4, qkv_same_embed_dim = True, num_heads = 1,
      dropout = 0, batch_first = True, head_dim = 4,
      in_proj_weight = Some (floats [12, 4] (replicate 48 1)),
      q_proj_weight = None, k_proj_weight = None, v_proj_weight = None,
      in_proj_bias = None,
      out_proj_weight = floats [4, 4] (replicate 16 1),
      out_proj_bias = None,
      bias_k = None, bias_v = None, add_zero_attn = False, training = True\<rparr>"

subsection \<open>Example masks, calls and replaced attention functions\<close>

definition kpm12 :: "real tensor" where
  \<comment> \<open>a key padding mask for \<^verbatim>\<open>bsz = 1, src_len = 2\<close>: the second position is padding\<close>
  "kpm12 = bools [1, 2] [False, True]"

definition am212 :: "real tensor" where
  \<comment> \<open>a floating attention mask for two heads, \<^verbatim>\<open>tgt_len = 1, src_len = 2\<close>\<close>
  "am212 = floats [2, 1, 2] [1, 2, 3, 4]"

definition k21 :: "real tensor" where
  \<comment> \<open>a batched key with \<^verbatim>\<open>src_len = 2, bsz = 1, embed_dim = 2\<close>\<close>
  "k21 = floats [2, 1, 2] [1, 0, 0, 1]"

definition attention_q11_k21 :: "bool \<Rightarrow> (real tensor \<times> real tensor option) comp" where
  \<comment> \<open>the engine call that the forward of \<open>adapter2\<close> makes for the query \<open>q11\<close> and the key
      and value \<open>k21\<close>, with \<^verbatim>\<open>need_weights=True\<close>\<close>
  "attention_q11_k21 average_attn_weights =
     multi_head_attention_forward T0 0 q11 k21 k21 2 2
       (in_proj_weight layer2) (in_proj_bias layer2) None None False (1 / 2)
       (out_proj_weight layer2) (out_proj_bias layer2) False None True None
       False None None None None None average_attn_weights
       (kernel_softmax T0) (- 1000000) (scaled_dot_product_attention T0) (attn_masking T0)
       (scaled_dot_product T0)"

definition attention_returning_mask :: "(real, nat) attention_fn" where
  \<comment> \<open>a replacement attention function that returns the query as its output and the mask
      it is given as its weights, so that the mask shows in the result of the call\<close>
  "attention_returning_mask rng q k v msk dropout_p kernel_fn fill_value masking_fn
       product_fn =
     (case msk of
        None \<Rightarrow> raise (TypeError ''no mask'')
      | Some m \<Rightarrow> ret (q, m))"

definition attention_with_dropout :: "(real, nat) attention_fn" where
  \<comment> \<open>a replacement attention function: the default one, except that it applies dropout
      with the rate \<open>1/2\<close> whatever \<^verbatim>\<open>dropout_p\<close> it is given\<close>
  "attention_with_dropout rng q k v msk dropout_p kernel_fn fill_value masking_fn product_fn =
     scaled_dot_product_attention T0 rng q k v msk (1 / 2) kernel_fn fill_value masking_fn
       product_fn"

definition adapter_dropout :: "(real, nat) customizable_multihead" where
  \<comment> \<open>\<open>adapter2\<close>, which is in evaluation mode, with this attention function\<close>
  "adapter_dropout = adapter2\<lparr>attention_function := attention_with_dropout\<rparr>"

section \<open>Computations: traces and outcomes\<close>

lemma trace_pair [simp]: "trace (l, r) = l"
  by (simp add: trace_def)

lemma outcome_pair [simp]: "outcome (l, r) = r"
  by (simp add: outcome_def)

lemma comp_eq: "m = (trace m, outcome m)"
  by (simp add: trace_def outcome_def)

lemma trace_bind:
  "trace (bind m f) = (case outcome m of Inl e \<Rightarrow> trace m | Inr x \<Rightarrow> trace m @ trace (f x))"
  by (cases m) (auto simp: bind_def split: sum.splits prod.splits)

lemma outcome_bind:
  "outcome (bind m f) = (case outcome m of Inl e \<Rightarrow> Inl e | Inr x \<Rightarrow> outcome (f x))"
  by (cases m) (auto simp: bind_def split: sum.splits prod.splits)

lemma bind_ret [simp]: "bind (ret x) f = f x"
  by (simp add: bind_def ret_def split: prod.splits)

lemma bind_raise [simp]: "bind (raise e) f = raise e"
  by (simp add: bind_def raise_def)

lemma bind_lift_Inl [simp]: "bind (lift (Inl e)) f = raise e"
  by (simp add: bind_def lift_def raise_def)

lemma bind_lift_Inr [simp]: "bind (lift (Inr x)) f = f x"
  by (simp add: bind_def lift_def split: prod.splits)

lemma trace_raise [simp]: "trace (raise e) = []"
  by (simp add: raise_def)

lemma outcome_raise [simp]: "outcome (raise e) = Inl e"
  by (simp add: raise_def)

lemma trace_ret [simp]: "trace (ret x) = []"
  by (simp add: ret_def)

lemma outcome_ret [simp]: "outcome (ret x) = Inr x"
  by (simp add: ret_def)

lemma trace_op [simp]: "trace (op n r) = [Op n]"
  by (simp add: op_def)

lemma outcome_op [simp]: "outcome (op n r) = r"
  by (simp add: op_def)

lemma trace_bind_subset:
  "set (trace m) \<subseteq> S \<Longrightarrow> (\<And>x. set (trace (f x)) \<subseteq> S) \<Longrightarrow> set (trace (bind m f)) \<subseteq> S"
  by (auto simp: trace_bind split: sum.splits)

lemma outcome_bind_Inl: "outcome m = Inl e \<Longrightarrow> outcome (bind m f) = Inl e"
  by (simp add: outcome_bind)

lemma trace_bind_Inl: "outcome m = Inl e \<Longrightarrow> trace (bind m f) = trace m"
  by (simp add: trace_bind)

lemma not_divisible: "(a::int) mod b \<noteq> 0 \<Longrightarrow> a div b * b \<noteq> a"
  by (metis mod_mult_self2_is_0)

lemma shape_vars_not_divisible:
  assumes "edc mod nh \<noteq> 0"
  shows "\<exists>e. shape_vars q k v edc nh usp = raise e"
proof (cases "shape q")
  case Nil
  then show ?thesis by (auto simp: shape_vars_def)
next
  case (Cons a as)
  show ?thesis
  proof (cases "\<exists>t b E s x y. shape q = [t, b, E] \<and> shape k = [s, x, y]")
    case False
    then show ?thesis
      by (auto simp: shape_vars_def split: list.splits)
  next
    case True
    then obtain t b E s x y where sh: "shape q = [t, b, E]" "shape k = [s, x, y]"
      by blast
    show ?thesis
    proof (cases "int E = edc")
      case False
      then show ?thesis by (auto simp: shape_vars_def sh py_assert_def)
    next
      case True
      with assms have "int E div nh * nh \<noteq> int E"
        using not_divisible by blast
      then show ?thesis
        using True by (auto simp: shape_vars_def sh py_assert_def floordiv_def)
    qed
  qed
qed

lemma trace_unsqueeze_opt: "set (trace (unsqueeze_opt t d)) \<subseteq> {Op ''unsqueeze''}"
  by (cases t) (auto simp: unsqueeze_opt_def trace_bind split: sum.splits)

lemma trace_unsqueeze_unbatched:
  "set (trace (unsqueeze_unbatched b q k v kpm)) \<subseteq> {Op ''unsqueeze''}"
  using trace_unsqueeze_opt[of kpm 0]
  by (auto simp: unsqueeze_unbatched_def trace_bind split: sum.splits)

lemma engine_prefix:
  "\<exists>rest. multi_head_attention_forward T rng query key val edc nh ipw ipb bk bv az dp opw opb
       tr kpm nw am usp qw kw vw sk sv avg kf mv af mf pf =
     bind (lift (F_mha_shape_check T query key val kpm am nh)) (\<lambda>b.
     bind (unsqueeze_unbatched b query key val kpm) (\<lambda>(q, k, v, kpm').
     bind (shape_vars q k v edc nh usp) (rest b q k v kpm')))"
  unfolding multi_head_attention_forward_def
  by (rule exI) (rule refl)

lemma engine_not_divisible:
  assumes "edc mod nh \<noteq> 0"
  shows "(\<exists>e. outcome (multi_head_attention_forward T rng query key val edc nh ipw ipb bk bv az
             dp opw opb tr kpm nw am usp qw kw vw sk sv avg kf mv af mf pf) = Inl e)
       \<and> set (trace (multi_head_attention_forward T rng query key val edc nh ipw ipb bk bv az
             dp opw opb tr kpm nw am usp qw kw vw sk sv avg kf mv af mf pf))
           \<subseteq> {Op ''unsqueeze''}"
proof -
  obtain rest where eq: "multi_head_attention_forward T rng query key val edc nh ipw ipb bk bv az dp opw opb
       tr kpm nw am usp qw kw vw sk sv avg kf mv af mf pf =
     bind (lift (F_mha_shape_check T query key val kpm am nh)) (\<lambda>b.
     bind (unsqueeze_unbatched b query key val kpm) (\<lambda>(q, k, v, kpm').
     bind (shape_vars q k v edc nh usp) (rest b q k v kpm')))"
    using engine_prefix[of T rng query key val edc nh ipw ipb bk bv az dp opw opb
       tr kpm nw am usp qw kw vw sk sv avg kf mv af mf pf] ..
  let ?R = "multi_head_attention_forward T rng query key val edc nh ipw ipb bk bv az
             dp opw opb tr kpm nw am usp qw kw vw sk sv avg kf mv af mf pf"
  show ?thesis
  proof (cases "F_mha_shape_check T query key val kpm am nh")
    case (Inl e)
    then show ?thesis by (simp add: eq)
  next
    case (Inr b)
    note sc = this
    let ?u = "unsqueeze_unbatched b query key val kpm"
    have l: "set (trace ?u) \<subseteq> {Op ''unsqueeze''}"
      by (rule trace_unsqueeze_unbatched)
    show ?thesis
    proof (cases "outcome ?u")
      case (Inl e)
      then show ?thesis using l by (simp add: eq sc outcome_bind trace_bind)
    next
      case (Inr x)
      obtain q k v kpm' where x: "x = (q, k, v, kpm')" by (cases x) auto
      obtain e where "shape_vars q k v edc nh usp = raise e"
        using shape_vars_not_divisible[OF assms] by blast
      then show ?thesis
        using l by (simp add: eq sc Inr x outcome_bind trace_bind)
    qed
  qed
qed

section \<open>Divisibility of the embedding dimension\<close>

lemma trace_transpose_inputs:
  "set (trace (transpose_inputs q k v)) \<subseteq> {Op ''transpose''}"
  by (auto simp: transpose_inputs_def trace_bind split: sum.splits)

lemma shape_vars_divisibility_assertion:
  assumes "shape q = [t, b, E]" and "dim k = 3" and "int E = edc" and "nh \<noteq> 0"
    and "edc mod nh \<noteq> 0"
  shows "shape_vars q k v edc nh usp
           = raise (AssertionError ''embed_dim not divisible by num_heads'')"
proof -
  obtain s x y where k: "shape k = [s, x, y]"
    using assms(2) by (auto simp: dim_def length_Suc_conv numeral_3_eq_3)
  have "int E div nh * nh \<noteq> int E"
    using assms(3,5) not_divisible by blast
  then show ?thesis
    using assms(3,4) by (simp add: shape_vars_def assms(1) k py_assert_def floordiv_def)
qed

lemma engine_divisibility_assertion:
  assumes "F_mha_shape_check T query key val kpm am nh = Inr True"
    and "dim query = 3" and "dim key = 3" and "int (shape query ! 2) = edc" and "nh \<noteq> 0"
    and "edc mod nh \<noteq> 0"
  shows "multi_head_attention_forward T rng query key val edc nh ipw ipb bk bv az
             dp opw opb tr kpm nw am usp qw kw vw sk sv avg kf mv af mf pf
           = raise (AssertionError ''embed_dim not divisible by num_heads'')"
proof -
  obtain t b E where q: "shape query = [t, b, E]"
    using assms(2) by (auto simp: dim_def length_Suc_conv numeral_3_eq_3)
  have "shape_vars query key val edc nh usp
           = raise (AssertionError ''embed_dim not divisible by num_heads'')"
    using shape_vars_divisibility_assertion[OF q assms(3) _ assms(5,6)] assms(4) q by simp
  then show ?thesis
    by (simp add: multi_head_attention_forward_def assms(1) unsqueeze_unbatched_def)
qed

text \<open>
  Claim C4. When \<^verbatim>\<open>embed_dim\<close> is not divisible by \<^verbatim>\<open>num_heads\<close>, every forward call of the
  layer ends in an exception, and no attention computation has run by then: the only
  tensor operations before it are the transposition of batch-first inputs and the
  unsqueezing of unbatched ones. For a sequence-first batched input of the configured
  embedding dimension the exception is the assertion of lines 428-430, raised before any
  tensor operation. (\<open>mod\<close> is Python's \<^verbatim>\<open>%\<close> for a divisor that is not zero; with
  \<^verbatim>\<open>num_heads = 0\<close> the division of line 427 raises.)
\<close>

theorem forward_embed_dim_not_divisible:
  assumes "embed_dim self mod num_heads self \<noteq> 0"
  shows "(\<exists>e. outcome (forward T rng self query key val kpm nw am avg) = Inl e)
       \<and> set (trace (forward T rng self query key val kpm nw am avg))
           \<subseteq> {Op ''transpose'', Op ''unsqueeze''}
       \<and> (\<not> batch_first self
            \<and> F_mha_shape_check T query key val kpm am (num_heads self) = Inr True
            \<and> dim query = 3 \<and> dim key = 3
            \<and> int (shape query ! 2) = embed_dim self \<and> num_heads self \<noteq> 0
          \<longrightarrow> forward T rng self query key val kpm nw am avg
                = raise (AssertionError ''embed_dim not divisible by num_heads''))"
proof -
  let ?pre = "if batch_first self \<and> dim query = 3
              then transpose_inputs query key val else ret (query, key, val)"
  have pre: "set (trace ?pre) \<subseteq> {Op ''transpose''}"
    using trace_transpose_inputs[of query key val] by simp
  have eng: "\<And>q k v usp qw kw vw.
      (\<exists>e. outcome (multi_head_attention_forward T rng q k v (embed_dim self) (num_heads self)
         (in_proj_weight self) (in_proj_bias self) (bias_k self) (bias_v self)
         (add_zero_attn self) (dropout self) (out_proj_weight self) (out_proj_bias self)
         (training self) kpm nw am usp qw kw vw None None avg
         (kernel_function self) (attn_mask_value self) (attention_function self)
         (attn_masking_function self) (query_key_product self)) = Inl e)
      \<and> set (trace (multi_head_attention_forward T rng q k v (embed_dim self) (num_heads self)
         (in_proj_weight self) (in_proj_bias self) (bias_k self) (bias_v self)
         (add_zero_attn self) (dropout self) (out_proj_weight self) (out_proj_bias self)
         (training self) kpm nw am usp qw kw vw None None avg
         (kernel_function self) (attn_mask_value self) (attention_function self)
         (attn_masking_function self) (query_key_product self))) \<subseteq> {Op ''unsqueeze''}"
    by (rule engine_not_divisible[OF assms])
  have A: "(\<exists>e. outcome (forward T rng self query key val kpm nw am avg) = Inl e)
       \<and> set (trace (forward T rng self query key val kpm nw am avg))
           \<subseteq> {Op ''transpose'', Op ''unsqueeze''}"
  proof (cases "outcome ?pre")
    case (Inl e)
    then show ?thesis
      using pre by (auto simp: forward_def Let_def outcome_bind trace_bind)
  next
    case (Inr x)
    obtain q k v where x: "x = (q, k, v)" by (cases x) auto
    show ?thesis
    proof (cases "qkv_same_embed_dim self")
      case True
      from eng[of q k v False None None None] obtain e where
        e: "outcome (multi_head_attention_forward T rng q k v (embed_dim self) (num_heads self)
         (in_proj_weight self) (in_proj_bias self) (bias_k self) (bias_v self)
         (add_zero_attn self) (dropout self) (out_proj_weight self) (out_proj_bias self)
         (training self) kpm nw am False None None None None None avg
         (kernel_function self) (attn_mask_value self) (attention_function self)
         (attn_masking_function self) (query_key_product self)) = Inl e"
        by blast
      show ?thesis
        using pre eng[of q k v False None None None] e Inr x True
        by (auto simp: forward_def Let_def outcome_bind trace_bind)
    next
      case False
      from eng[of q k v True "q_proj_weight self" "k_proj_weight self" "v_proj_weight self"]
      obtain e where
        e: "outcome (multi_head_attention_forward T rng q k v (embed_dim self) (num_heads self)
         (in_proj_weight self) (in_proj_bias self) (bias_k self) (bias_v self)
         (add_zero_attn self) (dropout self) (out_proj_weight self) (out_proj_bias self)
         (training self) kpm nw am True (q_proj_weight self) (k_proj_weight self)
         (v_proj_weight self) None None avg
         (kernel_function self) (attn_mask_value self) (attention_function self)
         (attn_masking_function self) (query_key_product self)) = Inl e"
        by blast
      show ?thesis
        using pre eng[of q k v True "q_proj_weight self" "k_proj_weight self" "v_proj_weight self"]
          e Inr x False
        by (auto simp: forward_def Let_def outcome_bind trace_bind)
    qed
  qed
  have B: "\<not> batch_first self
            \<and> F_mha_shape_check T query key val kpm am (num_heads self) = Inr True
            \<and> dim query = 3 \<and> dim key = 3
            \<and> int (shape query ! 2) = embed_dim self \<and> num_heads self \<noteq> 0
          \<longrightarrow> forward T rng self query key val kpm nw am avg
                = raise (AssertionError ''embed_dim not divisible by num_heads'')"
    using assms by (auto simp: forward_def Let_def engine_divisibility_assertion)
  from A B show ?thesis by blast
qed

lemma mha_shape_check_q313: "F_mha_shape_check T0 q313 q313 q313 None None 2 = Inr True"
  by (simp add: T0_def mha_shape_check_def q313_def floats_def dim_def)

theorem forward_embed_dim_not_divisible_witness:
  "embed_dim adapter3 mod num_heads adapter3 \<noteq> 0
   \<and> (\<exists>e. outcome (forward T0 0 adapter3 q313 q313 q313 None True None True) = Inl e)
   \<and> set (trace (forward T0 0 adapter3 q313 q313 q313 None True None True))
       \<subseteq> {Op ''transpose'', Op ''unsqueeze''}
   \<and> forward T0 0 adapter3 q313 q313 q313 None True None True
       = raise (AssertionError ''embed_dim not divisible by num_heads'')"
proof -
  have cfg: "embed_dim adapter3 = 3" "num_heads adapter3 = 2" "\<not> batch_first adapter3"
    by (simp_all add: adapter3_def adapter2_def layer2_def multihead_attention.defs)
  have h: "embed_dim adapter3 mod num_heads adapter3 \<noteq> 0"
    by (simp add: cfg)
  have sh: "dim q313 = 3" "int (shape q313 ! 2) = embed_dim adapter3"
    by (simp_all add: cfg q313_def floats_def dim_def)
  show ?thesis
    using forward_embed_dim_not_divisible[OF h, of T0 0 q313 q313 q313 None True None True]
      mha_shape_check_q313 cfg sh h
    by simp
qed

section \<open>The order of in-projection and mask validation\<close>

lemma unsqueeze_hd:
  "unsqueeze t (Suc 0) = Inr t' \<Longrightarrow> hd (shape t') = hd (shape t)"
  by (cases "shape t") (auto simp: unsqueeze_def dim_def split: if_splits)

lemma unsqueeze_error:
  "unsqueeze t d = Inl e \<Longrightarrow> e = IndexError ''Dimension out of range''"
  by (auto simp: unsqueeze_def split: if_splits)

lemma unsqueeze_opt_error:
  "outcome (unsqueeze_opt t d) = Inl e \<Longrightarrow> e = IndexError ''Dimension out of range''"
  by (cases t) (auto simp: unsqueeze_opt_def outcome_bind split: sum.splits dest: unsqueeze_error)

lemma unsqueeze_unbatched_error:
  "outcome (unsqueeze_unbatched b query key val kpm) = Inl e
     \<Longrightarrow> e = IndexError ''Dimension out of range''"
  by (auto simp: unsqueeze_unbatched_def outcome_bind split: if_splits sum.splits
           dest: unsqueeze_error unsqueeze_opt_error)

lemma unsqueeze_unbatched_hd:
  "outcome (unsqueeze_unbatched b query key val kpm) = Inr (q, k, v, kpm')
     \<Longrightarrow> hd (shape q) = hd (shape query) \<and> hd (shape k) = hd (shape key)"
  by (auto simp: unsqueeze_unbatched_def outcome_bind split: if_splits sum.splits
           dest: unsqueeze_hd)

lemma py_assert_True [simp]: "py_assert True msg = ret ()"
  and py_assert_False [simp]: "py_assert False msg = raise (AssertionError msg)"
  by (simp_all add: py_assert_def)

lemma trace_py_assert [simp]: "trace (py_assert c msg) = []"
  by (simp add: py_assert_def)

lemma outcome_py_assert [simp]:
  "outcome (py_assert c msg) = (if c then Inr () else Inl (AssertionError msg))"
  by (simp add: py_assert_def)

lemma trace_floordiv [simp]: "trace (floordiv a b) = []"
  by (simp add: floordiv_def)

lemma trace_shape_vars [simp]: "trace (shape_vars q k v edc nh usp) = []"
  by (auto simp: shape_vars_def trace_bind split: list.splits sum.splits)

lemma shape_vars_error:
  "outcome (shape_vars q k v edc nh usp) = Inl e \<Longrightarrow> e \<noteq> RuntimeError s"
  by (auto simp: shape_vars_def outcome_bind floordiv_def split: list.splits sum.splits if_splits)

lemma shape_vars_lengths:
  "outcome (shape_vars q k v edc nh usp) = Inr (tgt_len, bsz, E, src_len, hd_dim)
     \<Longrightarrow> hd (shape q) = tgt_len \<and> hd (shape k) = src_len"
  by (auto simp: shape_vars_def outcome_bind floordiv_def split: list.splits sum.splits if_splits)

lemma trace_chunk_bias: "set (trace (chunk_bias b)) \<subseteq> {Op ''chunk''}"
  by (cases b) (auto simp: chunk_bias_def trace_bind split: sum.splits prod.splits)

lemma chunk3_error:
  "chunk3 t = Inl e \<Longrightarrow> e \<noteq> RuntimeError ''The shape of the 2D attn_mask is wrong''"
  by (auto simp: chunk3_def Let_def split: list.splits if_splits)

lemma chunk_bias_error:
  "outcome (chunk_bias b) = Inl e
     \<Longrightarrow> e \<noteq> RuntimeError ''The shape of the 2D attn_mask is wrong''"
  by (cases b) (auto simp: chunk_bias_def outcome_bind split: sum.splits prod.splits
                     dest: chunk3_error)

lemma trace_compute_in_projection:
  "set (trace (compute_in_projection T q k v usp ipw ipb qw kw vw))
     \<subseteq> {Op ''chunk'', Op ''_in_projection_packed'', Op ''_in_projection''}"
  using trace_chunk_bias[of ipb]
  by (auto simp: compute_in_projection_def trace_bind split: option.splits sum.splits prod.splits)

lemma compute_in_projection_ran:
  assumes "outcome (compute_in_projection T q k v usp ipw ipb qw kw vw) = Inr x
         \<or> outcome (compute_in_projection T q k v usp ipw ipb qw kw vw)
             = Inl (RuntimeError ''The shape of the 2D attn_mask is wrong'')"
  shows "Op ''_in_projection_packed''
           \<in> set (trace (compute_in_projection T q k v usp ipw ipb qw kw vw))
       \<or> Op ''_in_projection''
           \<in> set (trace (compute_in_projection T q k v usp ipw ipb qw kw vw))"
  using assms chunk_bias_error[of ipb]
  by (auto simp: compute_in_projection_def trace_bind outcome_bind
           split: option.splits sum.splits prod.splits if_splits)


lemma tensor_ops_append [simp]: "tensor_ops (xs @ ys) = tensor_ops xs @ tensor_ops ys"
  by (induction xs rule: tensor_ops.induct) auto

lemma to_bool_shape [simp]: "shape (to_bool T m) = shape m" "dim (to_bool T m) = dim m"
  by (simp_all add: to_bool_def to_dtype_def dim_def)

lemma prep_attn_mask_wrong_2d:
  assumes "dim m = 2" and "shape m \<noteq> [tgt_len, src_len]"
  shows "\<exists>e. outcome (prep_attn_mask T (Some m) tgt_len src_len bsz nh) = Inl e"
    and "set (tensor_ops (trace (prep_attn_mask T (Some m) tgt_len src_len bsz nh))) \<subseteq> {''to''}"
  using assms
  by (auto simp: prep_attn_mask_def outcome_bind trace_bind warn_def split: sum.splits)

lemma prep_attn_mask_wrong_2d_error:
  assumes "dim m = 2" and "shape m \<noteq> [tgt_len, src_len]" and "dtype m = Float \<or> dtype m = Bool"
  shows "prep_attn_mask T (Some m) tgt_len src_len bsz nh
           = raise (RuntimeError ''The shape of the 2D attn_mask is wrong'')"
  using assms by (auto simp: prep_attn_mask_def)

lemma tensor_ops_unsqueeze_unbatched:
  "set (tensor_ops (trace (unsqueeze_unbatched b q k v kpm))) \<subseteq> {''unsqueeze''}"
proof -
  have "set (tensor_ops l) \<subseteq> {''unsqueeze''}" if "set l \<subseteq> {Op ''unsqueeze''}" for l
    using that by (induction l rule: tensor_ops.induct) auto
  then show ?thesis
    using trace_unsqueeze_unbatched by blast
qed

lemma tensor_ops_compute_in_projection:
  "set (tensor_ops (trace (compute_in_projection T q k v usp ipw ipb qw kw vw)))
     \<subseteq> {''chunk'', ''_in_projection_packed'', ''_in_projection''}"
proof -
  have "set (tensor_ops l) \<subseteq> {''chunk'', ''_in_projection_packed'', ''_in_projection''}"
    if "set l \<subseteq> {Op ''chunk'', Op ''_in_projection_packed'', Op ''_in_projection''}" for l
    using that by (induction l rule: tensor_ops.induct) auto
  then show ?thesis
    using trace_compute_in_projection by blast
qed

lemma engine_prefix_mask:
  "\<exists>rest. multi_head_attention_forward T rng query key val edc nh ipw ipb bk bv az dp opw opb
       tr kpm nw am usp qw kw vw sk sv avg kf mv af mf pf =
     bind (lift (F_mha_shape_check T query key val kpm am nh)) (\<lambda>b.
     bind (unsqueeze_unbatched b query key val kpm) (\<lambda>(q, k, v, kpm').
     bind (shape_vars q k v edc nh usp) (\<lambda>(tgt_len, bsz, E, src_len, hd_dim).
     bind (compute_in_projection T q k v usp ipw ipb qw kw vw) (\<lambda>(q', k', v').
     bind (prep_attn_mask T am tgt_len src_len bsz nh)
       (rest b q k v kpm' tgt_len bsz E src_len hd_dim q' k' v')))))"
  unfolding multi_head_attention_forward_def
  by (rule exI) (rule refl)

lemma engine_mask_shape:
  fixes T rng query key val edc nh ipw ipb bk bv az dp opw opb tr kpm nw m usp qw kw vw
    sk sv avg kf mv af mf pf
  defines "R \<equiv> multi_head_attention_forward T rng query key val edc nh ipw ipb bk bv az dp
                 opw opb tr kpm nw (Some m) usp qw kw vw sk sv avg kf mv af mf pf"
  assumes sc: "F_mha_shape_check T query key val kpm (Some m) nh = Inr b"
    and m: "dim m = 2" "shape m \<noteq> [hd (shape query), hd (shape key)]"
  shows "(\<exists>e. outcome R = Inl e)
       \<and> set (tensor_ops (trace R))
           \<subseteq> {''unsqueeze'', ''chunk'', ''_in_projection_packed'', ''_in_projection'', ''to''}
       \<and> (outcome R = Inl (RuntimeError ''The shape of the 2D attn_mask is wrong'')
            \<longrightarrow> Op ''_in_projection_packed'' \<in> set (trace R)
                \<or> Op ''_in_projection'' \<in> set (trace R))"
proof -
  obtain rest where eq: "R =
     bind (lift (F_mha_shape_check T query key val kpm (Some m) nh)) (\<lambda>b.
     bind (unsqueeze_unbatched b query key val kpm) (\<lambda>(q, k, v, kpm').
     bind (shape_vars q k v edc nh usp) (\<lambda>(tgt_len, bsz, E, src_len, hd_dim).
     bind (compute_in_projection T q k v usp ipw ipb qw kw vw) (\<lambda>(q', k', v').
     bind (prep_attn_mask T (Some m) tgt_len src_len bsz nh)
       (rest b q k v kpm' tgt_len bsz E src_len hd_dim q' k' v')))))"
    unfolding R_def
    using engine_prefix_mask[of T rng query key val edc nh ipw ipb bk bv az dp opw opb
       tr kpm nw "Some m" usp qw kw vw sk sv avg kf mv af mf pf] ..
  let ?U = "unsqueeze_unbatched b query key val kpm"
  have tU: "set (tensor_ops (trace ?U)) \<subseteq> {''unsqueeze''}"
    by (rule tensor_ops_unsqueeze_unbatched)
  show ?thesis
  proof (cases "outcome ?U")
    case (Inl e)
    then show ?thesis
      using tU unsqueeze_unbatched_error[OF Inl]
      by (auto simp: eq sc outcome_bind trace_bind)
  next
    case U: (Inr x)
    obtain q k v kpm' where x: "x = (q, k, v, kpm')" by (cases x) auto
    have hds: "hd (shape q) = hd (shape query)" "hd (shape k) = hd (shape key)"
      using unsqueeze_unbatched_hd[of b query key val kpm q k v kpm'] U x by simp_all
    let ?S = "shape_vars q k v edc nh usp"
    show ?thesis
    proof (cases "outcome ?S")
      case (Inl e)
      then show ?thesis
        using tU shape_vars_error[OF Inl]
        by (auto simp: eq sc U x outcome_bind trace_bind)
    next
      case S: (Inr y)
      obtain tgt_len bsz E src_len hd_dim where y: "y = (tgt_len, bsz, E, src_len, hd_dim)"
        by (cases y) auto
      have len: "tgt_len = hd (shape query)" "src_len = hd (shape key)"
        using shape_vars_lengths[of q k v edc nh usp tgt_len bsz E src_len hd_dim] S y hds
        by simp_all
      let ?P = "compute_in_projection T q k v usp ipw ipb qw kw vw"
      have tP: "set (tensor_ops (trace ?P))
                  \<subseteq> {''chunk'', ''_in_projection_packed'', ''_in_projection''}"
        by (rule tensor_ops_compute_in_projection)
      show ?thesis
      proof (cases "outcome ?P")
        case (Inl e)
        have "Op ''_in_projection_packed'' \<in> set (trace ?P)
            \<or> Op ''_in_projection'' \<in> set (trace ?P)"
          if "e = RuntimeError ''The shape of the 2D attn_mask is wrong''"
          using compute_in_projection_ran[of T q k v usp ipw ipb qw kw vw] Inl that by simp
        then show ?thesis
          using tU tP Inl
          by (auto simp: eq sc U x S y outcome_bind trace_bind)
      next
        case P: (Inr z)
        obtain q' k' v' where z: "z = (q', k', v')" by (cases z) auto
        have ran: "Op ''_in_projection_packed'' \<in> set (trace ?P)
            \<or> Op ''_in_projection'' \<in> set (trace ?P)"
          using compute_in_projection_ran[of T q k v usp ipw ipb qw kw vw] P by simp
        let ?M = "prep_attn_mask T (Some m) tgt_len src_len bsz nh"
        have wrong: "shape m \<noteq> [tgt_len, src_len]"
          using m(2) len by simp
        obtain e where M: "outcome ?M = Inl e"
          using prep_attn_mask_wrong_2d(1)[OF m(1) wrong] by blast
        have tM: "set (tensor_ops (trace ?M)) \<subseteq> {''to''}"
          by (rule prep_attn_mask_wrong_2d(2)[OF m(1) wrong])
        show ?thesis
          using tU tP tM ran M
          by (auto simp: eq sc U x S y P z outcome_bind trace_bind)
      qed
    qed
  qed
qed


subsection \<open>Evaluation of the examples\<close>

lemma chunks_numeral:
  "chunks (numeral n) len xs = take len xs # chunks (pred_numeral n) len (drop len xs)"
  by (simp add: numeral_eq_Suc)

lemma chunks_one: "chunks 1 len xs = [take len xs]"
  using chunks.simps(2)[of 0 len xs] by simp

lemma upt_numeral_eval:
  "[i..<numeral n] = (if i < numeral n then i # [Suc i..<numeral n] else [])"
  by (rule upt_rec)

lemma upt_one_eval: "[i..<Suc 0] = (if i = 0 then [0] else [])"
  by (simp add: upt_rec)

lemmas comp_defs = bind_def ret_def raise_def op_def lift_def warn_def py_assert_def ebind_def
  trace_def outcome_def

lemmas tensor_defs = dim_def numel_def unsqueeze_def squeeze_def view_def transpose01_def
  transpose_last2_def expand_def expandable_def expand_sizes_def chunk3_def zeros_def
  zero_elem_def to_dtype_def to_bool_def cast_to_def iadd_def logical_or_def masked_fill_def
  masked_fill_inplace_def fill_where_def sum_dim1_def sum_elems_def div_scalar_def
  pad_last_def cat0_def cat1_def repeat_1n1_def zeros_sizes_def broadcast_shapes_def
  add_elem_def chunks_numeral chunks_one upt_numeral_eval upt_one_eval

lemmas T0_defs = T0_def linear_real_def bmm_real_def softmax_real_def dropout_real_def
  in_projection_real_def in_projection_packed_real_def mha_shape_check_def fl_def
  floats_def bools_def

lemmas engine_defs = multi_head_attention_forward_def unsqueeze_unbatched_def
  unsqueeze_opt_def floordiv_def shape_vars_def chunk_bias_def compute_in_projection_def
  prep_attn_mask_def prep_key_padding_mask_def pad_opt_def add_bias_kv_def size_at_def
  reshape_heads_def use_static_def reshape_qkv_def add_zero_attention_def
  expand_key_padding_mask_def merge_masks_def mask_to_float_def out_projection_def
  average_heads_def reduce_weights_def scaled_dot_product_def attn_masking_def
  kernel_softmax_def scaled_dot_product_attention_def forward_def transpose_inputs_def

lemmas example_defs = adapter2_def adapter3_def layer2_def default_functions_def
  multihead_attention.defs customizable_multihead.defs q31_def q313_def mask43_def

text \<open>
  Claim C3, as amended. A call whose 2-D \<^verbatim>\<open>attn_mask\<close> has a shape other than
  \<^verbatim>\<open>[tgt_len, src_len]\<close> (the first dimensions of query and key), and that passes the
  library's rank check, ends in an exception. The mask is validated (lines 484-500) after
  the in-projection (lines 444-470): the tensor operations that can run before the
  exception are the unsqueezing of unbatched inputs, the chunking of the bias, the
  in-projection and the cast of a byte mask; none of the later stages runs. Whenever the
  exception is the mask-shape error, the in-projection has run.
\<close>

theorem mask_shape_error_after_in_projection:
  fixes T rng query key val edc nh ipw ipb bk bv az dp opw opb tr kpm nw m usp qw kw vw
    sk sv avg kf mv af mf pf
  defines "R \<equiv> multi_head_attention_forward T rng query key val edc nh ipw ipb bk bv az dp
                 opw opb tr kpm nw (Some m) usp qw kw vw sk sv avg kf mv af mf pf"
  assumes "F_mha_shape_check T query key val kpm (Some m) nh = Inr b"
    and "dim m = 2" and "shape m \<noteq> [hd (shape query), hd (shape key)]"
  shows "(\<exists>e. outcome R = Inl e)
       \<and> set (tensor_ops (trace R))
           \<subseteq> {''unsqueeze'', ''chunk'', ''_in_projection_packed'', ''_in_projection'', ''to''}
       \<and> (outcome R = Inl (RuntimeError ''The shape of the 2D attn_mask is wrong'')
            \<longrightarrow> Op ''_in_projection_packed'' \<in> set (trace R)
                \<or> Op ''_in_projection'' \<in> set (trace R))"
  unfolding R_def using assms(2-4) by (rule engine_mask_shape)

lemma engine_mask43:
  "multi_head_attention_forward T0 0 q31 q31 q31 2 2
      (in_proj_weight layer2) (in_proj_bias layer2) None None False (1 / 2)
      (out_proj_weight layer2) (out_proj_bias layer2) False None True (Some mask43)
      False None None None None None True
      (kernel_softmax T0) (- 1000000) (scaled_dot_product_attention T0) (attn_masking T0)
      (scaled_dot_product T0)
   = ([Op ''_in_projection_packed''],
      Inl (RuntimeError ''The shape of the 2D attn_mask is wrong''))"
  by (simp add: comp_defs tensor_defs T0_defs engine_defs example_defs)

theorem mask_shape_error_after_in_projection_witness:
  "F_mha_shape_check T0 q31 q31 q31 None (Some mask43) 2 = Inr True
   \<and> dim mask43 = 2 \<and> shape mask43 \<noteq> [hd (shape q31), hd (shape q31)]
   \<and> (\<exists>e. outcome (multi_head_attention_forward T0 0 q31 q31 q31 2 2
          (in_proj_weight layer2) (in_proj_bias layer2) None None False (1 / 2)
          (out_proj_weight layer2) (out_proj_bias layer2) False None True (Some mask43)
          False None None None None None True
          (kernel_softmax T0) (- 1000000) (scaled_dot_product_attention T0) (attn_masking T0)
          (scaled_dot_product T0)) = Inl e)
   \<and> set (tensor_ops (trace (multi_head_attention_forward T0 0 q31 q31 q31 2 2
          (in_proj_weight layer2) (in_proj_bias layer2) None None False (1 / 2)
          (out_proj_weight layer2) (out_proj_bias layer2) False None True (Some mask43)
          False None None None None None True
          (kernel_softmax T0) (- 1000000) (scaled_dot_product_attention T0) (attn_masking T0)
          (scaled_dot_product T0))))
       \<subseteq> {''unsqueeze'', ''chunk'', ''_in_projection_packed'', ''_in_projection'', ''to''}
   \<and> (Op ''_in_projection_packed'' \<in> set (trace (multi_head_attention_forward T0 0 q31 q31 q31 2 2
          (in_proj_weight layer2) (in_proj_bias layer2) None None False (1 / 2)
          (out_proj_weight layer2) (out_proj_bias layer2) False None True (Some mask43)
          False None None None None None True
          (kernel_softmax T0) (- 1000000) (scaled_dot_product_attention T0) (attn_masking T0)
          (scaled_dot_product T0)))
      \<or> Op ''_in_projection'' \<in> set (trace (multi_head_attention_forward T0 0 q31 q31 q31 2 2
          (in_proj_weight layer2) (in_proj_bias layer2) None None False (1 / 2)
          (out_proj_weight layer2) (out_proj_bias layer2) False None True (Some mask43)
          False None None None None None True
          (kernel_softmax T0) (- 1000000) (scaled_dot_product_attention T0) (attn_masking T0)
          (scaled_dot_product T0))))"
proof -
  have sc: "F_mha_shape_check T0 q31 q31 q31 None (Some mask43) 2 = Inr True"
    by (simp add: T0_def mha_shape_check_def q31_def mask43_def floats_def dim_def)
  have d: "dim mask43 = 2"
    by (simp add: mask43_def floats_def dim_def)
  have sh: "shape mask43 \<noteq> [hd (shape q31), hd (shape q31)]"
    by (simp add: mask43_def q31_def floats_def)
  show ?thesis
    using mask_shape_error_after_in_projection[where T = T0 and rng = 0 and query = q31
        and key = q31 and val = q31 and edc = 2 and nh = 2
        and ipw = "in_proj_weight layer2" and ipb = "in_proj_bias layer2"
        and bk = None and bv = None and az = False and dp = "1 / 2"
        and opw = "out_proj_weight layer2" and opb = "out_proj_bias layer2"
        and tr = False and kpm = None and nw = True and m = mask43 and usp = False
        and qw = None and kw = None and vw = None and sk = None and sv = None and avg = True
        and kf = "kernel_softmax T0" and mv = "- 1000000"
        and af = "scaled_dot_product_attention T0" and mf = "attn_masking T0"
        and pf = "scaled_dot_product T0", OF sc d sh]
      sc d sh engine_mask43
    by simp
qed

text \<open>
  The claim as stated ("before any tensor operation executes") fails: with
  \<^verbatim>\<open>embed_dim=2, num_heads=2, tgt_len=3, src_len=3, bsz=1\<close> and a mask of shape
  \<open>[4, 3]\<close>, the mask-shape error is raised after the packed in-projection has run.
\<close>

theorem mask_shape_error_before_any_tensor_op_counterexample:
  "outcome (forward T0 0 adapter2 q31 q31 q31 None True (Some mask43) True)
     = Inl (RuntimeError ''The shape of the 2D attn_mask is wrong'')
   \<and> trace (forward T0 0 adapter2 q31 q31 q31 None True (Some mask43) True)
     = [Op ''_in_projection_packed'']"
  by (simp add: comp_defs tensor_defs T0_defs engine_defs example_defs)

section \<open>Evaluation mode is deterministic\<close>

lemma attention_without_dropout:
  "scaled_dot_product_attention T rng q k v m 0 kf mv mf pf
     = scaled_dot_product_attention T rng' q k v m 0 kf mv mf pf"
  by (simp add: scaled_dot_product_attention_def)

lemma engine_evaluation_rate:
  "multi_head_attention_forward T rng query key val edc nh ipw ipb bk bv az dp opw opb
       False kpm nw am usp qw kw vw sk sv avg kf mv af mf pf
   = multi_head_attention_forward T rng query key val edc nh ipw ipb bk bv az dp' opw opb
       False kpm nw am usp qw kw vw sk sv avg kf mv af mf pf"
  by (simp add: multi_head_attention_forward_def)

lemma engine_evaluation_generator:
  "multi_head_attention_forward T rng query key val edc nh ipw ipb bk bv az dp opw opb
       False kpm nw am usp qw kw vw sk sv avg kf mv (scaled_dot_product_attention T) mf pf
   = multi_head_attention_forward T rng' query key val edc nh ipw ipb bk bv az dp opw opb
       False kpm nw am usp qw kw vw sk sv avg kf mv (scaled_dot_product_attention T) mf pf"
  by (simp add: multi_head_attention_forward_def
        attention_without_dropout[of T rng _ _ _ _ _ _ _ _ rng'])

text \<open>
  Claim C6, as amended. In evaluation mode (\<^verbatim>\<open>training = False\<close>) the engine passes the
  dropout probability 0 to the attention function whatever rate is configured (lines
  591-593), so the result of a forward call does not depend on the configured rate, for
  every attention function. With the default attention function, which applies dropout
  only for a positive probability (lines 182-183), the result does not depend on the
  state of the random number generator either: two calls with identical inputs and
  weights return identical results. The kernel, masking and product functions are
  functions of their arguments here, as the default ones are. The restriction to the
  default attention function is needed: the attention function is a parameter of the
  layer (line 213), and one that draws random numbers by itself does so in evaluation
  mode too, as the counterexample below shows.
\<close>

theorem forward_evaluation_deterministic:
  assumes "\<not> training self"
  shows "forward T rng (self\<lparr>dropout := p\<rparr>) query key val kpm nw am avg
           = forward T rng self query key val kpm nw am avg
       \<and> (attention_function self = scaled_dot_product_attention T
            \<longrightarrow> forward T rng self query key val kpm nw am avg
                = forward T rng' self query key val kpm nw am avg)"
proof -
  have A: "forward T rng (self\<lparr>dropout := p\<rparr>) query key val kpm nw am avg
           = forward T rng self query key val kpm nw am avg"
    using assms
    by (cases "qkv_same_embed_dim self")
       (simp_all add: forward_def engine_evaluation_rate[where dp = p and dp' = "dropout self"])
  have B: "forward T rng self query key val kpm nw am avg
             = forward T rng' self query key val kpm nw am avg"
    if "attention_function self = scaled_dot_product_attention T"
    using assms that
    by (cases "qkv_same_embed_dim self")
       (simp_all add: forward_def engine_evaluation_generator[where rng = rng and rng' = rng'])
  from A B show ?thesis by blast
qed


lemma forward_q31_returns:
  "\<exists>y. outcome (forward T0 0 adapter2 q31 q31 q31 None True None True) = Inr y"
  by (simp add: comp_defs tensor_defs T0_defs engine_defs example_defs)

theorem forward_evaluation_deterministic_witness:
  "\<not> training adapter2
   \<and> forward T0 0 (adapter2\<lparr>dropout := 9 / 10\<rparr>) q31 q31 q31 None True None True
       = forward T0 0 adapter2 q31 q31 q31 None True None True
   \<and> attention_function adapter2 = scaled_dot_product_attention T0
   \<and> forward T0 0 adapter2 q31 q31 q31 None True None True
       = forward T0 1 adapter2 q31 q31 q31 None True None True
   \<and> (\<exists>y. outcome (forward T0 0 adapter2 q31 q31 q31 None True None True) = Inr y)"
proof -
  have h: "\<not> training adapter2"
    by (simp add: adapter2_def layer2_def multihead_attention.defs)
  have af: "attention_function adapter2 = scaled_dot_product_attention T0"
    by (simp add: adapter2_def default_functions_def multihead_attention.defs)
  show ?thesis
    using forward_evaluation_deterministic[OF h, of T0 0 "9 / 10" q31 q31 q31 None True None True 1]
      h af forward_q31_returns
    by simp
qed

text \<open>
  The generator state is not a dummy of the model: in training mode, with the dropout rate
  \<open>1/2\<close> of the example layer, two generator states give different attention weights.
\<close>

lemma training_mode_reads_generator:
  "forward T0 0 (adapter2\<lparr>training := True\<rparr>) q11 q11 q11 None True None True
     \<noteq> forward T0 1 (adapter2\<lparr>training := True\<rparr>) q11 q11 q11 None True None True"
  by (simp add: comp_defs tensor_defs T0_defs engine_defs example_defs q11_def)

text \<open>
  The claim as stated (for every forward call in evaluation mode) fails for a layer whose
  attention function was replaced: with an attention function that applies dropout
  whatever probability it is given, two calls of a layer in evaluation mode with the same
  input and weights, at two states of the generator, return different outputs.
\<close>

theorem forward_evaluation_replaced_attention_counterexample:
  "\<not> training adapter_dropout
   \<and> outcome (forward T0 0 adapter_dropout q11 q11 q11 None True None True)
       = Inr (floats [1, 1, 2] [2, 0], Some (floats [1, 1, 1] [1]))
   \<and> outcome (forward T0 1 adapter_dropout q11 q11 q11 None True None True)
       = Inr (floats [1, 1, 2] [0, 2], Some (floats [1, 1, 1] [1]))"
  by (simp add: comp_defs tensor_defs T0_defs engine_defs example_defs q11_def
        adapter_dropout_def attention_with_dropout_def)

section \<open>The pretrained approximation\<close>

text \<open>
  Claim C8. \<^verbatim>\<open>get_pretrained_approximation\<close> returns its argument unchanged when it
  is a \<^verbatim>\<open>CustomizableMultiHead\<close>, and raises exactly when it is not; the exception is
  the \<^verbatim>\<open>ValueError\<close> of line 126.
\<close>

theorem get_pretrained_approximation_passthrough:
  "((\<exists>a. m = CustomizableMultiHead a) \<longrightarrow> get_pretrained_approximation m = Inr m)
   \<and> ((\<exists>e. get_pretrained_approximation m = Inl e) \<longleftrightarrow> \<not> (\<exists>a. m = CustomizableMultiHead a))
   \<and> (\<not> (\<exists>a. m = CustomizableMultiHead a)
        \<longrightarrow> get_pretrained_approximation m = Inl (ValueError ''is not a CustomizableMultiHead''))"
  by (cases m) (simp_all add: get_pretrained_approximation_def)

theorem get_pretrained_approximation_passthrough_witness:
  "get_pretrained_approximation (CustomizableMultiHead adapter2) = Inr (CustomizableMultiHead adapter2)
   \<and> get_pretrained_approximation (MultiheadAttention layer2 :: (real, nat) module)
       = Inl (ValueError ''is not a CustomizableMultiHead'')"
  using get_pretrained_approximation_passthrough[of "CustomizableMultiHead adapter2"]
    get_pretrained_approximation_passthrough[of "MultiheadAttention layer2 :: (real, nat) module"]
  by simp

section \<open>The default masking function updates its argument in place\<close>

lemma concat_chunks: "length xs \<le> k * n \<Longrightarrow> concat (chunks k n xs) = xs"
proof (induction k arbitrary: xs)
  case 0
  then show ?case by simp
next
  case (Suc k)
  have "length (drop n xs) \<le> k * n"
    using Suc.prems by simp
  then have "concat (chunks k n (drop n xs)) = drop n xs"
    by (rule Suc.IH)
  then show ?case by simp
qed

lemma length_chunks [simp]: "length (chunks k n xs) = k"
  by (induction k arbitrary: xs) auto

lemma chunks_lengths:
  "length xs = k * n \<Longrightarrow> c \<in> set (chunks k n xs) \<Longrightarrow> length c = n"
proof (induction k arbitrary: xs)
  case 0
  then show ?case by simp
next
  case (Suc k)
  have "length (drop n xs) = k * n"
    using Suc.prems(1) by simp
  then show ?case
    using Suc.IH[of "drop n xs"] Suc.prems by auto
qed

lemma expand_elems_same:
  "length xs = numel sh \<Longrightarrow> expand_elems sh sh xs = xs"
proof (induction sh arbitrary: xs)
  case Nil
  then show ?case by simp
next
  case (Cons s ss)
  have len: "length xs = s * numel ss"
    using Cons.prems by (simp add: numel_def)
  have "map (expand_elems ss ss) (chunks s (numel ss) xs) = chunks s (numel ss) xs"
    using chunks_lengths[OF len] Cons.IH by (simp add: map_idI)
  then show ?case
    using concat_chunks[of xs s "numel ss"] len by simp
qed

lemma expandable_same: "expandable sh sh"
  by (simp add: expandable_def list_all2_same)

lemma iadd_same_shape:
  assumes "shape m = shape a" and "dtype a = Float"
    and "length (elems m) = numel (shape m)"
  shows "iadd T a m =
           Inr (a\<lparr>elems := map2 (\<lambda>x y. EFloat (float_add T (elem_float (float_of_int T) x)
                                                          (elem_float (float_of_int T) y)))
                             (elems a) (elems m)\<rparr>)"
proof -
  have "category (dtype m) \<le> category (dtype a)"
    using assms(2) by (cases "dtype m") simp_all
  moreover have "expand m (shape a) = Inr m"
    using assms(1,3) by (simp add: expand_def expandable_same dim_def expand_elems_same)
  moreover have "add_elem T Float
      = (\<lambda>x y. EFloat (float_add T (elem_float (float_of_int T) x)
                                     (elem_float (float_of_int T) y)))"
    by (rule ext)+ (simp add: add_elem_def)
  ultimately show ?thesis
    using assms(2) by (simp add: iadd_def)
qed

text \<open>
  Claim C10. Without a mask \<^verbatim>\<open>_attn_masking\<close> returns the reference it was given and
  leaves the store as it is. With a mask it returns the same reference, the object at that
  reference then holds the in-place sum of scores and mask, and every other object is
  unchanged; for a mask of the shape of the scores the sum is element-wise. The result
  never depends on \<^verbatim>\<open>attn_mask_value\<close>. The last conjunct ties the store model to
  the function of values that the engine uses.
\<close>

theorem attn_masking_in_place:
  "attn_masking_store T st attn None v = Inr (st, attn)
   \<and> attn_masking_store T st attn am v = attn_masking_store T st attn am v'
   \<and> (attn_masking_store T st attn (Some m) v = Inr (st', r)
        \<longrightarrow> r = attn \<and> iadd T (st attn) (st m) = Inr (st' attn)
            \<and> (\<forall>x. x \<noteq> attn \<longrightarrow> st' x = st x))
   \<and> (shape (st m) = shape (st attn) \<and> dtype (st attn) = Float
        \<and> length (elems (st m)) = numel (shape (st m))
        \<longrightarrow> attn_masking_store T st attn (Some m) v
              = Inr (st(attn := (st attn)\<lparr>elems :=
                       map2 (\<lambda>x y. EFloat (float_add T (elem_float (float_of_int T) x)
                                                        (elem_float (float_of_int T) y)))
                         (elems (st attn)) (elems (st m))\<rparr>), attn))
   \<and> outcome (attn_masking T (st attn) (map_option st am) v)
       = map_sum id (\<lambda>(st', r). st' r) (attn_masking_store T st attn am v)"
proof -
  have A: "attn_masking_store T st attn None v = Inr (st, attn)"
    by (simp add: attn_masking_store_def)
  have B: "attn_masking_store T st attn am v = attn_masking_store T st attn am v'"
    by (simp add: attn_masking_store_def)
  have C: "attn_masking_store T st attn (Some m) v = Inr (st', r)
        \<longrightarrow> r = attn \<and> iadd T (st attn) (st m) = Inr (st' attn)
            \<and> (\<forall>x. x \<noteq> attn \<longrightarrow> st' x = st x)"
    by (auto simp: attn_masking_store_def split: sum.splits)
  have D: "shape (st m) = shape (st attn) \<and> dtype (st attn) = Float
        \<and> length (elems (st m)) = numel (shape (st m))
        \<longrightarrow> attn_masking_store T st attn (Some m) v
              = Inr (st(attn := (st attn)\<lparr>elems :=
                       map2 (\<lambda>x y. EFloat (float_add T (elem_float (float_of_int T) x)
                                                        (elem_float (float_of_int T) y)))
                         (elems (st attn)) (elems (st m))\<rparr>), attn)"
    by (simp add: attn_masking_store_def iadd_same_shape)
  have E: "outcome (attn_masking T (st attn) (map_option st am) v)
       = map_sum id (\<lambda>(st', r). st' r) (attn_masking_store T st attn am v)"
    by (cases am) (auto simp: attn_masking_def attn_masking_store_def split: sum.splits)
  from A B C D E show ?thesis by blast
qed

theorem attn_masking_in_place_witness:
  "attn_masking_store T0 store0 0 None 7 = Inr (store0, 0)
   \<and> attn_masking_store T0 store0 0 (Some 1) 7 = attn_masking_store T0 store0 0 (Some 1) 8
   \<and> attn_masking_store T0 store0 0 (Some 1) 7
       = Inr (store0(0 := floats [1, 2] [11, 22]), 0)
   \<and> outcome (attn_masking T0 (store0 0) (Some (store0 1)) 7) = Inr (floats [1, 2] [11, 22])"
proof -
  have h: "shape (store0 1) = shape (store0 0) \<and> dtype (store0 0) = Float
        \<and> length (elems (store0 1)) = numel (shape (store0 1))"
    by (simp add: store0_def floats_def numel_def)
  have v: "(store0 0)\<lparr>elems :=
             map2 (\<lambda>x y. EFloat (float_add T0 (elem_float (float_of_int T0) x)
                                              (elem_float (float_of_int T0) y)))
               (elems (store0 0)) (elems (store0 1))\<rparr> = floats [1, 2] [11, 22]"
    by (simp add: store0_def floats_def T0_def)
  note inst = attn_masking_in_place[of T0 store0 0 7 "Some 1" 8 1
                 "store0(0 := floats [1, 2] [11, 22])" 0]
  have A: "attn_masking_store T0 store0 0 None 7 = Inr (store0, 0)"
    using inst by blast
  have B: "attn_masking_store T0 store0 0 (Some 1) 7
             = attn_masking_store T0 store0 0 (Some 1) 8"
    using inst by blast
  have D: "attn_masking_store T0 store0 0 (Some 1) 7
             = Inr (store0(0 := floats [1, 2] [11, 22]), 0)"
    using inst h unfolding v by blast
  have E: "outcome (attn_masking T0 (store0 0) (Some (store0 1)) 7)
             = Inr (floats [1, 2] [11, 22])"
    using inst unfolding D by simp
  from A B D E show ?thesis by blast
qed

section \<open>The configuration the approximator stores\<close>

lemma store_default_map:
  "store_default p k v = [k \<mapsto> v] ++ p"
  by (rule ext) (simp add: store_default_def map_add_def split: option.splits)

lemma store_configuration_map:
  "store_configuration p l = layer_configuration l ++ p"
  unfolding store_configuration_def Let_def store_default_map layer_configuration_def
  by (simp only: map_add_assoc map_add_upd map_add_empty)

lemma dom_layer_configuration:
  "dom (layer_configuration l :: ('a, 'r) kwargs)
     = {''vdim'', ''kdim'', ''add_zero_attn'', ''add_bias_kv'', ''bias'', ''dropout'',
        ''batch_first'', ''num_heads'', ''embed_dim''}"
  by (simp add: layer_configuration_def insert_commute)

lemma map_add_absorb: "dom m1 \<subseteq> dom m2 \<Longrightarrow> m1 ++ m2 = m2"
  by (rule ext) (auto simp: map_add_def split: option.splits)

lemma store_configuration_twice:
  fixes p :: "('a, 'r) kwargs"
  shows "store_configuration (store_configuration p l1) l2 = store_configuration p l1"
proof -
  have "dom (layer_configuration l2 :: ('a, 'r) kwargs)
          \<subseteq> dom (layer_configuration l1 ++ p :: ('a, 'r) kwargs)"
    by (simp add: dom_layer_configuration)
  then show ?thesis
    unfolding store_configuration_map by (rule map_add_absorb)
qed

lemma parameters_get_trainable_approximation:
  "parameters (fst (get_trainable_approximation T mi self l))
     = store_configuration (parameters self) l"
  by (simp add: get_trainable_approximation_def Let_def split: sum.splits)

lemma result_get_trainable_approximation:
  "snd (get_trainable_approximation T mi self l)
     = (case customizable_multihead_init T mi (store_configuration (parameters self) l) of
          Inl e \<Rightarrow> Inl e
        | Inr new \<Rightarrow> load_parameters new (named_parameters l))"
  by (simp add: get_trainable_approximation_def Let_def split: sum.splits)

lemma layer_configuration_lookup:
  "kw_int (layer_configuration l) ''embed_dim'' = Inr (embed_dim l)"
  "kw_int (layer_configuration l) ''num_heads'' = Inr (num_heads l)"
  "kw_real (layer_configuration l) ''dropout'' d = Inr (dropout l)"
  "kw_bool (layer_configuration l) ''bias'' b = Inr (in_proj_bias l \<noteq> None)"
  "kw_bool (layer_configuration l) ''add_bias_kv'' b = Inr (bias_k l \<noteq> None)"
  "kw_bool (layer_configuration l) ''add_zero_attn'' b = Inr (add_zero_attn l)"
  "kw_int_opt (layer_configuration l) ''kdim'' = Inr (Some (kdim l))"
  "kw_int_opt (layer_configuration l) ''vdim'' = Inr (Some (vdim l))"
  "kw_bool (layer_configuration l) ''batch_first'' b = Inr (batch_first l)"
  "kw_kernel (layer_configuration l) ''kernel_function'' kf = Inr kf"
  "kw_number (layer_configuration l) ''attn_mask_value'' mv = Inr mv"
  "kw_attention (layer_configuration l) ''attention_function'' af = Inr af"
  "kw_masking (layer_configuration l) ''attn_masking_function'' mf = Inr mf"
  "kw_product (layer_configuration l) ''query_key_product'' pf = Inr pf"
  by (simp_all add: layer_configuration_def kw_int_def kw_real_def kw_bool_def kw_int_opt_def
        kw_kernel_def kw_number_def kw_attention_def kw_masking_def kw_product_def)

lemma layer_configuration_keywords:
  "dom (layer_configuration l :: ('a, 'r) kwargs) \<subseteq> set init_keywords"
  by (simp add: dom_layer_configuration init_keywords_def)

lemma init_from_layer_configuration:
  "customizable_multihead_init T mi (layer_configuration l)
     = ebind (multihead_attention_init T (embed_dim l) (num_heads l) (dropout l)
                (in_proj_bias l \<noteq> None) (bias_k l \<noteq> None) (add_zero_attn l)
                (Some (kdim l)) (Some (vdim l)) (batch_first l))
         (\<lambda>base. Inr (multihead_attention.extend base (default_functions T mi)))"
  by (simp add: customizable_multihead_init_def layer_configuration_keywords
        layer_configuration_lookup ebind_def default_functions_def)

lemma init_configuration:
  assumes "multihead_attention_init T e h d b ab az (Some kd) (Some vd) bf = Inr base"
  shows "embed_dim base = e \<and> num_heads base = h \<and> dropout base = d \<and> batch_first base = bf
       \<and> add_zero_attn base = az \<and> kdim base = kd \<and> vdim base = vd"
  using assms by (auto simp: multihead_attention_init_def Let_def split: if_splits)

lemma load_parameter_configuration:
  assumes "load_parameter a np = Inr a'"
  shows "embed_dim a' = embed_dim a \<and> num_heads a' = num_heads a \<and> dropout a' = dropout a
       \<and> batch_first a' = batch_first a \<and> add_zero_attn a' = add_zero_attn a
       \<and> kdim a' = kdim a \<and> vdim a' = vdim a"
  using assms
  by (cases np)
     (auto simp: load_parameter_def Let_def setattr_module_def setattr_out_proj_def
           split: if_splits)

lemma load_parameters_configuration:
  assumes "load_parameters a nps = Inr a'"
  shows "embed_dim a' = embed_dim a \<and> num_heads a' = num_heads a \<and> dropout a' = dropout a
       \<and> batch_first a' = batch_first a \<and> add_zero_attn a' = add_zero_attn a
       \<and> kdim a' = kdim a \<and> vdim a' = vdim a"
  using assms
proof (induction nps arbitrary: a)
  case Nil
  then show ?case by simp
next
  case (Cons np nps)
  then obtain b where b: "load_parameter a np = Inr b" "load_parameters b nps = Inr a'"
    by (auto split: sum.splits)
  show ?case
    using Cons.IH[OF b(2)] load_parameter_configuration[OF b(1)] by simp
qed

text \<open>
  Claim C9. \<^verbatim>\<open>get_trainable_approximation\<close> writes the layer's configuration into
  \<^verbatim>\<open>self.parameters\<close> under every key the dictionary does not hold yet: afterwards the
  dictionary is the layer's configuration overridden by the entries it had. A second call
  finds all nine keys present, leaves the dictionary as it is, and constructs its layer
  from that dictionary, whatever the second layer's configuration is; for an approximator
  that started with an empty dictionary the layer built by the second call has the
  configuration of the first layer.
\<close>

theorem stored_configuration_is_reused:
  fixes T mi self l1 l2
  defines "self1 \<equiv> fst (get_trainable_approximation T mi self l1)"
  shows "parameters self1 = layer_configuration l1 ++ parameters self
       \<and> parameters (fst (get_trainable_approximation T mi self1 l2)) = parameters self1
       \<and> snd (get_trainable_approximation T mi self1 l2)
           = (case customizable_multihead_init T mi (parameters self1) of
                Inl e \<Rightarrow> Inl e
              | Inr new \<Rightarrow> load_parameters new (named_parameters l2))
       \<and> (parameters self = Map.empty \<and> snd (get_trainable_approximation T mi self1 l2) = Inr a2
            \<longrightarrow> embed_dim a2 = embed_dim l1 \<and> num_heads a2 = num_heads l1
                \<and> dropout a2 = dropout l1 \<and> batch_first a2 = batch_first l1
                \<and> add_zero_attn a2 = add_zero_attn l1
                \<and> kdim a2 = kdim l1 \<and> vdim a2 = vdim l1)"
proof -
  have p1: "parameters self1 = layer_configuration l1 ++ parameters self"
    by (simp add: self1_def parameters_get_trainable_approximation store_configuration_map)
  have p2: "parameters (fst (get_trainable_approximation T mi self1 l2)) = parameters self1"
    by (simp add: self1_def parameters_get_trainable_approximation store_configuration_twice)
  have p3: "snd (get_trainable_approximation T mi self1 l2)
           = (case customizable_multihead_init T mi (parameters self1) of
                Inl e \<Rightarrow> Inl e
              | Inr new \<Rightarrow> load_parameters new (named_parameters l2))"
    using p2
    by (simp add: result_get_trainable_approximation parameters_get_trainable_approximation)
  have p4: "embed_dim a2 = embed_dim l1 \<and> num_heads a2 = num_heads l1
                \<and> dropout a2 = dropout l1 \<and> batch_first a2 = batch_first l1
                \<and> add_zero_attn a2 = add_zero_attn l1
                \<and> kdim a2 = kdim l1 \<and> vdim a2 = vdim l1"
    if e: "parameters self = Map.empty"
      and r: "snd (get_trainable_approximation T mi self1 l2) = Inr a2"
  proof -
    have "parameters self1 = layer_configuration l1"
      using p1 e by simp
    with r p3 obtain new where
      new: "customizable_multihead_init T mi (layer_configuration l1) = Inr new"
        "load_parameters new (named_parameters l2) = Inr a2"
      by (auto split: sum.splits)
    from new(1) obtain base where
      base: "multihead_attention_init T (embed_dim l1) (num_heads l1) (dropout l1)
                (in_proj_bias l1 \<noteq> None) (bias_k l1 \<noteq> None) (add_zero_attn l1)
                (Some (kdim l1)) (Some (vdim l1)) (batch_first l1) = Inr base"
        "new = multihead_attention.extend base (default_functions T mi)"
      by (auto simp: init_from_layer_configuration ebind_def split: sum.splits)
    show ?thesis
      using init_configuration[OF base(1)] load_parameters_configuration[OF new(2)]
      by (simp add: base(2) multihead_attention.defs)
  qed
  from p1 p2 p3 p4 show ?thesis by blast
qed



lemma load_parameter_known:
  "load_parameter a (''in_proj_weight'', w) = Inr (a\<lparr>in_proj_weight := Some w\<rparr>)"
  "load_parameter a (''q_proj_weight'', w) = Inr (a\<lparr>q_proj_weight := Some w\<rparr>)"
  "load_parameter a (''k_proj_weight'', w) = Inr (a\<lparr>k_proj_weight := Some w\<rparr>)"
  "load_parameter a (''v_proj_weight'', w) = Inr (a\<lparr>v_proj_weight := Some w\<rparr>)"
  "load_parameter a (''in_proj_bias'', w) = Inr (a\<lparr>in_proj_bias := Some w\<rparr>)"
  "load_parameter a (''bias_k'', w) = Inr (a\<lparr>bias_k := Some w\<rparr>)"
  "load_parameter a (''bias_v'', w) = Inr (a\<lparr>bias_v := Some w\<rparr>)"
  "load_parameter a (''out_proj.weight'', w) = Inr (a\<lparr>out_proj_weight := w\<rparr>)"
  "load_parameter a (''out_proj.bias'', w) = Inr (a\<lparr>out_proj_bias := Some w\<rparr>)"
  by (simp_all add: load_parameter_def setattr_module_def setattr_out_proj_def)

theorem stored_configuration_is_reused_witness:
  "parameters approximator0 = Map.empty
   \<and> parameters (fst (get_trainable_approximation T0 (- 1000000) approximator0 layer2))
       = layer_configuration layer2
   \<and> (\<exists>a2. snd (get_trainable_approximation T0 (- 1000000)
                  (fst (get_trainable_approximation T0 (- 1000000) approximator0 layer2)) layer4)
              = Inr a2
            \<and> embed_dim a2 = 2 \<and> num_heads a2 = 2 \<and> \<not> batch_first a2)
   \<and> embed_dim layer4 = 4 \<and> num_heads layer4 = 1 \<and> batch_first layer4"
proof -
  let ?self1 = "fst (get_trainable_approximation T0 (- 1000000) approximator0 layer2)"
  have e: "parameters approximator0 = Map.empty"
    by (simp add: approximator0_def)
  have p1: "parameters ?self1 = layer_configuration layer2"
    using stored_configuration_is_reused[of T0 "- 1000000" approximator0 layer2 layer4] e
    by simp
  have p2: "store_configuration (layer_configuration layer2) layer4
              = (layer_configuration layer2 :: (real, nat) kwargs)"
    using store_configuration_twice[of Map.empty layer2 layer4]
    by (simp add: store_configuration_map)
  obtain base where base:
    "multihead_attention_init T0 (embed_dim layer2) (num_heads layer2) (dropout layer2)
       (in_proj_bias layer2 \<noteq> None) (bias_k layer2 \<noteq> None) (add_zero_attn layer2)
       (Some (kdim layer2)) (Some (vdim layer2)) (batch_first layer2) = Inr base"
    by (simp add: multihead_attention_init_def layer2_def)
  have np: "named_parameters layer4
              = [(''in_proj_weight'', the (in_proj_weight layer4)),
                 (''out_proj.weight'', out_proj_weight layer4)]"
    by (simp add: named_parameters_def opt_param_def layer4_def)
  have "\<exists>a2. snd (get_trainable_approximation T0 (- 1000000) ?self1 layer4) = Inr a2"
    using base
    by (simp add: result_get_trainable_approximation p1 p2 init_from_layer_configuration
          ebind_def np load_parameter_known)
  then obtain a2 where
    a2: "snd (get_trainable_approximation T0 (- 1000000) ?self1 layer4) = Inr a2"
    by blast
  have "embed_dim a2 = 2 \<and> num_heads a2 = 2 \<and> \<not> batch_first a2"
    using stored_configuration_is_reused[of T0 "- 1000000" approximator0 layer2 layer4 a2] e a2
    by (simp add: layer2_def)
  with a2 e p1 show ?thesis
    by (auto simp: layer4_def)
qed

section \<open>The layer built from an existing layer\<close>

lemma trainable_approximation_of_layer:
  assumes "layer_invariant l"
  shows "(case customizable_multihead_init T mi (layer_configuration l) of
            Inl e \<Rightarrow> Inl e
          | Inr new \<Rightarrow> load_parameters new (named_parameters l))
         = Inr (multihead_attention.extend (l\<lparr>training := True\<rparr>) (default_functions T mi))"
  using assms
  by (cases l)
     (auto simp: init_from_layer_configuration multihead_attention_init_def
        layer_invariant_def named_parameters_def opt_param_def load_parameter_known ebind_def
        multihead_attention.defs)


lemma attention_nonpositive_dropout:
  "p \<le> 0 \<Longrightarrow> scaled_dot_product_attention T rng q k v m p kf mv mf pf
     = scaled_dot_product_attention T rng q k v m 0 kf mv mf pf"
  by (simp add: scaled_dot_product_attention_def)

lemma engine_training_without_dropout:
  assumes "dp \<le> 0"
  shows "multi_head_attention_forward T rng query key val edc nh ipw ipb bk bv az dp opw opb
       True kpm nw am usp qw kw vw sk sv avg kf mv (scaled_dot_product_attention T) mf pf
   = multi_head_attention_forward T rng query key val edc nh ipw ipb bk bv az dp opw opb
       tr kpm nw am usp qw kw vw sk sv avg kf mv (scaled_dot_product_attention T) mf pf"
  using assms
  by (cases tr)
     (simp_all add: multi_head_attention_forward_def attention_nonpositive_dropout[where p = dp])

lemma forward_training_without_dropout:
  assumes "dropout l \<le> 0"
  shows "forward T rng (multihead_attention.extend (l\<lparr>training := True\<rparr>) (default_functions T mi))
           query key val kpm nw am avg
         = forward T rng (multihead_attention.extend l (default_functions T mi))
             query key val kpm nw am avg"
  using assms
  by (cases "qkv_same_embed_dim l")
     (simp_all add: forward_def multihead_attention.defs default_functions_def
        engine_training_without_dropout[where tr = "training l"])

text \<open>
  Claim C2, as amended. For an approximator whose dictionary is empty and a layer as the
  library's constructor builds it, \<^verbatim>\<open>get_trainable_approximation\<close> returns the layer
  \<open>a\<close>: it has the configuration of the original and holds the original's own parameter
  tensors under the same names (the packed or the separate projection weights, the
  in-projection bias, \<^verbatim>\<open>bias_k\<close>, \<^verbatim>\<open>bias_v\<close>, the weight and bias of the output
  projection), it has the default functions, and it is in training mode whatever the mode
  of the original is, as every new module is (lines 97-109 never copy the mode). So its
  forward applies dropout with the rate of the original even when the original is in
  evaluation mode. Its forward is what it would be in the mode of the original when the
  original is in training mode or its dropout rate is not positive. How the forward of
  the original, which is the library's, compares with the engine is not part of this
  statement.
\<close>

theorem trainable_approximation_copies_layer:
  fixes l :: "'a multihead_attention" and T :: "('a, 'r) torch" and mi :: 'a
  defines "a \<equiv> multihead_attention.extend (l\<lparr>training := True\<rparr>) (default_functions T mi)"
  assumes "parameters self = Map.empty" and "layer_invariant l"
  shows "get_trainable_approximation T mi self l
           = (\<lparr>parameters = layer_configuration l, approximations = approximations self @ [a]\<rparr>,
              Inr a)
       \<and> training a
       \<and> (training l \<or> dropout l \<le> 0
            \<longrightarrow> forward T rng a query key val kpm nw am avg
                = forward T rng (a\<lparr>training := training l\<rparr>) query key val kpm nw am avg)"
proof -
  have cfg: "store_configuration (parameters self) l = layer_configuration l"
    using assms(2) by (simp add: store_configuration_map)
  have "get_trainable_approximation T mi self l
           = (\<lparr>parameters = layer_configuration l, approximations = approximations self @ [a]\<rparr>,
              Inr a)"
    using trainable_approximation_of_layer[OF assms(3), of T mi]
    by (auto simp: get_trainable_approximation_def Let_def cfg a_def split: sum.splits)
  moreover have "training a"
    by (simp add: a_def multihead_attention.defs)
  moreover have "forward T rng a query key val kpm nw am avg
                = forward T rng (a\<lparr>training := training l\<rparr>) query key val kpm nw am avg"
    if "training l \<or> dropout l \<le> 0"
  proof (cases "training l")
    case True
    then have "a\<lparr>training := training l\<rparr> = a"
      by (simp add: a_def multihead_attention.defs)
    then show ?thesis by simp
  next
    case False
    with that have "dropout l \<le> 0" by simp
    moreover have "a\<lparr>training := training l\<rparr>
                     = multihead_attention.extend l (default_functions T mi)"
      by (simp add: a_def multihead_attention.defs)
    ultimately show ?thesis
      unfolding a_def by (simp add: forward_training_without_dropout)
  qed
  ultimately show ?thesis by blast
qed

lemma layer_invariant_layer2: "layer_invariant layer2"
  by (simp add: layer_invariant_def layer2_def)

theorem trainable_approximation_copies_layer_witness:
  "parameters approximator0 = Map.empty \<and> layer_invariant (layer2\<lparr>dropout := 0\<rparr>)
   \<and> get_trainable_approximation T0 (- 1000000) approximator0 (layer2\<lparr>dropout := 0\<rparr>)
       = (\<lparr>parameters = layer_configuration (layer2\<lparr>dropout := 0\<rparr>),
           approximations = [adapter2\<lparr>dropout := 0, training := True\<rparr>]\<rparr>,
          Inr (adapter2\<lparr>dropout := 0, training := True\<rparr>))
   \<and> training (adapter2\<lparr>dropout := 0, training := True\<rparr>)
   \<and> \<not> training (layer2\<lparr>dropout := 0\<rparr>)
   \<and> dropout (layer2\<lparr>dropout := 0\<rparr>) \<le> 0
   \<and> forward T0 1 (adapter2\<lparr>dropout := 0, training := True\<rparr>) q11 q11 q11 None True None True
       = forward T0 1 (adapter2\<lparr>dropout := 0, training := False\<rparr>) q11 q11 q11 None True None True
   \<and> outcome (forward T0 1 (adapter2\<lparr>dropout := 0, training := True\<rparr>)
                 q11 q11 q11 None True None True)
       = Inr (floats [1, 1, 2] [1, 1], Some (floats [1, 1, 1] [1]))"
proof -
  have e: "parameters approximator0 = Map.empty" "approximations approximator0 = []"
    by (simp_all add: approximator0_def)
  have i: "layer_invariant (layer2\<lparr>dropout := 0\<rparr>)"
    by (simp add: layer_invariant_def layer2_def)
  have a: "multihead_attention.extend (layer2\<lparr>dropout := 0, training := True\<rparr>)
             (default_functions T0 (- 1000000))
           = adapter2\<lparr>dropout := 0, training := True\<rparr>"
    by (simp add: adapter2_def multihead_attention.defs layer2_def)
  have t: "\<not> training (layer2\<lparr>dropout := 0\<rparr>)" "dropout (layer2\<lparr>dropout := 0\<rparr>) \<le> 0"
    by (simp_all add: layer2_def)
  have v: "outcome (forward T0 1 (adapter2\<lparr>dropout := 0, training := True\<rparr>)
                 q11 q11 q11 None True None True)
       = Inr (floats [1, 1, 2] [1, 1], Some (floats [1, 1, 1] [1]))"
    by (simp add: comp_defs tensor_defs T0_defs engine_defs example_defs q11_def)
  show ?thesis
    using trainable_approximation_copies_layer[OF e(1) i,
            of T0 "- 1000000" 1 q11 q11 q11 None True None True]
      e i t v
    by (simp add: a)
qed

lemma adapter2_training:
  "multihead_attention.extend (layer2\<lparr>training := True\<rparr>) (default_functions T0 (- 1000000))
     = adapter2\<lparr>training := True\<rparr>"
  by (simp add: adapter2_def multihead_attention.defs layer2_def)

lemma trainable_approximation_layer2:
  "snd (get_trainable_approximation T0 (- 1000000) approximator0 layer2)
     = Inr (adapter2\<lparr>training := True\<rparr>)"
proof -
  have "store_configuration (parameters approximator0) layer2 = layer_configuration layer2"
    by (simp add: store_configuration_map approximator0_def)
  then show ?thesis
    using trainable_approximation_of_layer[OF layer_invariant_layer2, of T0 "- 1000000"]
    by (auto simp: get_trainable_approximation_def Let_def adapter2_training split: sum.splits)
qed

text \<open>
  The claim as stated (the forward of the new layer equals the forward of the original,
  for every layer) fails for a layer in evaluation mode with a positive dropout rate, with
  nothing overridden in the dictionary. From \<open>layer2\<close> (evaluation mode, rate \<open>1/2\<close>) an
  approximator with an empty dictionary builds a layer with the same weights in training
  mode. On the input
  \<open>q11\<close> it returns the output \<open>[2, 0]\<close> or \<open>[0, 2]\<close>, depending on the state of the
  generator, where the same weights in the mode of the original give \<open>[1, 1]\<close> at every
  state: an original in evaluation mode applies no dropout.
\<close>

theorem trainable_approximation_round_trip_counterexample:
  "parameters approximator0 = Map.empty \<and> layer_invariant layer2
   \<and> \<not> training layer2 \<and> dropout layer2 = 1 / 2
   \<and> snd (get_trainable_approximation T0 (- 1000000) approximator0 layer2)
       = Inr (adapter2\<lparr>training := True\<rparr>)
   \<and> outcome (forward T0 0 (adapter2\<lparr>training := True\<rparr>) q11 q11 q11 None True None True)
       = Inr (floats [1, 1, 2] [2, 0], Some (floats [1, 1, 1] [1]))
   \<and> outcome (forward T0 1 (adapter2\<lparr>training := True\<rparr>) q11 q11 q11 None True None True)
       = Inr (floats [1, 1, 2] [0, 2], Some (floats [1, 1, 1] [1]))
   \<and> outcome (forward T0 0 (adapter2\<lparr>training := training layer2\<rparr>)
                 q11 q11 q11 None True None True)
       = Inr (floats [1, 1, 2] [1, 1], Some (floats [1, 1, 1] [1]))
   \<and> outcome (forward T0 1 (adapter2\<lparr>training := training layer2\<rparr>)
                 q11 q11 q11 None True None True)
       = Inr (floats [1, 1, 2] [1, 1], Some (floats [1, 1, 1] [1]))"
proof -
  have "parameters approximator0 = Map.empty"
    by (simp add: approximator0_def)
  moreover have "\<not> training layer2" "dropout layer2 = 1 / 2"
    by (simp_all add: layer2_def)
  moreover have
    "outcome (forward T0 0 (adapter2\<lparr>training := True\<rparr>) q11 q11 q11 None True None True)
       = Inr (floats [1, 1, 2] [2, 0], Some (floats [1, 1, 1] [1]))"
    "outcome (forward T0 1 (adapter2\<lparr>training := True\<rparr>) q11 q11 q11 None True None True)
       = Inr (floats [1, 1, 2] [0, 2], Some (floats [1, 1, 1] [1]))"
    "outcome (forward T0 0 (adapter2\<lparr>training := training layer2\<rparr>)
                 q11 q11 q11 None True None True)
       = Inr (floats [1, 1, 2] [1, 1], Some (floats [1, 1, 1] [1]))"
    "outcome (forward T0 1 (adapter2\<lparr>training := training layer2\<rparr>)
                 q11 q11 q11 None True None True)
       = Inr (floats [1, 1, 2] [1, 1], Some (floats [1, 1, 1] [1]))"
    by (simp_all add: comp_defs tensor_defs T0_defs engine_defs example_defs q11_def)
  ultimately show ?thesis
    using layer_invariant_layer2 trainable_approximation_layer2 by blast
qed

section \<open>Rows of a row-major tensor\<close>

lemma nth_concat_uniform:
  assumes "\<And>r. r \<in> set rows \<Longrightarrow> length r = len" and "b < length rows" and "j < len"
  shows "concat rows ! (b * len + j) = rows ! b ! j"
  using assms
proof (induction rows arbitrary: b)
  case Nil
  then show ?case by simp
next
  case (Cons r rows)
  have r: "length r = len"
    using Cons.prems(1) by simp
  show ?case
  proof (cases b)
    case 0
    then show ?thesis
      using r Cons.prems(3) by (simp add: nth_append)
  next
    case (Suc b')
    have "concat rows ! (b' * len + j) = rows ! b' ! j"
      using Cons.prems Suc by (intro Cons.IH) auto
    then show ?thesis
      using r Suc by (simp add: nth_append add.assoc)
  qed
qed

lemma length_concat_uniform:
  assumes "\<And>r. r \<in> set rows \<Longrightarrow> length r = len"
  shows "length (concat rows) = length rows * len"
  using assms by (induction rows) auto

lemma nth_chunks:
  "b < k \<Longrightarrow> chunks k n xs ! b = take n (drop (b * n) xs)"
proof (induction k arbitrary: xs b)
  case 0
  then show ?case by simp
next
  case (Suc k)
  show ?case
  proof (cases b)
    case 0
    then show ?thesis by simp
  next
    case (Suc b')
    then have "b' < k" using Suc.prems by simp
    then have "chunks k n (drop n xs) ! b' = take n (drop (b' * n) (drop n xs))"
      by (rule Suc.IH)
    then show ?thesis
      using Suc by (simp add: add.commute)
  qed
qed

lemma expand_elems_second:
  assumes "length xs = a * numel rest"
  shows "expand_elems (a # 1 # rest) (a # t # rest) xs
           = concat (map (\<lambda>row. concat (replicate t row)) (chunks a (numel rest) xs))"
proof -
  have row: "expand_elems (1 # rest) (t # rest) row = concat (replicate t row)"
    if "row \<in> set (chunks a (numel rest) xs)" for row
  proof -
    have len: "length row = numel rest"
      using chunks_lengths[OF assms that] .
    have same: "expand_elems rest rest row = row"
      using len by (rule expand_elems_same)
    show ?thesis
    proof (cases "t = 1")
      case True
      then show ?thesis
        using len same chunks.simps(2)[of 0 "numel rest" row] by simp
    next
      case False
      then show ?thesis
        using same by simp
    qed
  qed
  have "numel (1 # rest) = numel rest"
    by (simp add: numel_def)
  then show ?thesis
    using row by (simp cong: map_cong)
qed

lemma nth_expand_second:
  assumes "length xs = a * n" and "b < a" and "h < t" and "j < n"
  shows "concat (map (\<lambda>row. concat (replicate t row)) (chunks a n xs)) ! ((b * t + h) * n + j)
           = xs ! (b * n + j)"
proof -
  let ?rows = "map (\<lambda>row. concat (replicate t row)) (chunks a n xs)"
  have len_row: "length r = n" if "r \<in> set (chunks a n xs)" for r
    using chunks_lengths[OF assms(1) that] .
  have uniform: "length r = t * n" if "r \<in> set ?rows" for r
  proof -
    from that obtain row where "row \<in> set (chunks a n xs)" "r = concat (replicate t row)"
      by auto
    then show ?thesis
      using len_row[of row] length_concat_uniform[of "replicate t row" n] by simp
  qed
  have idx: "(b * t + h) * n + j = b * (t * n) + (h * n + j)"
    by (simp add: algebra_simps)
  have "h * n + j < t * n"
  proof -
    have "h * n + j < h * n + n" using assms(4) by simp
    also have "\<dots> = Suc h * n" by simp
    also have "\<dots> \<le> t * n" using assms(3) by (intro mult_le_mono1) simp
    finally show ?thesis .
  qed
  then have "concat ?rows ! (b * (t * n) + (h * n + j)) = ?rows ! b ! (h * n + j)"
    using uniform assms(2) by (intro nth_concat_uniform) auto
  also have "?rows ! b = concat (replicate t (chunks a n xs ! b))"
    using assms(2) by simp
  also have "concat (replicate t (chunks a n xs ! b)) ! (h * n + j) = chunks a n xs ! b ! j"
  proof -
    have "chunks a n xs ! b \<in> set (chunks a n xs)"
      using assms(2) by simp
    then have "length (chunks a n xs ! b) = n"
      by (rule len_row)
    then have "concat (replicate t (chunks a n xs ! b)) ! (h * n + j)
                 = replicate t (chunks a n xs ! b) ! h ! j"
      using assms(3,4) by (intro nth_concat_uniform) auto
    then show ?thesis using assms(3) by simp
  qed
  also have "chunks a n xs ! b ! j = xs ! (b * n + j)"
    using assms by (simp add: nth_chunks)
  finally show ?thesis
    by (simp add: idx)
qed


section \<open>Merging the key padding mask\<close>

lemma bind_op_Inr: "bind (op name (Inr x)) f = (Op name # trace (f x), outcome (f x))"
  by (simp add: bind_def op_def trace_def outcome_def split: prod.splits)

lemma bind_op_Inl: "bind (op name (Inl e)) f = ([Op name], Inl e)"
  by (simp add: bind_def op_def)

lemma view_ok:
  "\<not> list_ex (\<lambda>s. s < 0) sizes \<Longrightarrow> numel (map nat sizes) = numel (shape t)
     \<Longrightarrow> view t sizes = Inr (t\<lparr>shape := map nat sizes\<rparr>)"
  by (simp add: view_def)

lemma expand_key_padding_mask_value:
  assumes "shape m = [bsz, src_len]" and "0 \<le> nh" and "length (elems m) = bsz * src_len"
  shows "expand_key_padding_mask m bsz src_len nh
           = ([Op ''view'', Op ''expand'', Op ''reshape''],
              Inr (m\<lparr>shape := [bsz * nat nh, 1, src_len],
                     elems := concat (map (\<lambda>row. concat (replicate (nat nh) row))
                                (chunks bsz src_len (elems m)))\<rparr>))"
proof -
  let ?m1 = "m\<lparr>shape := [bsz, 1, 1, src_len]\<rparr>"
  have v1: "view m [int bsz, 1, 1, int src_len] = Inr ?m1"
    using assms(1) by (simp add: view_def numel_def)
  have sizes: "map2 (\<lambda>s d. if s = - 1 then d else nat s) [- 1, nh, - 1, - 1] (shape ?m1)
                 = [bsz, nat nh, 1, src_len]"
    using assms(2) by simp
  have el: "expand_elems [bsz, 1, 1, src_len] [bsz, nat nh, 1, src_len] (elems m)
              = concat (map (\<lambda>row. concat (replicate (nat nh) row))
                  (chunks bsz src_len (elems m)))"
    using expand_elems_second[of "elems m" bsz "[1, src_len]" "nat nh"] assms(3)
    by (simp add: numel_def)
  let ?m2 = "m\<lparr>shape := [bsz, nat nh, 1, src_len],
               elems := concat (map (\<lambda>row. concat (replicate (nat nh) row))
                          (chunks bsz src_len (elems m)))\<rparr>"
  have e2: "expand_sizes ?m1 [- 1, nh, - 1, - 1] = Inr ?m2"
    using assms(2) el
    by (simp add: expand_sizes_def dim_def expand_def expandable_def)
  have n: "nat (int bsz * nh) = bsz * nat nh"
    using assms(2) by (simp add: nat_mult_distrib)
  have v3: "view ?m2 [int bsz * nh, 1, int src_len]
              = Inr (?m2\<lparr>shape := [bsz * nat nh, 1, src_len]\<rparr>)"
  proof -
    have "0 \<le> int bsz * nh"
      using assms(2) by simp
    then show ?thesis
      using n by (simp add: view_def numel_def)
  qed
  show ?thesis
    unfolding expand_key_padding_mask_def v1 e2 v3 bind_op_Inr
    by simp
qed


lemma broadcast_shapes_second: "broadcast_shapes [n, t, s] [n, 1, s] = Some [n, t, s]"
  by (simp add: broadcast_shapes_def)

lemma expand_same:
  "length (elems a) = numel (shape a) \<Longrightarrow> expand a (shape a) = Inr a"
  by (simp add: expand_def expandable_same dim_def expand_elems_same)

lemma expand_second:
  assumes "shape k = [n, 1, s]" and "length (elems k) = n * s"
  shows "expand k [n, t, s]
           = Inr (k\<lparr>shape := [n, t, s],
                    elems := concat (map (\<lambda>row. concat (replicate t row))
                               (chunks n s (elems k)))\<rparr>)"
  using assms expand_elems_second[of "elems k" n "[s]" t]
  by (simp add: expand_def expandable_def dim_def numel_def)

lemma length_expand_second:
  assumes "length xs = n * s"
  shows "length (concat (map (\<lambda>row. concat (replicate t row)) (chunks n s xs))) = n * (t * s)"
proof -
  have "length r = t * s"
    if "r \<in> set (map (\<lambda>row. concat (replicate t row)) (chunks n s xs))" for r
  proof -
    from that obtain row where "row \<in> set (chunks n s xs)" "r = concat (replicate t row)"
      by auto
    then show ?thesis
      using chunks_lengths[OF assms, of row] length_concat_uniform[of "replicate t row" s]
      by simp
  qed
  then show ?thesis
    using length_concat_uniform[of "map (\<lambda>row. concat (replicate t row)) (chunks n s xs)" "t * s"]
    by simp
qed

lemma index_bound:
  assumes "r < (n::nat)" and "i < t" and "j < s"
  shows "(r * t + i) * s + j < n * (t * s)"
proof -
  have "(r * t + i) * s + j < (r * t + i) * s + s"
    using assms(3) by simp
  also have "\<dots> = Suc (r * t + i) * s"
    by simp
  also have "\<dots> \<le> (r * t + t) * s"
    using assms(2) by (intro mult_le_mono1) simp
  also have "\<dots> = Suc r * (t * s)"
    by (simp add: algebra_simps)
  also have "\<dots> \<le> n * (t * s)"
    using assms(1) by (intro mult_le_mono1) simp
  finally show ?thesis .
qed

lemma masked_fill_second:
  assumes "shape am = [n, t, s]" and "dtype am = Float" and "length (elems am) = n * (t * s)"
    and "shape k = [n, 1, s]" and "dtype k = Bool" and "length (elems k) = n * s"
  shows "\<exists>R. masked_fill am k v = Inr R \<and> shape R = [n, t, s] \<and> dtype R = Float
           \<and> (\<forall>r<n. \<forall>i<t. \<forall>j<s. elems R ! ((r * t + i) * s + j)
                 = (if elems k ! (r * s + j) = EBool True then EFloat v
                    else elems am ! ((r * t + i) * s + j)))"
proof -
  let ?ke = "concat (map (\<lambda>row. concat (replicate t row)) (chunks n s (elems k)))"
  have ea: "expand am [n, t, s] = Inr am"
    using expand_same[of am] assms(1,3) by (simp add: numel_def)
  have ek: "expand k [n, t, s] = Inr (k\<lparr>shape := [n, t, s], elems := ?ke\<rparr>)"
    using assms(4,6) by (rule expand_second)
  have R: "masked_fill am k v
             = Inr \<lparr>shape = [n, t, s], dtype = Float, elems = fill_where v (elems am) ?ke\<rparr>"
    unfolding masked_fill_def assms(1,4) broadcast_shapes_second
    using assms(2,5) by (simp add: ea ek)
  have "fill_where v (elems am) ?ke ! ((r * t + i) * s + j)
          = (if elems k ! (r * s + j) = EBool True then EFloat v
             else elems am ! ((r * t + i) * s + j))"
    if "r < n" "i < t" "j < s" for r i j
  proof -
    have b: "(r * t + i) * s + j < n * (t * s)"
      using that by (rule index_bound)
    have "?ke ! ((r * t + i) * s + j) = elems k ! (r * s + j)"
      using assms(6) that by (rule nth_expand_second)
    then show ?thesis
      using b assms(3) length_expand_second[OF assms(6), of t]
      by (simp add: fill_where_def)
  qed
  then show ?thesis
    using R by simp
qed

lemma logical_or_second:
  assumes "shape am = [n, t, s]" and "length (elems am) = n * (t * s)"
    and "shape k = [n, 1, s]" and "length (elems k) = n * s"
  shows "\<exists>R. logical_or T am k = Inr R \<and> shape R = [n, t, s] \<and> dtype R = Bool
           \<and> (\<forall>r<n. \<forall>i<t. \<forall>j<s. elems R ! ((r * t + i) * s + j)
                 = EBool (elem_truth (float_nonzero T) (elems am ! ((r * t + i) * s + j))
                          \<or> elem_truth (float_nonzero T) (elems k ! (r * s + j))))"
proof -
  let ?ke = "concat (map (\<lambda>row. concat (replicate t row)) (chunks n s (elems k)))"
  let ?or = "\<lambda>x y. EBool (elem_truth (float_nonzero T) x \<or> elem_truth (float_nonzero T) y)"
  have ea: "expand am [n, t, s] = Inr am"
    using expand_same[of am] assms(1,2) by (simp add: numel_def)
  have ek: "expand k [n, t, s] = Inr (k\<lparr>shape := [n, t, s], elems := ?ke\<rparr>)"
    using assms(3,4) by (rule expand_second)
  have R: "logical_or T am k
             = Inr \<lparr>shape = [n, t, s], dtype = Bool, elems = map2 ?or (elems am) ?ke\<rparr>"
    unfolding logical_or_def assms(1,3) broadcast_shapes_second
    by (simp add: ea ek)
  have "map2 ?or (elems am) ?ke ! ((r * t + i) * s + j)
          = EBool (elem_truth (float_nonzero T) (elems am ! ((r * t + i) * s + j))
                   \<or> elem_truth (float_nonzero T) (elems k ! (r * s + j)))"
    if "r < n" "i < t" "j < s" for r i j
  proof -
    have b: "(r * t + i) * s + j < n * (t * s)"
      using that by (rule index_bound)
    have "?ke ! ((r * t + i) * s + j) = elems k ! (r * s + j)"
      using assms(4) that by (rule nth_expand_second)
    then show ?thesis
      using b assms(2) length_expand_second[OF assms(4), of t]
      by simp
  qed
  then have "\<forall>r<n. \<forall>i<t. \<forall>j<s. map2 ?or (elems am) ?ke ! ((r * t + i) * s + j)
          = EBool (elem_truth (float_nonzero T) (elems am ! ((r * t + i) * s + j))
                   \<or> elem_truth (float_nonzero T) (elems k ! (r * s + j)))"
    by blast
  then show ?thesis
    unfolding R by (intro exI conjI) (rule refl, simp_all)
qed

section \<open>The stages of a successful engine call\<close>

lemma outcome_bind_Inr:
  "outcome (bind m f) = Inr y \<longleftrightarrow> (\<exists>x. outcome m = Inr x \<and> outcome (f x) = Inr y)"
  by (auto simp: outcome_bind split: sum.splits)

lemma outcome_lift [simp]: "outcome (lift r) = r"
  by (cases r) (simp_all add: lift_def raise_def ret_def outcome_def)

lemma engine_success:
  assumes "outcome (multi_head_attention_forward T rng query key val edc nh ipw ipb bk bv az
             dp opw opb tr kpm nw am usp qw kw vw sk sv avg kf mv af mf pf) = Inr r"
  shows "\<exists>is_batched query' key' val' kpm0 tgt_len bsz E src0 hd q0 k0 v0 am1 kpm1
            k2 v2 am2 kpm2 q k3 v3 k v am' kpm' src_len M m ao aw out.
           F_mha_shape_check T query key val kpm am nh = Inr is_batched
         \<and> outcome (unsqueeze_unbatched is_batched query key val kpm)
             = Inr (query', key', val', kpm0)
         \<and> outcome (shape_vars query' key' val' edc nh usp) = Inr (tgt_len, bsz, E, src0, hd)
         \<and> outcome (compute_in_projection T query' key' val' usp ipw ipb qw kw vw)
             = Inr (q0, k0, v0)
         \<and> outcome (prep_attn_mask T am tgt_len src0 bsz nh) = Inr am1
         \<and> outcome (prep_key_padding_mask T kpm0) = Inr kpm1
         \<and> outcome (add_bias_kv T k0 v0 bk bv sk sv bsz am1 kpm1) = Inr (k2, v2, am2, kpm2)
         \<and> outcome (reshape_qkv q0 k2 v2 sk sv tgt_len bsz nh hd) = Inr (q, k3, v3)
         \<and> outcome (add_zero_attention T az k3 v3 am2 kpm2 bsz nh hd) = Inr (k, v, am', kpm')
         \<and> outcome (size_at k 1) = Inr src_len
         \<and> outcome (merge_masks T kpm' am' bsz src_len nh mv) = Inr M
         \<and> outcome (mask_to_float T M q mv) = Inr m
         \<and> outcome (af rng q k v m (if \<not> tr then 0 else dp) kf mv mf pf) = Inr (ao, aw)
         \<and> outcome (out_projection T ao tgt_len bsz E opw opb) = Inr out
         \<and> outcome (reduce_weights T nw avg is_batched out aw bsz nh tgt_len src_len) = Inr r"
  using assms
  by (simp add: multi_head_attention_forward_def outcome_bind_Inr case_prod_beta)


section \<open>The attention weights that are returned\<close>

lemma view_Inr:
  "view t sizes = Inr v
     \<Longrightarrow> \<not> list_ex (\<lambda>s. s < 0) sizes \<and> numel (map nat sizes) = numel (shape t)
         \<and> v = t\<lparr>shape := map nat sizes\<rparr>"
  by (auto simp: view_def split: if_splits)

lemma sum_dim1_heads:
  fixes t :: "'a tensor"
  assumes "shape t = [bsz, h, tgt_len, src_len]"
  shows "\<exists>S. sum_dim1 T t = Inr S \<and> shape S = [bsz, tgt_len, src_len]
           \<and> length (elems S) = bsz * (tgt_len * src_len)
           \<and> (\<forall>b<bsz. \<forall>i<tgt_len. \<forall>j<src_len.
                 elems S ! ((b * tgt_len + i) * src_len + j)
                   = sum_elems T (dtype t)
                       (map (\<lambda>k. elems t ! (((b * h + k) * tgt_len + i) * src_len + j)) [0..<h]))"
proof -
  let ?n = "tgt_len * src_len"
  let ?g = "\<lambda>b j. sum_elems T (dtype t) (map (\<lambda>k. elems t ! ((b * h + k) * ?n + j)) [0..<h])"
  let ?rows = "map (\<lambda>b. map (?g b) [0..<?n]) [0..<bsz]"
  let ?S = "\<lparr>shape = [bsz, tgt_len, src_len],
             dtype = (if dtype t = Float then Float else Int64),
             elems = concat ?rows\<rparr> :: 'a tensor"
  have s: "sum_dim1 T t = Inr ?S"
    by (simp add: sum_dim1_def assms numel_def Let_def)
  have len: "\<And>r. r \<in> set ?rows \<Longrightarrow> length r = ?n"
    by auto
  have l: "length (elems ?S) = bsz * ?n"
    using length_concat_uniform[of ?rows ?n] len by simp
  have e: "elems ?S ! ((b * tgt_len + i) * src_len + j)
             = sum_elems T (dtype t)
                 (map (\<lambda>k. elems t ! (((b * h + k) * tgt_len + i) * src_len + j)) [0..<h])"
    if "b < bsz" "i < tgt_len" "j < src_len" for b i j
  proof -
    have j: "i * src_len + j < ?n"
      using index_bound[of 0 1 i tgt_len j src_len] that by simp
    have ix: "(b * tgt_len + i) * src_len + j = b * ?n + (i * src_len + j)"
      by (simp add: algebra_simps)
    have "concat ?rows ! (b * ?n + (i * src_len + j)) = ?rows ! b ! (i * src_len + j)"
      using len that(1) j by (intro nth_concat_uniform) simp_all
    also have "\<dots> = ?g b (i * src_len + j)"
      using that(1) j by simp
    also have "\<dots> = sum_elems T (dtype t)
                 (map (\<lambda>k. elems t ! (((b * h + k) * tgt_len + i) * src_len + j)) [0..<h])"
      by (simp add: algebra_simps)
    finally show ?thesis
      by (simp add: ix)
  qed
  show ?thesis
    using s l e by (intro exI[of _ ?S]) simp
qed

lemma reduce_weights_unaveraged:
  assumes "outcome (reduce_weights T True False True ao aw bsz nh tgt_len src_len) = Inr (out, w)"
  shows "out = ao \<and> w = Some (aw\<lparr>shape := [bsz, nat nh, tgt_len, src_len]\<rparr>)"
  using assms
  by (auto simp: reduce_weights_def outcome_bind_Inr dest!: view_Inr)

lemma reduce_weights_averaged:
  assumes "outcome (reduce_weights T True True True ao aw bsz nh tgt_len src_len) = Inr (out, w)"
  shows "out = ao \<and> (\<exists>W. w = Some W \<and> shape W = [bsz, tgt_len, src_len] \<and> dtype W = Float
           \<and> length (elems W) = bsz * (tgt_len * src_len)
           \<and> (\<forall>b<bsz. \<forall>i<tgt_len. \<forall>j<src_len.
                 elems W ! ((b * tgt_len + i) * src_len + j)
                   = EFloat (float_div T
                       (elem_float (float_of_int T)
                          (sum_elems T (dtype aw)
                             (map (\<lambda>k. elems aw ! (((b * nat nh + k) * tgt_len + i) * src_len + j))
                                [0..<nat nh])))
                       (float_of_int T nh))))"
proof -
  let ?V = "aw\<lparr>shape := [bsz, nat nh, tgt_len, src_len]\<rparr>"
  from assms obtain V S where
    v: "view aw [int bsz, nh, int tgt_len, int src_len] = Inr V"
    and s: "sum_dim1 T V = Inr S"
    and r: "out = ao" "w = Some (div_scalar T S (float_of_int T nh))"
    by (auto simp: reduce_weights_def average_heads_def outcome_bind_Inr)
  have V: "V = ?V"
    using view_Inr[OF v] by simp
  obtain S' where S': "sum_dim1 T ?V = Inr S'" "shape S' = [bsz, tgt_len, src_len]"
    "length (elems S') = bsz * (tgt_len * src_len)"
    "\<forall>b<bsz. \<forall>i<tgt_len. \<forall>j<src_len.
        elems S' ! ((b * tgt_len + i) * src_len + j)
          = sum_elems T (dtype ?V)
              (map (\<lambda>k. elems ?V ! (((b * nat nh + k) * tgt_len + i) * src_len + j)) [0..<nat nh])"
    using sum_dim1_heads[of ?V bsz "nat nh" tgt_len src_len T] by auto
  have SS: "S = S'"
    using s S'(1) V by simp
  let ?W = "div_scalar T S (float_of_int T nh)"
  have e: "elems ?W ! ((b * tgt_len + i) * src_len + j)
             = EFloat (float_div T
                 (elem_float (float_of_int T)
                    (sum_elems T (dtype aw)
                       (map (\<lambda>k. elems aw ! (((b * nat nh + k) * tgt_len + i) * src_len + j))
                          [0..<nat nh])))
                 (float_of_int T nh))"
    if "b < bsz" "i < tgt_len" "j < src_len" for b i j
  proof -
    have "(b * tgt_len + i) * src_len + j < length (elems S)"
      using index_bound[OF that] S'(3) SS by simp
    then show ?thesis
      using S'(4) that SS by (simp add: div_scalar_def)
  qed
  show ?thesis
    using r S'(2,3) SS e by (simp add: div_scalar_def)
qed

lemma shape_vars_shape:
  "outcome (shape_vars q k v edc nh usp) = Inr (tgt_len, bsz, E, src_len, hd_dim)
     \<Longrightarrow> shape q = [tgt_len, bsz, E]"
  by (auto simp: shape_vars_def outcome_bind_Inr floordiv_def split: list.splits if_splits)

lemma unsqueeze_unbatched_batched:
  "unsqueeze_unbatched True query key val kpm = ret (query, key, val, kpm)"
  by (simp add: unsqueeze_unbatched_def)

text \<open>
  Claim C5. Take a call with \<^verbatim>\<open>need_weights=True\<close> on an input that the library's shape
  check takes as batched, so that the query has the shape \<^verbatim>\<open>[tgt_len, bsz, embed_dim]\<close>.
  If the call returns, it returns weights \<open>W\<close>, made (lines 612-622) from the per-head
  weights \<open>aw\<close> which the attention function returned in this call for the key \<open>k\<close>, with
  \<^verbatim>\<open>src_len = k.size(1)\<close>. With \<^verbatim>\<open>average_attn_weights=True\<close>, \<open>W\<close> has the shape
  \<^verbatim>\<open>[bsz, tgt_len, src_len]\<close> and its entry \<open>(b, i, j)\<close> is the library's sum over the heads
  \<open>h\<close> of the entries \<open>(b, h, i, j)\<close> of \<open>aw\<close>, read at the shape
  \<^verbatim>\<open>[bsz, num_heads, tgt_len, src_len]\<close>, divided by \<^verbatim>\<open>num_heads\<close>. With
  \<^verbatim>\<open>average_attn_weights=False\<close>, \<open>W\<close> is \<open>aw\<close> at the shape
  \<^verbatim>\<open>[bsz, num_heads, tgt_len, src_len]\<close>, element for element.
\<close>

theorem returned_attention_weights:
  assumes "outcome (multi_head_attention_forward T rng query key val edc nh ipw ipb bk bv az
             dp opw opb tr kpm True am usp qw kw vw sk sv avg kf mv af mf pf) = Inr (out, w)"
    and "F_mha_shape_check T query key val kpm am nh = Inr True"
  shows "\<exists>tgt_len bsz E src_len q k v m ao aw W.
           shape query = [tgt_len, bsz, E]
         \<and> outcome (size_at k 1) = Inr src_len
         \<and> outcome (af rng q k v m (if \<not> tr then 0 else dp) kf mv mf pf) = Inr (ao, aw)
         \<and> w = Some W
         \<and> (if avg
            then shape W = [bsz, tgt_len, src_len]
               \<and> length (elems W) = bsz * (tgt_len * src_len)
               \<and> (\<forall>b<bsz. \<forall>i<tgt_len. \<forall>j<src_len.
                     elems W ! ((b * tgt_len + i) * src_len + j)
                       = EFloat (float_div T
                           (elem_float (float_of_int T)
                              (sum_elems T (dtype aw)
                                 (map (\<lambda>h. elems aw ! (((b * nat nh + h) * tgt_len + i) * src_len + j))
                                    [0..<nat nh])))
                           (float_of_int T nh)))
            else W = aw\<lparr>shape := [bsz, nat nh, tgt_len, src_len]\<rparr>)"
proof -
  from engine_success[OF assms(1)]
  obtain is_batched query' key' val' kpm0 tgt_len bsz E src0 hd q0 k0 v0 am1 kpm1
      k2 v2 am2 kpm2 q k3 v3 k v am' kpm' src_len M m ao aw out' where
    chk: "F_mha_shape_check T query key val kpm am nh = Inr is_batched"
    and u: "outcome (unsqueeze_unbatched is_batched query key val kpm)
              = Inr (query', key', val', kpm0)"
    and sv: "outcome (shape_vars query' key' val' edc nh usp) = Inr (tgt_len, bsz, E, src0, hd)"
    and "outcome (compute_in_projection T query' key' val' usp ipw ipb qw kw vw)
           = Inr (q0, k0, v0)"
    and "outcome (prep_attn_mask T am tgt_len src0 bsz nh) = Inr am1"
    and "outcome (prep_key_padding_mask T kpm0) = Inr kpm1"
    and "outcome (add_bias_kv T k0 v0 bk bv sk sv bsz am1 kpm1) = Inr (k2, v2, am2, kpm2)"
    and "outcome (reshape_qkv q0 k2 v2 sk sv tgt_len bsz nh hd) = Inr (q, k3, v3)"
    and "outcome (add_zero_attention T az k3 v3 am2 kpm2 bsz nh hd) = Inr (k, v, am', kpm')"
    and sz: "outcome (size_at k 1) = Inr src_len"
    and "outcome (merge_masks T kpm' am' bsz src_len nh mv) = Inr M"
    and "outcome (mask_to_float T M q mv) = Inr m"
    and at: "outcome (af rng q k v m (if \<not> tr then 0 else dp) kf mv mf pf) = Inr (ao, aw)"
    and "outcome (out_projection T ao tgt_len bsz E opw opb) = Inr out'"
    and rw0: "outcome (reduce_weights T True avg is_batched out' aw bsz nh tgt_len src_len)
               = Inr (out, w)"
    by (elim exE conjE) (rule that)
  have b: "is_batched"
    using chk assms(2) by simp
  note rw = rw0[unfolded b[THEN eqTrueI]]
  have "query' = query"
    using u b by (simp add: unsqueeze_unbatched_batched)
  then have sh: "shape query = [tgt_len, bsz, E]"
    using shape_vars_shape[OF sv] by simp
  show ?thesis
  proof (cases avg)
    case True
    with rw have "outcome (reduce_weights T True True True out' aw bsz nh tgt_len src_len)
                    = Inr (out, w)"
      by simp
    from reduce_weights_averaged[OF this] obtain W where
      W: "w = Some W" "shape W = [bsz, tgt_len, src_len]"
      "length (elems W) = bsz * (tgt_len * src_len)"
      "\<forall>b<bsz. \<forall>i<tgt_len. \<forall>j<src_len.
         elems W ! ((b * tgt_len + i) * src_len + j)
           = EFloat (float_div T
               (elem_float (float_of_int T)
                  (sum_elems T (dtype aw)
                     (map (\<lambda>h. elems aw ! (((b * nat nh + h) * tgt_len + i) * src_len + j))
                        [0..<nat nh])))
               (float_of_int T nh))"
      by (elim conjE exE)
    show ?thesis
      unfolding if_P[OF True] using sh sz at W by blast
  next
    case False
    with rw have "outcome (reduce_weights T True False True out' aw bsz nh tgt_len src_len)
                    = Inr (out, w)"
      by simp
    from reduce_weights_unaveraged[OF this]
    have W: "w = Some (aw\<lparr>shape := [bsz, nat nh, tgt_len, src_len]\<rparr>)"
      by simp
    show ?thesis
      unfolding if_not_P[OF False] using sh sz at W by blast
  qed
qed


lemma exp_comm: "1 + exp (1::real) = exp 1 + 1"
  by simp

lemma half_exp: "(exp 1 / (exp 1 + 1) + 1 / (exp 1 + 1)) / 2 = (1 / 2 :: real)"
  "(1 / (exp 1 + 1) + exp 1 / (exp 1 + 1)) / 2 = (1 / 2 :: real)"
proof -
  have "exp (1::real) + 1 \<noteq> 0"
    using exp_gt_zero[of "1::real"] by linarith
  then show "(exp 1 / (exp 1 + 1) + 1 / (exp 1 + 1)) / 2 = (1 / 2 :: real)"
    "(1 / (exp 1 + 1) + exp 1 / (exp 1 + 1)) / 2 = (1 / 2 :: real)"
    by (simp_all add: add_divide_distrib[symmetric])
qed

lemma attention_q11_k21_unaveraged:
  "outcome (attention_q11_k21 False)
     = Inr (floats [1, 1, 2] [exp 1 / (exp 1 + 1), exp 1 / (exp 1 + 1)],
            Some (floats [1, 2, 1, 2]
                    [exp 1 / (exp 1 + 1), 1 / (exp 1 + 1), 1 / (exp 1 + 1), exp 1 / (exp 1 + 1)]))"
proof -
  have "outcome (attention_q11_k21 False)
     = Inr (floats [1, 1, 2] [exp 1 / (exp 1 + 1), exp 1 / (1 + exp 1)],
            Some (floats [1, 2, 1, 2]
                    [exp 1 / (exp 1 + 1), 1 / (exp 1 + 1), 1 / (1 + exp 1), exp 1 / (1 + exp 1)]))"
    by (simp add: attention_q11_k21_def comp_defs tensor_defs T0_defs engine_defs example_defs
          q11_def k21_def)
  then show ?thesis
    unfolding exp_comm .
qed

lemma attention_q11_k21_averaged:
  "outcome (attention_q11_k21 True)
     = Inr (floats [1, 1, 2] [exp 1 / (exp 1 + 1), exp 1 / (exp 1 + 1)],
            Some (floats [1, 1, 2] [1 / 2, 1 / 2]))"
proof -
  have "outcome (attention_q11_k21 True)
     = Inr (floats [1, 1, 2] [exp 1 / (exp 1 + 1), exp 1 / (1 + exp 1)],
            Some (floats [1, 1, 2] [(exp 1 / (exp 1 + 1) + 1 / (1 + exp 1)) / 2,
                                    (1 / (exp 1 + 1) + exp 1 / (1 + exp 1)) / 2]))"
    by (simp add: attention_q11_k21_def comp_defs tensor_defs T0_defs engine_defs example_defs
          q11_def k21_def)
  then show ?thesis
    unfolding exp_comm half_exp .
qed


theorem returned_attention_weights_witness:
  "F_mha_shape_check T0 q11 k21 k21 None None 2 = Inr True
   \<and> outcome (attention_q11_k21 True)
       = Inr (floats [1, 1, 2] [exp 1 / (exp 1 + 1), exp 1 / (exp 1 + 1)],
              Some (floats [1, 1, 2] [1 / 2, 1 / 2]))
   \<and> outcome (attention_q11_k21 False)
       = Inr (floats [1, 1, 2] [exp 1 / (exp 1 + 1), exp 1 / (exp 1 + 1)],
              Some (floats [1, 2, 1, 2]
                      [exp 1 / (exp 1 + 1), 1 / (exp 1 + 1), 1 / (exp 1 + 1), exp 1 / (exp 1 + 1)]))
   \<and> (\<exists>tgt_len bsz E src_len q k v m ao aw W.
           shape q11 = [tgt_len, bsz, E]
         \<and> outcome (size_at k 1) = Inr src_len
         \<and> outcome (scaled_dot_product_attention T0 0 q k v m 0 (kernel_softmax T0) (- 1000000)
                      (attn_masking T0) (scaled_dot_product T0)) = Inr (ao, aw)
         \<and> Some (floats [1, 1, 2] [1 / 2, 1 / 2]) = Some W
         \<and> shape W = [bsz, tgt_len, src_len]
         \<and> length (elems W) = bsz * (tgt_len * src_len)
         \<and> (\<forall>b<bsz. \<forall>i<tgt_len. \<forall>j<src_len.
               elems W ! ((b * tgt_len + i) * src_len + j)
                 = EFloat (float_div T0
                     (elem_float (float_of_int T0)
                        (sum_elems T0 (dtype aw)
                           (map (\<lambda>h. elems aw ! (((b * nat 2 + h) * tgt_len + i) * src_len + j))
                              [0..<nat 2])))
                     (float_of_int T0 2))))
   \<and> (\<exists>tgt_len bsz E src_len q k v m ao aw W.
           shape q11 = [tgt_len, bsz, E]
         \<and> outcome (size_at k 1) = Inr src_len
         \<and> outcome (scaled_dot_product_attention T0 0 q k v m 0 (kernel_softmax T0) (- 1000000)
                      (attn_masking T0) (scaled_dot_product T0)) = Inr (ao, aw)
         \<and> Some (floats [1, 2, 1, 2]
                   [exp 1 / (exp 1 + 1), 1 / (exp 1 + 1), 1 / (exp 1 + 1), exp 1 / (exp 1 + 1)])
             = Some W
         \<and> W = aw\<lparr>shape := [bsz, nat 2, tgt_len, src_len]\<rparr>)"
proof -
  have chk: "F_mha_shape_check T0 q11 k21 k21 None None 2 = Inr True"
    by (simp add: T0_def mha_shape_check_def q11_def k21_def floats_def dim_def)
  note avg = attention_q11_k21_averaged[unfolded attention_q11_k21_def]
  note unavg = attention_q11_k21_unaveraged[unfolded attention_q11_k21_def]
  note A = returned_attention_weights[OF avg chk, simplified if_True if_False not_False_eq_True]
  note B = returned_attention_weights[OF unavg chk, simplified if_True if_False not_False_eq_True]
  from chk attention_q11_k21_averaged attention_q11_k21_unaveraged A B show ?thesis
    by (intro conjI)
qed

section \<open>Tensors with as many elements as their shape says\<close>

lemma numel_append: "numel (xs @ ys) = numel xs * numel ys"
  by (simp add: numel_def)

lemma unsqueeze_elems:
  assumes "unsqueeze t d = Inr u" and "length (elems t) = numel (shape t)"
  shows "length (elems u) = numel (shape u)"
proof -
  have "prod_list (take d (shape t)) * prod_list (drop d (shape t)) = prod_list (shape t)"
    using prod_list.append[of "take d (shape t)" "drop d (shape t)"]
    by (simp only: append_take_drop_id)
  then have "numel (take d (shape t) @ [1] @ drop d (shape t)) = numel (shape t)"
    by (simp add: numel_def)
  then show ?thesis
    using assms by (auto simp: unsqueeze_def split: if_splits)
qed

lemma to_bool_elems [simp]: "length (elems (to_bool T m)) = length (elems m)"
  by (simp add: to_bool_def to_dtype_def)

lemma pad_last_elems:
  assumes "pad_last T t = Inr u" and "length (elems t) = numel (shape t)"
  shows "length (elems u) = numel (shape u)"
proof -
  let ?k = "numel (butlast (shape t))" and ?n = "last (shape t)"
  let ?rows = "map (\<lambda>row. row @ [zero_elem (float_of_int T) (dtype t)]) (chunks ?k ?n (elems t))"
  from assms(1) have ne: "shape t \<noteq> []"
    and u: "u = t\<lparr>shape := butlast (shape t) @ [Suc ?n], elems := concat ?rows\<rparr>"
    by (auto simp: pad_last_def split: if_splits)
  have "numel (shape t) = numel (butlast (shape t) @ [?n])"
    using ne by simp
  then have len: "length (elems t) = ?k * ?n"
    using assms(2) by (simp add: numel_append) (simp add: numel_def)
  have "length r = Suc ?n" if "r \<in> set ?rows" for r
    using that chunks_lengths[OF len] by auto
  then have "length (concat ?rows) = length ?rows * Suc ?n"
    by (rule length_concat_uniform)
  then show ?thesis
    by (simp add: u numel_append) (simp add: numel_def)
qed

lemma pad_opt_elems:
  assumes "outcome (pad_opt T x) = Inr y" and "pred_option (\<lambda>t. length (elems t) = numel (shape t)) x"
  shows "pred_option (\<lambda>t. length (elems t) = numel (shape t)) y \<and> (y = None \<longleftrightarrow> x = None)"
  using assms
  by (cases x) (auto simp: pad_opt_def outcome_bind_Inr dest: pad_last_elems)

lemma unsqueeze_unbatched_mask:
  assumes "outcome (unsqueeze_unbatched b query key val x) = Inr (query', key', val', y)"
    and "pred_option (\<lambda>t. length (elems t) = numel (shape t)) x"
  shows "pred_option (\<lambda>t. length (elems t) = numel (shape t)) y \<and> (y = None \<longleftrightarrow> x = None)"
  using assms
  by (cases b; cases x)
     (auto simp: unsqueeze_unbatched_def unsqueeze_opt_def outcome_bind_Inr dest: unsqueeze_elems)

lemma prep_key_padding_mask_elems:
  assumes "outcome (prep_key_padding_mask T x) = Inr y"
    and "pred_option (\<lambda>t. length (elems t) = numel (shape t)) x"
  shows "pred_option (\<lambda>t. length (elems t) = numel (shape t)) y \<and> (y = None \<longleftrightarrow> x = None)"
  using assms
  by (cases x) (auto simp: prep_key_padding_mask_def outcome_bind_Inr split: if_splits)

lemma add_bias_kv_masks:
  assumes "outcome (add_bias_kv T k v bk bv sk sv bsz x1 x2) = Inr (k', v', y1, y2)"
    and "pred_option (\<lambda>t. length (elems t) = numel (shape t)) x1"
    and "pred_option (\<lambda>t. length (elems t) = numel (shape t)) x2"
  shows "pred_option (\<lambda>t. length (elems t) = numel (shape t)) y1 \<and> (y1 = None \<longleftrightarrow> x1 = None)
       \<and> pred_option (\<lambda>t. length (elems t) = numel (shape t)) y2 \<and> (y2 = None \<longleftrightarrow> x2 = None)"
  using assms
  by (cases bk; cases bv)
     (auto simp: add_bias_kv_def outcome_bind_Inr split: if_splits dest!: pad_opt_elems)

lemma add_zero_attention_masks:
  assumes "outcome (add_zero_attention T az k v x1 x2 bsz nh hdim) = Inr (k', v', y1, y2)"
    and "pred_option (\<lambda>t. length (elems t) = numel (shape t)) x1"
    and "pred_option (\<lambda>t. length (elems t) = numel (shape t)) x2"
  shows "pred_option (\<lambda>t. length (elems t) = numel (shape t)) y1 \<and> (y1 = None \<longleftrightarrow> x1 = None)
       \<and> pred_option (\<lambda>t. length (elems t) = numel (shape t)) y2 \<and> (y2 = None \<longleftrightarrow> x2 = None)"
  using assms
  by (cases az)
     (auto simp: add_zero_attention_def outcome_bind_Inr dest!: pad_opt_elems)

lemma prep_attn_mask_elems:
  assumes "outcome (prep_attn_mask T x tgt_len src_len bsz nh) = Inr y"
    and "pred_option (\<lambda>t. length (elems t) = numel (shape t)) x"
  shows "pred_option (\<lambda>t. length (elems t) = numel (shape t)) y \<and> (y = None \<longleftrightarrow> x = None)"
  using assms
  by (cases x)
     (auto simp: prep_attn_mask_def outcome_bind_Inr split: if_splits dest: unsqueeze_elems)

section \<open>The merged mask in an engine call\<close>

lemma chunks_Nil: "chunks k n [] = replicate k []"
  by (induction k) simp_all

lemma expand_elems_Nil: "expand_elems src tgt [] = []"
proof (induction src arbitrary: tgt)
  case Nil
  then show ?case by simp
next
  case (Cons s ss)
  then show ?case
    by (cases tgt) (simp_all add: chunks_Nil)
qed

lemma expand_key_padding_mask_success:
  assumes "outcome (expand_key_padding_mask m bsz src_len nh) = Inr K"
    and "shape m = [bsz, src_len]" and "length (elems m) = bsz * src_len"
  shows "shape K = [bsz * nat nh, 1, src_len] \<and> dtype K = dtype m
       \<and> length (elems K) = bsz * nat nh * src_len
       \<and> (\<forall>b<bsz. \<forall>h<nat nh. \<forall>s<src_len.
             elems K ! ((b * nat nh + h) * src_len + s) = elems m ! (b * src_len + s))"
proof (cases "0 \<le> nh")
  case True
  have K: "K = m\<lparr>shape := [bsz * nat nh, 1, src_len],
                  elems := concat (map (\<lambda>row. concat (replicate (nat nh) row))
                             (chunks bsz src_len (elems m)))\<rparr>"
    using assms(1) expand_key_padding_mask_value[OF assms(2) True assms(3)] by simp
  have "elems K ! ((b * nat nh + h) * src_len + s) = elems m ! (b * src_len + s)"
    if "b < bsz" "h < nat nh" "s < src_len" for b h s
    using nth_expand_second[OF assms(3) that] by (simp add: K)
  moreover have "length (elems K) = bsz * nat nh * src_len"
    using length_expand_second[OF assms(3), of "nat nh"] by (simp add: K)
  ultimately show ?thesis
    by (simp add: K)
next
  case False
  from assms(1) obtain m1 m2 where
    v1: "view m [int bsz, 1, 1, int src_len] = Inr m1"
    and e2: "expand_sizes m1 [- 1, nh, - 1, - 1] = Inr m2"
    and v3: "view m2 [int bsz * nh, 1, int src_len] = Inr K"
    by (auto simp: expand_key_padding_mask_def outcome_bind_Inr)
  have "\<not> int bsz * nh < 0"
    using view_Inr[OF v3] by simp
  then have b0: "bsz = 0"
    using False by (cases bsz) (simp_all add: mult_pos_neg)
  have e: "elems m = []"
    using assms(3) b0 by simp
  have m1: "m1 = m\<lparr>shape := [bsz, 1, 1, src_len]\<rparr>"
    using view_Inr[OF v1] by simp
  have m2: "elems m2 = [] \<and> dtype m2 = dtype m"
    using e2 e m1
    by (auto simp: expand_sizes_def expand_def expand_elems_Nil split: if_splits)
  have K: "K = m2\<lparr>shape := [nat (int bsz * nh), 1, src_len]\<rparr>"
    using view_Inr[OF v3] by simp
  show ?thesis
    using m2 b0 False by (simp add: K)
qed

lemma merge_masks_success:
  assumes "outcome (merge_masks T (Some kp) a' bsz src_len nh mv) = Inr M0"
  shows "shape kp = [bsz, src_len]
       \<and> (\<exists>K M. outcome (expand_key_padding_mask kp bsz src_len nh) = Inr K \<and> M0 = Some M
             \<and> (case a' of
                  None \<Rightarrow> M = K
                | Some a \<Rightarrow> if dtype a = Bool then logical_or T a K = Inr M
                            else masked_fill a K mv = Inr M))"
  using assms
  by (cases a')
     (auto simp: merge_masks_def outcome_bind_Inr split: if_splits)

lemma masked_fill_dtypes:
  "masked_fill a k v = Inr R \<Longrightarrow> dtype k = Bool \<and> dtype a = Float"
  by (auto simp: masked_fill_def split: if_splits)

text \<open>
  Claim C7. A call with a key padding mask that returns has run the stages of the engine
  in order, each on the results of the ones before it. The key padding mask \<open>kp\<close> that
  reaches the merge (lines 567-583) is the given one after the adjustments: unsqueezed for
  an unbatched input, cast to boolean if it is a byte mask, padded with a column when
  \<^verbatim>\<open>bias_k\<close> and \<^verbatim>\<open>bias_v\<close> are given and again when \<^verbatim>\<open>add_zero_attn\<close> is set;
  \<^verbatim>\<open>src_len\<close> is \<^verbatim>\<open>k.size(1)\<close> for the key \<open>k\<close> after the same adjustments. Then \<open>kp\<close>
  has the shape \<^verbatim>\<open>[bsz, src_len]\<close> and is expanded to \<open>K\<close> of shape
  \<^verbatim>\<open>[bsz * num_heads, 1, src_len]\<close>, in which every head of batch item \<open>b\<close> has the row
  of \<open>b\<close>. The merged mask \<open>M\<close> is \<open>K\<close> when there is no attention mask, the
  \<^verbatim>\<open>logical_or\<close> of the attention mask and \<open>K\<close> when the attention mask is boolean, and
  otherwise the \<^verbatim>\<open>masked_fill\<close> of the attention mask with the mask fill value where \<open>K\<close>
  is true. For an attention mask of shape \<^verbatim>\<open>[bsz * num_heads, tgt_len, src_len]\<close> this is
  said element by element: the entry of head \<open>h\<close> of batch item \<open>b\<close> at target \<open>t\<close> and
  source \<open>s\<close> is true, or the fill value, where position \<open>s\<close> of item \<open>b\<close> is padding.
  \<open>M\<close>, turned into a floating mask if it is boolean (lines 585-589), is the mask with
  which the attention function is called. The masks given are tensors with as many
  elements as their shapes say.
\<close>

theorem key_padding_mask_merge:
  fixes kpm :: "'a tensor"
  assumes "outcome (multi_head_attention_forward T rng query key val edc nh ipw ipb bk bv az
             dp opw opb tr (Some kpm) nw am usp qw kw vw sk sv avg kf mv af mf pf) = Inr r"
    and "length (elems kpm) = numel (shape kpm)"
    and "case am of None \<Rightarrow> True | Some a \<Rightarrow> length (elems a) = numel (shape a)"
  shows "\<exists>is_batched query' key' val' kpm0 tgt_len bsz E src0 hdim q0 k0 v0 am1 kpm1
            k2 v2 am2 kpm2 q k3 v3 k v am' kp src_len K M m ao aw.
           F_mha_shape_check T query key val (Some kpm) am nh = Inr is_batched
         \<and> outcome (unsqueeze_unbatched is_batched query key val (Some kpm))
             = Inr (query', key', val', kpm0)
         \<and> outcome (shape_vars query' key' val' edc nh usp) = Inr (tgt_len, bsz, E, src0, hdim)
         \<and> outcome (compute_in_projection T query' key' val' usp ipw ipb qw kw vw)
             = Inr (q0, k0, v0)
         \<and> outcome (prep_attn_mask T am tgt_len src0 bsz nh) = Inr am1
         \<and> outcome (prep_key_padding_mask T kpm0) = Inr kpm1
         \<and> outcome (add_bias_kv T k0 v0 bk bv sk sv bsz am1 kpm1) = Inr (k2, v2, am2, kpm2)
         \<and> outcome (reshape_qkv q0 k2 v2 sk sv tgt_len bsz nh hdim) = Inr (q, k3, v3)
         \<and> outcome (add_zero_attention T az k3 v3 am2 kpm2 bsz nh hdim)
             = Inr (k, v, am', Some kp)
         \<and> outcome (size_at k 1) = Inr src_len
         \<and> shape kp = [bsz, src_len]
         \<and> outcome (expand_key_padding_mask kp bsz src_len nh) = Inr K
         \<and> shape K = [bsz * nat nh, 1, src_len]
         \<and> (\<forall>b<bsz. \<forall>h<nat nh. \<forall>s<src_len.
               elems K ! ((b * nat nh + h) * src_len + s) = elems kp ! (b * src_len + s))
         \<and> outcome (merge_masks T (Some kp) am' bsz src_len nh mv) = Inr (Some M)
         \<and> (case am' of
               None \<Rightarrow> M = K
             | Some a \<Rightarrow> if dtype a = Bool then logical_or T a K = Inr M
                         else masked_fill a K mv = Inr M)
         \<and> (\<forall>a. am' = Some a \<and> shape a = [bsz * nat nh, tgt_len, src_len]
               \<longrightarrow> shape M = [bsz * nat nh, tgt_len, src_len]
                 \<and> (\<forall>b<bsz. \<forall>h<nat nh. \<forall>t<tgt_len. \<forall>s<src_len.
                       elems M ! (((b * nat nh + h) * tgt_len + t) * src_len + s)
                         = (if dtype a = Bool
                            then EBool (elem_truth (float_nonzero T)
                                          (elems a ! (((b * nat nh + h) * tgt_len + t) * src_len + s))
                                        \<or> elem_truth (float_nonzero T)
                                             (elems kp ! (b * src_len + s)))
                            else if elems kp ! (b * src_len + s) = EBool True then EFloat mv
                            else elems a ! (((b * nat nh + h) * tgt_len + t) * src_len + s))))
         \<and> outcome (mask_to_float T (Some M) q mv) = Inr m
         \<and> outcome (af rng q k v m (if \<not> tr then 0 else dp) kf mv mf pf) = Inr (ao, aw)"
proof -
  let ?wf = "\<lambda>t::'a tensor. length (elems t) = numel (shape t)"
  from engine_success[OF assms(1)]
  obtain is_batched query' key' val' kpm0 tgt_len bsz E src0 hdim q0 k0 v0 am1 kpm1
      k2 v2 am2 kpm2 q k3 v3 k v am' kpm' src_len M0 m ao aw out' where
    s1: "F_mha_shape_check T query key val (Some kpm) am nh = Inr is_batched"
    and s2: "outcome (unsqueeze_unbatched is_batched query key val (Some kpm))
              = Inr (query', key', val', kpm0)"
    and s3: "outcome (shape_vars query' key' val' edc nh usp) = Inr (tgt_len, bsz, E, src0, hdim)"
    and s4: "outcome (compute_in_projection T query' key' val' usp ipw ipb qw kw vw)
           = Inr (q0, k0, v0)"
    and s5: "outcome (prep_attn_mask T am tgt_len src0 bsz nh) = Inr am1"
    and s6: "outcome (prep_key_padding_mask T kpm0) = Inr kpm1"
    and s7: "outcome (add_bias_kv T k0 v0 bk bv sk sv bsz am1 kpm1) = Inr (k2, v2, am2, kpm2)"
    and s8: "outcome (reshape_qkv q0 k2 v2 sk sv tgt_len bsz nh hdim) = Inr (q, k3, v3)"
    and s9: "outcome (add_zero_attention T az k3 v3 am2 kpm2 bsz nh hdim)
               = Inr (k, v, am', kpm')"
    and s10: "outcome (size_at k 1) = Inr src_len"
    and s11: "outcome (merge_masks T kpm' am' bsz src_len nh mv) = Inr M0"
    and s12: "outcome (mask_to_float T M0 q mv) = Inr m"
    and s13: "outcome (af rng q k v m (if \<not> tr then 0 else dp) kf mv mf pf) = Inr (ao, aw)"
    and "outcome (out_projection T ao tgt_len bsz E opw opb) = Inr out'"
    and "outcome (reduce_weights T nw avg is_batched out' aw bsz nh tgt_len src_len) = Inr r"
    by (elim exE conjE) (rule that)
  have wk: "pred_option ?wf (Some kpm)"
    using assms(2) by simp
  have wa: "pred_option ?wf am"
    using assms(3) by (cases am) simp_all
  note k0 = unsqueeze_unbatched_mask[OF s2 wk]
  note k1 = prep_key_padding_mask_elems[OF s6 k0[THEN conjunct1]]
  note a1 = prep_attn_mask_elems[OF s5 wa]
  note b2 = add_bias_kv_masks[OF s7 a1[THEN conjunct1] k1[THEN conjunct1]]
  note z3 = add_zero_attention_masks[OF s9 b2[THEN conjunct1] b2[THEN conjunct2, THEN conjunct2, THEN conjunct1]]
  have "kpm' \<noteq> None"
    using k0 k1 b2 z3 by simp
  then obtain kp where kp: "kpm' = Some kp"
    by (cases kpm') auto
  have wkp: "?wf kp"
    using z3 kp by simp
  have wam: "pred_option ?wf am'"
    using z3 by simp
  from merge_masks_success[OF s11[unfolded kp]] obtain K M where
    shkp: "shape kp = [bsz, src_len]"
    and ex: "outcome (expand_key_padding_mask kp bsz src_len nh) = Inr K"
    and M0: "M0 = Some M"
    and M: "case am' of
               None \<Rightarrow> M = K
             | Some a \<Rightarrow> if dtype a = Bool then logical_or T a K = Inr M
                         else masked_fill a K mv = Inr M"
    by blast
  have lkp: "length (elems kp) = bsz * src_len"
    using wkp shkp by (simp add: numel_def)
  note K = expand_key_padding_mask_success[OF ex shkp lkp]
  have shK: "shape K = [bsz * nat nh, 1, src_len]"
    and dK: "dtype K = dtype kp"
    and lK: "length (elems K) = bsz * nat nh * src_len"
    and eK: "\<forall>b<bsz. \<forall>h<nat nh. \<forall>s<src_len.
               elems K ! ((b * nat nh + h) * src_len + s) = elems kp ! (b * src_len + s)"
    using K by blast+
  have row: "b * nat nh + h < bsz * nat nh" if "b < bsz" "h < nat nh" for b h
  proof -
    have "b * nat nh + h < b * nat nh + nat nh" using that(2) by simp
    also have "\<dots> = Suc b * nat nh" by simp
    also have "\<dots> \<le> bsz * nat nh" using that(1) by (intro mult_le_mono1) simp
    finally show ?thesis .
  qed
  have el: "shape M = [bsz * nat nh, tgt_len, src_len]
          \<and> (\<forall>b<bsz. \<forall>h<nat nh. \<forall>t<tgt_len. \<forall>s<src_len.
                elems M ! (((b * nat nh + h) * tgt_len + t) * src_len + s)
                  = (if dtype a = Bool
                     then EBool (elem_truth (float_nonzero T)
                                   (elems a ! (((b * nat nh + h) * tgt_len + t) * src_len + s))
                                 \<or> elem_truth (float_nonzero T)
                                      (elems kp ! (b * src_len + s)))
                     else if elems kp ! (b * src_len + s) = EBool True then EFloat mv
                     else elems a ! (((b * nat nh + h) * tgt_len + t) * src_len + s)))"
    if a: "am' = Some a" "shape a = [bsz * nat nh, tgt_len, src_len]" for a
  proof -
    have la: "length (elems a) = bsz * nat nh * (tgt_len * src_len)"
      using wam a by (simp add: numel_def)
    show ?thesis
    proof (cases "dtype a = Bool")
      case True
      then have lo: "logical_or T a K = Inr M"
        using M a(1) by simp
      from logical_or_second[OF a(2) la shK lK, of T] lo
      have R: "shape M = [bsz * nat nh, tgt_len, src_len]"
        "\<forall>r<bsz * nat nh. \<forall>i<tgt_len. \<forall>j<src_len. elems M ! ((r * tgt_len + i) * src_len + j)
          = EBool (elem_truth (float_nonzero T) (elems a ! ((r * tgt_len + i) * src_len + j))
                   \<or> elem_truth (float_nonzero T) (elems K ! (r * src_len + j)))"
        by auto
      have "elems M ! (((b * nat nh + h) * tgt_len + t) * src_len + s)
              = EBool (elem_truth (float_nonzero T)
                         (elems a ! (((b * nat nh + h) * tgt_len + t) * src_len + s))
                       \<or> elem_truth (float_nonzero T) (elems kp ! (b * src_len + s)))"
        if "b < bsz" "h < nat nh" "t < tgt_len" "s < src_len" for b h t s
        using R(2) row[OF that(1,2)] that eK by simp
      then show ?thesis
        using R(1) True by simp
    next
      case False
      then have mf: "masked_fill a K mv = Inr M"
        using M a(1) by simp
      have dt: "dtype K = Bool" "dtype a = Float"
        using masked_fill_dtypes[OF mf] by simp_all
      from masked_fill_second[OF a(2) dt(2) la shK dt(1) lK, of mv] mf
      have R: "shape M = [bsz * nat nh, tgt_len, src_len]"
        "\<forall>r<bsz * nat nh. \<forall>i<tgt_len. \<forall>j<src_len. elems M ! ((r * tgt_len + i) * src_len + j)
          = (if elems K ! (r * src_len + j) = EBool True then EFloat mv
             else elems a ! ((r * tgt_len + i) * src_len + j))"
        by auto
      have "elems M ! (((b * nat nh + h) * tgt_len + t) * src_len + s)
              = (if elems kp ! (b * src_len + s) = EBool True then EFloat mv
                 else elems a ! (((b * nat nh + h) * tgt_len + t) * src_len + s))"
        if "b < bsz" "h < nat nh" "t < tgt_len" "s < src_len" for b h t s
        using R(2) row[OF that(1,2)] that eK by simp
      then show ?thesis
        using R(1) False by simp
    qed
  qed
  have el': "\<forall>a. am' = Some a \<and> shape a = [bsz * nat nh, tgt_len, src_len]
               \<longrightarrow> shape M = [bsz * nat nh, tgt_len, src_len]
                 \<and> (\<forall>b<bsz. \<forall>h<nat nh. \<forall>t<tgt_len. \<forall>s<src_len.
                       elems M ! (((b * nat nh + h) * tgt_len + t) * src_len + s)
                         = (if dtype a = Bool
                            then EBool (elem_truth (float_nonzero T)
                                          (elems a ! (((b * nat nh + h) * tgt_len + t) * src_len + s))
                                        \<or> elem_truth (float_nonzero T)
                                             (elems kp ! (b * src_len + s)))
                            else if elems kp ! (b * src_len + s) = EBool True then EFloat mv
                            else elems a ! (((b * nat nh + h) * tgt_len + t) * src_len + s)))"
    using el by blast
  note s9' = s9[unfolded kp] and s11' = s11[unfolded kp M0] and s12' = s12[unfolded M0]
  have body: "F_mha_shape_check T query key val (Some kpm) am nh = Inr is_batched
         \<and> outcome (unsqueeze_unbatched is_batched query key val (Some kpm))
             = Inr (query', key', val', kpm0)
         \<and> outcome (shape_vars query' key' val' edc nh usp) = Inr (tgt_len, bsz, E, src0, hdim)
         \<and> outcome (compute_in_projection T query' key' val' usp ipw ipb qw kw vw)
             = Inr (q0, k0, v0)
         \<and> outcome (prep_attn_mask T am tgt_len src0 bsz nh) = Inr am1
         \<and> outcome (prep_key_padding_mask T kpm0) = Inr kpm1
         \<and> outcome (add_bias_kv T k0 v0 bk bv sk sv bsz am1 kpm1) = Inr (k2, v2, am2, kpm2)
         \<and> outcome (reshape_qkv q0 k2 v2 sk sv tgt_len bsz nh hdim) = Inr (q, k3, v3)
         \<and> outcome (add_zero_attention T az k3 v3 am2 kpm2 bsz nh hdim)
             = Inr (k, v, am', Some kp)
         \<and> outcome (size_at k 1) = Inr src_len
         \<and> shape kp = [bsz, src_len]
         \<and> outcome (expand_key_padding_mask kp bsz src_len nh) = Inr K
         \<and> shape K = [bsz * nat nh, 1, src_len]
         \<and> (\<forall>b<bsz. \<forall>h<nat nh. \<forall>s<src_len.
               elems K ! ((b * nat nh + h) * src_len + s) = elems kp ! (b * src_len + s))
         \<and> outcome (merge_masks T (Some kp) am' bsz src_len nh mv) = Inr (Some M)
         \<and> (case am' of
               None \<Rightarrow> M = K
             | Some a \<Rightarrow> if dtype a = Bool then logical_or T a K = Inr M
                         else masked_fill a K mv = Inr M)
         \<and> (\<forall>a. am' = Some a \<and> shape a = [bsz * nat nh, tgt_len, src_len]
               \<longrightarrow> shape M = [bsz * nat nh, tgt_len, src_len]
                 \<and> (\<forall>b<bsz. \<forall>h<nat nh. \<forall>t<tgt_len. \<forall>s<src_len.
                       elems M ! (((b * nat nh + h) * tgt_len + t) * src_len + s)
                         = (if dtype a = Bool
                            then EBool (elem_truth (float_nonzero T)
                                          (elems a ! (((b * nat nh + h) * tgt_len + t) * src_len + s))
                                        \<or> elem_truth (float_nonzero T)
                                             (elems kp ! (b * src_len + s)))
                            else if elems kp ! (b * src_len + s) = EBool True then EFloat mv
                            else elems a ! (((b * nat nh + h) * tgt_len + t) * src_len + s))))
         \<and> outcome (mask_to_float T (Some M) q mv) = Inr m
         \<and> outcome (af rng q k v m (if \<not> tr then 0 else dp) kf mv mf pf) = Inr (ao, aw)"
    by (intro conjI) fact+
  show ?thesis
    by (intro exI) (rule body)
qed

lemma replicate_numeral_eval:
  "replicate (numeral n) x = x # replicate (pred_numeral n) x"
  by (simp add: numeral_eq_Suc)

lemma engine_padded_mask:
  "outcome (multi_head_attention_forward T0 0 q11 k21 k21 2 2
          (in_proj_weight layer2) (in_proj_bias layer2) None None True (1 / 2)
          (out_proj_weight layer2) (out_proj_bias layer2) False (Some kpm12) True (Some am212)
          False None None None None None False
          (kernel_softmax T0) (- 1000000) attention_returning_mask (attn_masking T0)
          (scaled_dot_product T0))
     = Inr (floats [1, 1, 2] [1, 1],
            Some (floats [1, 2, 1, 3] [1, - 1000000, 0, 3, - 1000000, 0]))"
  by (simp add: comp_defs tensor_defs T0_defs engine_defs example_defs q11_def k21_def
        kpm12_def am212_def attention_returning_mask_def replicate_numeral_eval)

theorem key_padding_mask_merge_witness:
  "outcome (multi_head_attention_forward T0 0 q11 k21 k21 2 2
          (in_proj_weight layer2) (in_proj_bias layer2) None None True (1 / 2)
          (out_proj_weight layer2) (out_proj_bias layer2) False (Some kpm12) True (Some am212)
          False None None None None None False
          (kernel_softmax T0) (- 1000000) attention_returning_mask (attn_masking T0)
          (scaled_dot_product T0))
     = Inr (floats [1, 1, 2] [1, 1],
            Some (floats [1, 2, 1, 3] [1, - 1000000, 0, 3, - 1000000, 0]))
   \<and> length (elems kpm12) = numel (shape kpm12)
   \<and> (case Some am212 of None \<Rightarrow> True | Some a \<Rightarrow> length (elems a) = numel (shape a))
   \<and> (\<exists>is_batched query' key' val' kpm0 tgt_len bsz E src0 hdim q0 k0 v0 am1 kpm1
            k2 v2 am2 kpm2 q k3 v3 k v am' kp src_len K M m ao aw.
           F_mha_shape_check T0 q11 k21 k21 (Some kpm12) (Some am212) 2 = Inr is_batched
         \<and> outcome (unsqueeze_unbatched is_batched q11 k21 k21 (Some kpm12))
             = Inr (query', key', val', kpm0)
         \<and> outcome (shape_vars query' key' val' 2 2 False) = Inr (tgt_len, bsz, E, src0, hdim)
         \<and> outcome (compute_in_projection T0 query' key' val' False (in_proj_weight layer2) (in_proj_bias layer2) None None None)
             = Inr (q0, k0, v0)
         \<and> outcome (prep_attn_mask T0 (Some am212) tgt_len src0 bsz 2) = Inr am1
         \<and> outcome (prep_key_padding_mask T0 kpm0) = Inr kpm1
         \<and> outcome (add_bias_kv T0 k0 v0 None None None None bsz am1 kpm1) = Inr (k2, v2, am2, kpm2)
         \<and> outcome (reshape_qkv q0 k2 v2 None None tgt_len bsz 2 hdim) = Inr (q, k3, v3)
         \<and> outcome (add_zero_attention T0 True k3 v3 am2 kpm2 bsz 2 hdim)
             = Inr (k, v, am', Some kp)
         \<and> outcome (size_at k 1) = Inr src_len
         \<and> shape kp = [bsz, src_len]
         \<and> outcome (expand_key_padding_mask kp bsz src_len 2) = Inr K
         \<and> shape K = [bsz * nat 2, 1, src_len]
         \<and> (\<forall>b<bsz. \<forall>h<nat 2. \<forall>s<src_len.
               elems K ! ((b * nat 2 + h) * src_len + s) = elems kp ! (b * src_len + s))
         \<and> outcome (merge_masks T0 (Some kp) am' bsz src_len 2 (- 1000000)) = Inr (Some M)
         \<and> (case am' of
               None \<Rightarrow> M = K
             | Some a \<Rightarrow> if dtype a = Bool then logical_or T0 a K = Inr M
                         else masked_fill a K (- 1000000) = Inr M)
         \<and> (\<forall>a. am' = Some a \<and> shape a = [bsz * nat 2, tgt_len, src_len]
               \<longrightarrow> shape M = [bsz * nat 2, tgt_len, src_len]
                 \<and> (\<forall>b<bsz. \<forall>h<nat 2. \<forall>t<tgt_len. \<forall>s<src_len.
                       elems M ! (((b * nat 2 + h) * tgt_len + t) * src_len + s)
                         = (if dtype a = Bool
                            then EBool (elem_truth (float_nonzero T0)
                                          (elems a ! (((b * nat 2 + h) * tgt_len + t) * src_len + s))
                                        \<or> elem_truth (float_nonzero T0)
                                             (elems kp ! (b * src_len + s)))
                            else if elems kp ! (b * src_len + s) = EBool True then EFloat (- 1000000)
                            else elems a ! (((b * nat 2 + h) * tgt_len + t) * src_len + s))))
         \<and> outcome (mask_to_float T0 (Some M) q (- 1000000)) = Inr m
         \<and> outcome (attention_returning_mask 0 q k v m (if \<not> False then 0 else (1 / 2)) (kernel_softmax T0) (- 1000000) (attn_masking T0) (scaled_dot_product T0)) = Inr (ao, aw))"
proof -
  have w1: "length (elems kpm12) = numel (shape kpm12)"
    by (simp add: kpm12_def bools_def numel_def)
  have w2: "case Some am212 of None \<Rightarrow> True | Some a \<Rightarrow> length (elems a) = numel (shape a)"
    by (simp add: am212_def floats_def numel_def)
  from engine_padded_mask w1 w2 key_padding_mask_merge[OF engine_padded_mask w1 w2]
  show ?thesis
    by (intro conjI)
qed

end
